(* ===== verification/Prelude.thy ===== *)
theory Prelude
  imports Main "HOL-Library.Word" "HOL-Library.Signed_Division"
begin

text \<open>
  Shared vocabulary of the development: the machine types of the Go program
  (bytes, \<open>int64\<close>, timestamps), Go's \<open>error\<close> values and panics as one
  sum type, Go's truncating signed division on \<open>int64\<close>, and the list lemmas
  that the store, repository and service proofs share. The collection
  \<open>layer_simps\<close> gathers the equations of the model that the component
  proofs unfold when they evaluate a request.
\<close>

named_theorems layer_simps "equations of the layered model, unfolded by the component proofs"
named_theorems eval_simps "rules that let the simplifier evaluate the model on concrete inputs"
named_theorems effect_rules "each layer's operations change the store only by one allowed command"

type_synonym byte = "8 word"
type_synonym int64 = "64 word"

text \<open>
  A Go \<open>time.Time\<close> as it is stored in a BSON datetime: milliseconds since
  the Unix epoch. The zero \<open>time.Time\<close> (January 1, year 1, UTC) is the value a
  \<open>models.Todo{}\<close> literal carries before the repository sets its timestamps.
\<close>

type_synonym go_time = int

definition go_zero_time :: go_time where
  "go_zero_time = -62135596800000"

text \<open>
  A Go \<open>error\<close> is modelled by its message (\<open>err.Error()\<close>); the handler
  layer classifies errors by comparing these strings. A panic unwinds through
  every layer until the recover middleware catches it; it is the second
  constructor, which no layer of the program handles.
\<close>

datatype go_error = GoError string | GoPanic string

primrec error_msg :: "go_error \<Rightarrow> string" where
  "error_msg (GoError m) = m"
| "error_msg (GoPanic m) = m"

type_synonym 'a result = "go_error + 'a"

text \<open>The single-quote and newline characters, for messages that contain them.\<close>

abbreviation sq :: char where
  "sq \<equiv> CHR 0x27"

abbreviation nl :: char where
  "nl \<equiv> CHR 0x0A"

text \<open>ASCII case folding, as PCRE's caseless matching and \<open>hex.Decode\<close> see letters.\<close>

definition ascii_lower :: "char \<Rightarrow> char" where
  "ascii_lower c =
     (let n = of_char c :: nat in if 65 \<le> n \<and> n \<le> 90 then char_of (n + 32) else c)"

text \<open>Text made of ASCII characters only (bytes below 128).\<close>

definition ascii_text :: "string \<Rightarrow> bool" where
  "ascii_text s = list_all (\<lambda>c. (of_char c :: nat) < 128) s"

text \<open>\<open>strings.Join(xs, sep)\<close>.\<close>

fun go_join :: "string \<Rightarrow> string list \<Rightarrow> string" where
  "go_join sep [] = []"
| "go_join sep [x] = x"
| "go_join sep (x # xs) = x @ sep @ go_join sep xs"

text \<open>
  Go's \<open>/\<close> on \<open>int64\<close>: the quotient truncated towards zero and wrapped to
  64 bits (\<open>math.MinInt64 / -1 = math.MinInt64\<close>); dividing by zero panics.
\<close>

definition go_div64 :: "int64 \<Rightarrow> int64 \<Rightarrow> int64 result" where
  "go_div64 a b =
     (if b = 0 then Inl (GoPanic ''runtime error: integer divide by zero'')
      else Inr (word_of_int (sint a sdiv sint b)))"

subsection \<open>Shared lemmas\<close>

lemma sdiv_nonneg_eq_div:
  "0 \<le> a \<Longrightarrow> 0 < b \<Longrightarrow> (a :: int) sdiv b = a div b"
  by (simp add: signed_divide_int_def sgn_if)

lemma go_div64_pos:
  assumes "0 \<le> sint a" and "0 < sint b"
  shows "go_div64 a b = Inr (word_of_int (sint a div sint b))"
proof -
  have "b \<noteq> 0" using assms(2) by auto
  with assms show ?thesis by (simp add: go_div64_def sdiv_nonneg_eq_div)
qed

text \<open>
  \<open>int64\<close> arithmetic that stays in range is integer arithmetic; the
  pagination proofs discharge their overflow side conditions with these.
\<close>

lemma sint64_add_exact:
  fixes a b :: int64
  assumes "- (2 ^ 63) \<le> sint a + sint b" and "sint a + sint b < 2 ^ 63"
  shows "sint (a + b) = sint a + sint b"
  using assms by (simp add: sint_word_ariths signed_take_bit_int_eq_self)

lemma sint64_diff_exact:
  fixes a b :: int64
  assumes "- (2 ^ 63) \<le> sint a - sint b" and "sint a - sint b < 2 ^ 63"
  shows "sint (a - b) = sint a - sint b"
  using assms by (simp add: sint_word_ariths signed_take_bit_int_eq_self)

lemma sint64_mult_exact:
  fixes a b :: int64
  assumes "- (2 ^ 63) \<le> sint a * sint b" and "sint a * sint b < 2 ^ 63"
  shows "sint (a * b) = sint a * sint b"
  using assms by (simp add: sint_word_ariths signed_take_bit_int_eq_self)

lemma sint64_of_nat: "n < 2 ^ 63 \<Longrightarrow> sint (of_nat n :: int64) = int n"
  by (simp add: signed_of_nat signed_take_bit_int_eq_self)

text \<open>
  Past the range, \<open>int64\<close> addition wraps by \<open>2^64\<close>, a product that is a
  multiple of \<open>2^64\<close> wraps to 0, and Go's division of a negative dividend
  truncates towards zero.
\<close>

lemma sint64_add_wraps:
  fixes a b :: int64
  assumes "2 ^ 63 \<le> sint a + sint b"
  shows "sint (a + b) = sint a + sint b - 2 ^ 64"
proof -
  have "sint a < 2 ^ 63" "sint b < 2 ^ 63" using sint_lt[of a] sint_lt[of b] by simp_all
  then have lt: "sint a + sint b + 2 ^ 63 - 2 ^ 64 < 2 ^ 64" by simp
  have "(sint a + sint b + 2 ^ 63) mod 2 ^ 64 = (sint a + sint b + 2 ^ 63 - 2 ^ 64 + 2 ^ 64) mod 2 ^ 64"
    by (simp add: ac_simps)
  also have "\<dots> = sint a + sint b + 2 ^ 63 - 2 ^ 64"
    using assms lt by (simp only: mod_add_self2) (rule mod_pos_pos_trivial, simp_all)
  finally have "(sint a + sint b + 2 ^ 63) mod 2 ^ 64 = sint a + sint b + 2 ^ 63 - 2 ^ 64" .
  then show ?thesis
    by (simp add: sint_word_ariths signed_take_bit_eq_take_bit_shift take_bit_eq_mod)
qed

lemma go_div64_neg:
  assumes "sint a < 0" and "0 < sint b"
  shows "go_div64 a b = Inr (word_of_int (- ((- sint a) div sint b)))"
proof -
  have "b \<noteq> 0" using assms(2) by auto
  with assms show ?thesis by (simp add: go_div64_def signed_divide_int_def)
qed

lemma int64_mult_wraps_to_zero:
  fixes a b :: int64
  assumes "2 ^ 64 dvd sint a * sint b"
  shows "a * b = 0"
proof -
  obtain k where k: "sint a * sint b = 2 ^ 64 * k" using assms by (auto elim: dvdE)
  have "a * b = word_of_int (sint a) * word_of_int (sint b)" by simp
  also have "\<dots> = word_of_int (sint a * sint b)" by (simp only: of_int_mult)
  also have "\<dots> = word_of_int (2 ^ 64) * word_of_int k" by (simp only: k of_int_mult)
  also have "(word_of_int (2 ^ 64) :: int64) = 0" by simp
  finally show ?thesis by simp
qed

text \<open>\<open>(m + k - 1) / k\<close> rounds up: it is the least \<open>t\<close> with \<open>m \<le> t * k\<close>.\<close>

lemma div_round_up_least:
  fixes m k :: int
  assumes "0 < k"
  shows "((m + k - 1) div k - 1) * k < m \<and> m \<le> (m + k - 1) div k * k"
proof -
  define d s where "d = (m + k - 1) div k" and "s = (m + k - 1) mod k"
  have e: "m + k - 1 = d * k + s" by (simp add: d_def s_def)
  have "0 \<le> s" "s < k" using assms by (simp_all add: s_def)
  then have "(d - 1) * k < m \<and> m \<le> d * k" using e by (simp add: algebra_simps)
  then show ?thesis by (simp add: d_def)
qed

lemma eq_char_of_iff [eval_simps]: "c = char_of n \<longleftrightarrow> of_char c = take_bit 8 n"
  using char_of_eq_iff[of n c] by auto

declare char_of_eq_iff [eval_simps]

lemma ascii_lower_idem [simp]: "ascii_lower (ascii_lower c) = ascii_lower c"
  by (auto simp: ascii_lower_def Let_def)

lemma ascii_lower_slash_iff: "ascii_lower c = CHR ''/'' \<longleftrightarrow> c = CHR ''/''"
  by (auto simp: ascii_lower_def Let_def eval_simps take_bit_nat_eq_self)

lemma base256_digit_eq:
  fixes A B a b :: nat
  assumes "a < 256" and "b < 256"
  shows "256 * A + a = 256 * B + b \<longleftrightarrow> A = B \<and> a = b"
proof
  assume eq: "256 * A + a = 256 * B + b"
  have "A = (256 * A + a) div 256" "a = (256 * A + a) mod 256" using assms by simp_all
  moreover have "B = (256 * B + b) div 256" "b = (256 * B + b) mod 256" using assms by simp_all
  ultimately show "A = B \<and> a = b" using eq by metis
qed simp

end
