(* ===== verification/Model.thy ===== *)
theory Model
  imports Prelude
begin

text \<open>
  The data of the program: the \<open>Todo\<close> document (\<open>src/models/todo.go\<close>),
  the two request bodies (\<open>src/dtos/\<close>) and the check that the
  \<open>go-playground/validator\<close> package performs on a \<open>Todo\<close> from its struct
  tags, as the service calls it through \<open>StructPartial\<close>.
\<close>

text \<open>\<open>primitive.ObjectID\<close> is a \<open>[12]byte\<close> array; \<open>NilObjectID\<close> is all zeros.\<close>

type_synonym object_id = "byte list"

definition NilObjectID :: object_id where
  "NilObjectID = replicate 12 0"

record todo =
  ID :: object_id
  Title :: string
  Description :: string
  Complete :: bool
  CreatedAt :: go_time
  UpdatedAt :: go_time

text \<open>
  The request bodies after \<open>BodyParser\<close>. A JSON field that is absent
  decodes to Go's zero value: \<open>""\<close> for the strings, \<open>nil\<close> (here \<open>None\<close>)
  for the \<open>*bool\<close> of the update request.
\<close>

record create_todo_request =
  CreateTitle :: string
  CreateDescription :: string

record update_todo_request =
  UpdateTitle :: string
  UpdateDescription :: string
  UpdateComplete :: "bool option"

subsection \<open>Struct-tag validation\<close>

text \<open>
  The only validation tag of \<open>models.Todo\<close> is \<open>validate:"required"\<close> on
  \<open>Title\<close>; \<open>required\<close> on a string field fails for the zero value \<open>""\<close>.
  \<open>todo_required_fields\<close> lists the tagged fields in struct order with the
  test each must pass.
\<close>

definition todo_required_fields :: "(string \<times> (todo \<Rightarrow> bool)) list" where
  "todo_required_fields = [(''Title'', \<lambda>t. Title t \<noteq> [])]"

definition field_error_msg :: "string \<Rightarrow> string" where
  "field_error_msg f =
     ''Key: '' @ [sq] @ ''Todo.'' @ f @ [sq] @ '' Error:Field validation for '' @ [sq] @ f @ [sq]
     @ '' failed on the '' @ [sq] @ ''required'' @ [sq] @ '' tag''"

text \<open>
  \<open>StructPartial(todo, fields...)\<close> validates exactly the fields it is given
  by name (\<open>Todo.<Field>\<close> namespaces) and skips every other field: with no
  names it validates nothing. The error lists one line per failing field.
\<close>

definition struct_partial :: "todo \<Rightarrow> string list \<Rightarrow> go_error option" where
  "struct_partial t names =
     (case [n. (n, ok) \<leftarrow> todo_required_fields, n \<in> set names \<and> \<not> ok t] of
        [] \<Rightarrow> None
      | errs \<Rightarrow> Some (GoError (go_join [nl] (map field_error_msg errs))))"

lemma struct_partial_no_fields [simp]: "struct_partial t [] = None"
  by (simp add: struct_partial_def todo_required_fields_def)

lemma struct_partial_title:
  "''Title'' \<in> set names \<Longrightarrow>
   struct_partial t names =
     (if Title t = [] then Some (GoError (field_error_msg ''Title'')) else None)"
  by (simp add: struct_partial_def todo_required_fields_def)

end
