(* ===== verification/ObjectId.thy ===== *)
theory ObjectId
  imports Model
begin

text \<open>
  Object identifiers of the MongoDB Go driver (\<open>bson/primitive\<close>), as the
  program uses them: the service parses every id of a request path with
  \<open>primitive.ObjectIDFromHex\<close>, the repository creates ids with
  \<open>primitive.NewObjectID\<close>, and an id reaches the client as \<open>ObjectID.Hex()\<close>
  (its JSON form). This theory models the hex codec of \<open>encoding/hex\<close> with its
  error values, the parser and printer of ids and their round trips, and the
  byte layout of a new id (timestamp, process-unique bytes, counter).
\<close>

subsection \<open>encoding/hex\<close>

definition hex_digit_value :: "char \<Rightarrow> nat option" where
  "hex_digit_value c =
     (let n = of_char c :: nat in
      if 48 \<le> n \<and> n \<le> 57 then Some (n - 48)
      else if 97 \<le> n \<and> n \<le> 102 then Some (n - 87)
      else if 65 \<le> n \<and> n \<le> 70 then Some (n - 55)
      else None)"

definition lower_hex_digit :: "nat \<Rightarrow> char" where
  "lower_hex_digit d = (if d < 10 then char_of (48 + d) else char_of (87 + d))"

definition upper_hex_digit :: "nat \<Rightarrow> char" where
  "upper_hex_digit d = (if d < 10 then char_of (48 + d) else char_of (55 + d))"

datatype hex_error = InvalidByteError char | ErrLength

text \<open>
  \<open>InvalidByteError.Error()\<close> prints the byte with \<open>%#U\<close>: \<open>U+\<close> and four
  upper-case hex digits, then the character in quotes when \<open>strconv.IsPrint\<close>
  holds for it (for a byte read as a rune: the printable ASCII characters and
  U+00A1 to U+00FF except the soft hyphen U+00AD), written in UTF-8.
\<close>

definition rune_is_print :: "nat \<Rightarrow> bool" where
  "rune_is_print r = ((32 \<le> r \<and> r < 127) \<or> (161 \<le> r \<and> r \<le> 255 \<and> r \<noteq> 173))"

definition utf8_of_byte_rune :: "nat \<Rightarrow> string" where
  "utf8_of_byte_rune r =
     (if r < 128 then [char_of r] else [char_of (192 + r div 64), char_of (128 + r mod 64)])"

definition fmt_sharp_U :: "nat \<Rightarrow> string" where
  "fmt_sharp_U r =
     ''U+'' @ map (\<lambda>k. upper_hex_digit (r div 16 ^ k mod 16)) [3, 2, 1, 0]
     @ (if rune_is_print r then '' '' @ [sq] @ utf8_of_byte_rune r @ [sq] else [])"

primrec hex_error_msg :: "hex_error \<Rightarrow> string" where
  "hex_error_msg (InvalidByteError c) = ''encoding/hex: invalid byte: '' @ fmt_sharp_U (of_char c)"
| "hex_error_msg ErrLength = ''encoding/hex: odd length hex string''"

text \<open>
  \<open>hex.Decode\<close> reads the input two characters at a time from the left and
  stops at the first character that is not a hex digit; an odd trailing
  character is checked before the length error is reported.
\<close>

fun hex_decode :: "string \<Rightarrow> hex_error + byte list" where
  "hex_decode [] = Inr []"
| "hex_decode [c] =
     (case hex_digit_value c of None \<Rightarrow> Inl (InvalidByteError c) | Some _ \<Rightarrow> Inl ErrLength)"
| "hex_decode (p # q # rest) =
     (case hex_digit_value p of
        None \<Rightarrow> Inl (InvalidByteError p)
      | Some a \<Rightarrow>
          (case hex_digit_value q of
             None \<Rightarrow> Inl (InvalidByteError q)
           | Some b \<Rightarrow>
               (case hex_decode rest of
                  Inl e \<Rightarrow> Inl e
                | Inr bs \<Rightarrow> Inr (of_nat (16 * a + b) # bs))))"

definition byte_hex :: "byte \<Rightarrow> string" where
  "byte_hex w = [lower_hex_digit (unat w div 16), lower_hex_digit (unat w mod 16)]"

definition hex_encode :: "byte list \<Rightarrow> string" where
  "hex_encode bs = concat (map byte_hex bs)"

subsection \<open>ObjectIDFromHex and Hex\<close>

definition ErrInvalidHex :: string where
  "ErrInvalidHex = ''the provided hex string is not a valid ObjectID''"

definition object_id_from_hex :: "string \<Rightarrow> object_id result" where
  "object_id_from_hex s =
     (if length s \<noteq> 24 then Inl (GoError ErrInvalidHex)
      else (case hex_decode s of
              Inl e \<Rightarrow> Inl (GoError (hex_error_msg e))
            | Inr b \<Rightarrow> Inr b))"

definition object_id_hex :: "object_id \<Rightarrow> string" where
  "object_id_hex oid = hex_encode oid"

subsection \<open>NewObjectID\<close>

text \<open>
  \<open>be_bytes k n\<close>: the low \<open>k\<close> bytes of \<open>n\<close>, most significant first
  (\<open>binary.BigEndian.PutUint32\<close> for \<open>k = 4\<close>, the driver's \<open>putUint24\<close> for
  \<open>k = 3\<close>).
\<close>

fun be_bytes :: "nat \<Rightarrow> nat \<Rightarrow> byte list" where
  "be_bytes 0 n = []"
| "be_bytes (Suc k) n = be_bytes k (n div 256) @ [of_nat n]"

text \<open>
  \<open>NewObjectIDFromTimestamp\<close>: four bytes of \<open>uint32(t.Unix())\<close>, the five
  process-unique random bytes drawn at start-up, and the low three bytes of
  the value returned by \<open>atomic.AddUint32(&objectIDCounter, 1)\<close>.
\<close>

definition object_id_layout :: "go_time \<Rightarrow> byte list \<Rightarrow> 32 word \<Rightarrow> object_id" where
  "object_id_layout now process counter =
     be_bytes 4 (nat ((now div 1000) mod 2 ^ 32)) @ process @ be_bytes 3 (unat counter)"

subsection \<open>Codec lemmas\<close>

lemma hex_digit_value_lower: "d < 16 \<Longrightarrow> hex_digit_value (lower_hex_digit d) = Some d"
  by (auto simp: hex_digit_value_def lower_hex_digit_def Let_def)

lemma hex_digit_value_Some:
  "hex_digit_value c = Some d \<Longrightarrow> d < 16 \<and> lower_hex_digit d = ascii_lower c"
  by (auto simp: hex_digit_value_def lower_hex_digit_def ascii_lower_def Let_def split: if_splits)

lemma byte_of_hex_pair: "a < 16 \<Longrightarrow> b < 16 \<Longrightarrow> unat (of_nat (16 * a + b) :: byte) = 16 * a + b"
  by (rule of_nat_inverse) simp_all

lemma hex_decode_encode: "hex_decode (hex_encode bs) = Inr bs"
proof (induction bs)
  case Nil
  then show ?case by (simp add: hex_encode_def)
next
  case (Cons w bs)
  have "unat w < 256" using unsigned_less[of w] by simp
  then have "unat w div 16 < 16" by simp
  moreover have "unat w mod 16 < 16" by simp
  ultimately show ?case using Cons.IH
    by (simp add: hex_encode_def byte_hex_def hex_digit_value_lower)
qed

lemma length_hex_encode: "length (hex_encode bs) = 2 * length bs"
  by (induction bs) (auto simp: hex_encode_def byte_hex_def)

lemma hex_decode_Inr:
  "hex_decode s = Inr bs \<Longrightarrow> hex_encode bs = map ascii_lower s \<and> length s = 2 * length bs"
proof (induction s arbitrary: bs rule: hex_decode.induct)
  case 1
  then show ?case by (simp add: hex_encode_def)
next
  case (2 c)
  then show ?case by (simp split: option.splits)
next
  case (3 p q rest)
  from "3.prems" obtain a b bs' where
    pa: "hex_digit_value p = Some a" and qb: "hex_digit_value q = Some b" and
    r: "hex_decode rest = Inr bs'" and bs: "bs = of_nat (16 * a + b) # bs'"
    by (auto split: option.splits sum.splits)
  from pa qb have ab: "a < 16" "b < 16" "lower_hex_digit a = ascii_lower p" "lower_hex_digit b = ascii_lower q"
    using hex_digit_value_Some by blast+
  then have "unat (of_nat (16 * a + b) :: byte) = 16 * a + b"
    by (simp only: byte_of_hex_pair)
  with ab have "byte_hex (of_nat (16 * a + b)) = [ascii_lower p, ascii_lower q]"
    by (simp only: byte_hex_def) simp
  with "3.IH"[OF pa qb r] bs show ?case by (simp add: hex_encode_def)
qed

lemma object_id_hex_roundtrip:
  "length oid = 12 \<Longrightarrow> object_id_from_hex (object_id_hex oid) = Inr oid"
  by (simp add: object_id_from_hex_def object_id_hex_def length_hex_encode hex_decode_encode)

lemma object_id_from_hex_Inr:
  "object_id_from_hex s = Inr oid \<Longrightarrow> length oid = 12 \<and> object_id_hex oid = map ascii_lower s"
  using hex_decode_Inr[of s oid]
  by (auto simp: object_id_from_hex_def object_id_hex_def split: if_splits sum.splits)

subsection \<open>NewObjectID lemmas\<close>

lemma be_bytes_numeral [eval_simps]:
  "be_bytes (numeral k) n = be_bytes (pred_numeral k) (n div 256) @ [of_nat n]"
  by (simp only: numeral_eq_Suc be_bytes.simps)

lemma be_bytes_length [simp]: "length (be_bytes k n) = k"
  by (induction k arbitrary: n) auto

lemma be_bytes_eq_iff: "be_bytes k m = be_bytes k n \<longleftrightarrow> m mod 256 ^ k = n mod 256 ^ k"
proof (induction k arbitrary: m n)
  case 0
  then show ?case by simp
next
  case (Suc k)
  have byte: "(of_nat m :: byte) = of_nat n \<longleftrightarrow> m mod 256 = n mod 256"
    by (simp add: word_of_nat_eq_iff take_bit_eq_mod)
  have split: "\<And>x::nat. x mod 256 ^ Suc k = 256 * (x div 256 mod 256 ^ k) + x mod 256"
    by (simp add: mod_mult2_eq)
  have "be_bytes (Suc k) m = be_bytes (Suc k) n \<longleftrightarrow>
      be_bytes k (m div 256) = be_bytes k (n div 256) \<and> (of_nat m :: byte) = of_nat n"
    by simp
  also have "\<dots> \<longleftrightarrow> m div 256 mod 256 ^ k = n div 256 mod 256 ^ k \<and> m mod 256 = n mod 256"
    by (simp add: Suc.IH byte)
  also have "\<dots> \<longleftrightarrow> m mod 256 ^ Suc k = n mod 256 ^ Suc k"
    using base256_digit_eq[of "m mod 256" "n mod 256" "m div 256 mod 256 ^ k" "n div 256 mod 256 ^ k"]
    by (simp only: split)
  finally show ?case .
qed

end
