(* ===== verification/Regex.thy ===== *)
theory Regex
  imports Prelude "HOL-Library.Sublist"
begin

text \<open>
  The title filter of the list operation. The service passes the title query
  parameter to MongoDB as \<open>primitive.Regex{Pattern: title, Options: "i"}\<close>,
  so the server matches it as a caseless PCRE regular expression, unanchored
  unless it starts with \<open>^\<close>. This theory models the fragment of PCRE made
  of literal characters, \<open>.\<close> (any character but a newline), \<open>*\<close> after
  a character, a leading \<open>^\<close> and a trailing \<open>$\<close> (end of the subject or
  before its final newline), with ASCII case folding. On patterns with no
  metacharacter at all it is exactly case-insensitive substring search
  (\<open>pcre_match_i_literal\<close>), which is what the specification promises.
  Other PCRE syntax (classes, groups, alternation, \<open>+\<close>, \<open>?\<close>, escapes,
  Unicode case folding) is outside the model: the matcher reads those
  characters as literals.
\<close>

definition pcre_meta_chars :: string where
  "pcre_meta_chars = CHR 0x5C # ''^$.|?*+()[]{}''"

definition char_matches :: "char \<Rightarrow> char \<Rightarrow> bool" where
  "char_matches c x = ((c = CHR ''.'' \<and> x \<noteq> nl) \<or> (c \<noteq> CHR ''.'' \<and> ascii_lower c = ascii_lower x))"

text \<open>
  The backtracking matcher: \<open>match_here re t\<close> matches \<open>re\<close> at the start
  of \<open>t\<close>; \<open>match_star c re t\<close> matches \<open>c*\<close> followed by \<open>re\<close>.
\<close>

fun match_here :: "string \<Rightarrow> string \<Rightarrow> bool"
and match_star :: "char \<Rightarrow> string \<Rightarrow> string \<Rightarrow> bool" where
  "match_here [] t = True"
| "match_here (c # re) t =
     (if re \<noteq> [] \<and> hd re = CHR ''*'' then match_star c (tl re) t
      else if c = CHR ''$'' \<and> re = [] then t = [] \<or> t = [nl]
      else (case t of [] \<Rightarrow> False | x # t' \<Rightarrow> char_matches c x \<and> match_here re t'))"
| "match_star c re t =
     (match_here re t \<or> (case t of [] \<Rightarrow> False | x # t' \<Rightarrow> char_matches c x \<and> match_star c re t'))"

fun match_anywhere :: "string \<Rightarrow> string \<Rightarrow> bool" where
  "match_anywhere re [] = match_here re []"
| "match_anywhere re (x # t) = (match_here re (x # t) \<or> match_anywhere re t)"

definition pcre_match_i :: "string \<Rightarrow> string \<Rightarrow> bool" where
  "pcre_match_i p s =
     (if p \<noteq> [] \<and> hd p = CHR ''^'' then match_here (tl p) s else match_anywhere p s)"

definition literal_pattern :: "string \<Rightarrow> bool" where
  "literal_pattern p = (\<forall>c \<in> set p. c \<notin> set pcre_meta_chars)"

text \<open>
  The server compiles the pattern in PCRE's UTF mode, which refuses a pattern
  that is not well-formed UTF-8 (RFC 3629: no overlong forms, no surrogates,
  nothing above U+10FFFF). \<open>utf8_lead b\<close> gives the ranges of the
  continuation bytes a lead byte \<open>b\<close> requires, \<open>None\<close> for a byte that
  cannot start a character.
\<close>

definition utf8_lead :: "nat \<Rightarrow> (nat \<times> nat) list option" where
  "utf8_lead b =
     (if b < 0x80 then Some []
      else if 0xC2 \<le> b \<and> b \<le> 0xDF then Some [(0x80, 0xBF)]
      else if b = 0xE0 then Some [(0xA0, 0xBF), (0x80, 0xBF)]
      else if (0xE1 \<le> b \<and> b \<le> 0xEC) \<or> b = 0xEE \<or> b = 0xEF then Some [(0x80, 0xBF), (0x80, 0xBF)]
      else if b = 0xED then Some [(0x80, 0x9F), (0x80, 0xBF)]
      else if b = 0xF0 then Some [(0x90, 0xBF), (0x80, 0xBF), (0x80, 0xBF)]
      else if 0xF1 \<le> b \<and> b \<le> 0xF3 then Some [(0x80, 0xBF), (0x80, 0xBF), (0x80, 0xBF)]
      else if b = 0xF4 then Some [(0x80, 0x8F), (0x80, 0xBF), (0x80, 0xBF)]
      else None)"

fun utf8_check :: "(nat \<times> nat) list \<Rightarrow> string \<Rightarrow> bool" where
  "utf8_check [] [] = True"
| "utf8_check (_ # _) [] = False"
| "utf8_check ((lo, hi) # rs) (c # cs) = (lo \<le> of_char c \<and> of_char c \<le> hi \<and> utf8_check rs cs)"
| "utf8_check [] (c # cs) = (case utf8_lead (of_char c) of None \<Rightarrow> False | Some rs \<Rightarrow> utf8_check rs cs)"

definition utf8_valid :: "string \<Rightarrow> bool" where
  "utf8_valid s = utf8_check [] s"

text \<open>
  The fragment the matcher models faithfully: an optional leading \<open>^\<close>,
  then atoms (a character that is not a metacharacter, or \<open>.\<close>), each
  optionally followed by one \<open>*\<close>, then an optional trailing \<open>$\<close>, in
  ASCII without NUL. Every such pattern compiles, and on ASCII subjects PCRE's
  caseless matching is ASCII case folding. The theorems about the title filter
  assume their pattern is in this fragment.
\<close>

definition pcre_atom :: "char \<Rightarrow> bool" where
  "pcre_atom c = (c = CHR ''.'' \<or> c \<notin> set pcre_meta_chars)"

fun fragment_items :: "string \<Rightarrow> bool" where
  "fragment_items [] = True"
| "fragment_items [c] = pcre_atom c"
| "fragment_items (c # d # cs) =
     (pcre_atom c \<and> (if d = CHR ''*'' then fragment_items cs else fragment_items (d # cs)))"

definition pcre_fragment :: "string \<Rightarrow> bool" where
  "pcre_fragment p =
     (let p1 = (if p \<noteq> [] \<and> hd p = CHR ''^'' then tl p else p);
          p2 = (if p1 \<noteq> [] \<and> last p1 = CHR ''$'' then butlast p1 else p1)
      in fragment_items p2 \<and> ascii_text p \<and> CHR 0x00 \<notin> set p)"

subsection \<open>Literal patterns are substring search\<close>

lemma match_here_literal:
  "literal_pattern p \<Longrightarrow> match_here p t = prefix (map ascii_lower p) (map ascii_lower t)"
proof (induction p arbitrary: t)
  case Nil
  then show ?case by simp
next
  case (Cons c p)
  from Cons.prems have c: "c \<noteq> CHR ''*''" "c \<noteq> CHR ''$''" "c \<noteq> CHR ''.''" and p: "literal_pattern p"
    by (auto simp: literal_pattern_def pcre_meta_chars_def)
  from Cons.prems have "p \<noteq> [] \<Longrightarrow> hd p \<noteq> CHR ''*''"
    by (cases p) (auto simp: literal_pattern_def pcre_meta_chars_def)
  with c Cons.IH[OF p] show ?case
    by (cases t) (auto simp: char_matches_def)
qed

lemma match_anywhere_literal:
  "literal_pattern p \<Longrightarrow> match_anywhere p t = sublist (map ascii_lower p) (map ascii_lower t)"
proof (induction t)
  case Nil
  then show ?case by (simp add: match_here_literal)
next
  case (Cons x t)
  then show ?case by (simp add: match_here_literal sublist_Cons_right)
qed

lemma pcre_match_i_literal:
  "literal_pattern p \<Longrightarrow> pcre_match_i p s = sublist (map ascii_lower p) (map ascii_lower s)"
proof -
  assume lit: "literal_pattern p"
  then have "p \<noteq> [] \<Longrightarrow> hd p \<noteq> CHR ''^''"
    by (cases p) (auto simp: literal_pattern_def pcre_meta_chars_def)
  with lit show ?thesis by (auto simp: pcre_match_i_def match_anywhere_literal)
qed

subsection \<open>The fragment\<close>

lemma utf8_check_ascii: "ascii_text s \<Longrightarrow> utf8_check [] s"
  by (induction s) (auto simp: ascii_text_def utf8_lead_def)

lemma ascii_utf8_valid: "ascii_text s \<Longrightarrow> utf8_valid s"
  by (simp add: utf8_valid_def utf8_check_ascii)

lemma pcre_fragment_encodable: "pcre_fragment p \<Longrightarrow> ascii_text p \<and> CHR 0x00 \<notin> set p"
  by (simp add: pcre_fragment_def Let_def)

end
