(* ===== verification/Store.thy ===== *)
theory Store
  imports ObjectId Regex
begin

text \<open>
  The document store as the repository sees it: the collection
  \<open>todolist_fiber.todos\<close> and the six driver calls of
  \<open>src/repositories/todo_repository.go\<close> (\<open>InsertOne\<close>, \<open>Find\<close> with
  sort, skip and limit, \<open>FindOne\<close>, \<open>FindOneAndUpdate\<close> returning the
  document after the update, \<open>DeleteOne\<close>, \<open>CountDocuments\<close>). The server
  is external to the repository; these definitions follow MongoDB's documented
  behaviour for the filters and options the repository builds. A collection is
  the list of its documents in natural (insertion) order, and a server that
  cannot be reached (\<open>fault = Some msg\<close>) fails every command with that
  message. The unique index on \<open>_id\<close> makes \<open>InsertOne\<close> fail with a
  duplicate-key error; it is what keeps identifiers unique
  (\<open>store_wf\<close>).
\<close>

datatype mongo_error = ErrNoDocuments | DuplicateKeyError object_id | ServerError string | ClientError string

primrec mongo_error_msg :: "mongo_error \<Rightarrow> string" where
  "mongo_error_msg ErrNoDocuments = ''mongo: no documents in result''"
| "mongo_error_msg (DuplicateKeyError oid) =
     ''write exception: write errors: [E11000 duplicate key error collection: todolist_fiber.todos index: _id_ dup key: { _id: ObjectId('' @ [sq] @ object_id_hex oid @ [sq] @ '') }]''"
| "mongo_error_msg (ServerError m) = m"
| "mongo_error_msg (ClientError m) = m"

record collection =
  docs :: "todo list"
  fault :: "string option"

text \<open>
  The filter document (\<open>bson.M\<close>) the service builds: an optional
  \<open>"title"\<close> regex with option \<open>"i"\<close> and an optional \<open>"complete"\<close>
  equality; a document matches when it satisfies every key present.
\<close>

record todo_filter =
  filter_title :: "string option"
  filter_complete :: "bool option"

definition filter_matches :: "todo_filter \<Rightarrow> todo \<Rightarrow> bool" where
  "filter_matches f t =
     ((case filter_title f of None \<Rightarrow> True | Some p \<Rightarrow> pcre_match_i p (Title t)) \<and>
      (case filter_complete f of None \<Rightarrow> True | Some b \<Rightarrow> Complete t = b))"

text \<open>
  Where a command with a title filter fails before any document is read. The
  driver encodes the filter before it sends the command: the pattern of a BSON
  regular expression is a C string, so a pattern with a NUL byte cannot be
  encoded and the call fails in the client (\<open>bsonrw\<close>'s \<open>WriteRegex\<close>),
  whether or not the server is reachable. The server compiles the pattern in
  UTF mode and fails the command when it is not valid UTF-8.
\<close>

definition regex_encode_error :: "todo_filter \<Rightarrow> mongo_error option" where
  "regex_encode_error f =
     (case filter_title f of
        Some p \<Rightarrow> if CHR 0x00 \<in> set p then Some (ClientError ''BSON regex values cannot contain null bytes'') else None
      | None \<Rightarrow> None)"

definition regex_server_error :: "todo_filter \<Rightarrow> mongo_error option" where
  "regex_server_error f =
     (case filter_title f of
        Some p \<Rightarrow> if utf8_valid p then None else Some (ServerError ''Regular expression is invalid: UTF-8 error'')
      | None \<Rightarrow> None)"

text \<open>
  \<open>options.Find()\<close> with the settings the repository may make: a limit, a
  skip and the sort \<open>{createdAt: -1}\<close>. The server sorts, then skips, then
  limits. Documents with equal \<open>createdAt\<close> keep their natural order here
  (a stable sort); MongoDB leaves the order of such ties unspecified.
\<close>

record find_options =
  opt_limit :: "int64 option"
  opt_skip :: "int64 option"
  opt_sort_created_desc :: bool

definition find :: "todo_filter \<Rightarrow> find_options \<Rightarrow> 'a collection_scheme \<Rightarrow> mongo_error + todo list" where
  "find f opts c =
     (case regex_encode_error f of Some e \<Rightarrow> Inl e | None \<Rightarrow>
      case fault c of
        Some m \<Rightarrow> Inl (ServerError m)
      | None \<Rightarrow>
      case regex_server_error f of Some e \<Rightarrow> Inl e | None \<Rightarrow>
          (let matched = filter (filter_matches f) (docs c);
               sorted = (if opt_sort_created_desc opts then sort_key (\<lambda>t. - CreatedAt t) matched
                         else matched);
               skipped = (case opt_skip opts of None \<Rightarrow> sorted | Some k \<Rightarrow> drop (nat (sint k)) sorted)
           in Inr (case opt_limit opts of None \<Rightarrow> skipped | Some n \<Rightarrow> take (nat (sint n)) skipped)))"

definition find_one_by_id :: "object_id \<Rightarrow> 'a collection_scheme \<Rightarrow> mongo_error + todo" where
  "find_one_by_id oid c =
     (case fault c of
        Some m \<Rightarrow> Inl (ServerError m)
      | None \<Rightarrow> (case List.find (\<lambda>t. ID t = oid) (docs c) of
                  None \<Rightarrow> Inl ErrNoDocuments
                | Some t \<Rightarrow> Inr t))"

definition insert_one :: "todo \<Rightarrow> 'a collection_scheme \<Rightarrow> (mongo_error + unit) \<times> 'a collection_scheme" where
  "insert_one t c =
     (case fault c of
        Some m \<Rightarrow> (Inl (ServerError m), c)
      | None \<Rightarrow>
          (if ID t \<in> set (map ID (docs c)) then (Inl (DuplicateKeyError (ID t)), c)
           else (Inr (), c\<lparr>docs := docs c @ [t]\<rparr>)))"

text \<open>The \<open>$set\<close> document of \<open>UpdateTodo\<close>: the four fields it rewrites.\<close>

record todo_set =
  set_title :: string
  set_description :: string
  set_complete :: bool
  set_updated_at :: go_time

definition apply_set :: "todo_set \<Rightarrow> todo \<Rightarrow> todo" where
  "apply_set u t =
     t\<lparr>Title := set_title u, Description := set_description u, Complete := set_complete u,
       UpdatedAt := set_updated_at u\<rparr>"

definition find_one_and_update ::
  "object_id \<Rightarrow> todo_set \<Rightarrow> 'a collection_scheme \<Rightarrow> (mongo_error + todo) \<times> 'a collection_scheme" where
  "find_one_and_update oid u c =
     (case fault c of
        Some m \<Rightarrow> (Inl (ServerError m), c)
      | None \<Rightarrow>
          (case List.find (\<lambda>t. ID t = oid) (docs c) of
             None \<Rightarrow> (Inl ErrNoDocuments, c)
           | Some t \<Rightarrow>
               (Inr (apply_set u t),
                c\<lparr>docs := map (\<lambda>d. if ID d = oid then apply_set u d else d) (docs c)\<rparr>)))"

definition delete_one ::
  "object_id \<Rightarrow> 'a collection_scheme \<Rightarrow> (mongo_error + int64) \<times> 'a collection_scheme" where
  "delete_one oid c =
     (case fault c of
        Some m \<Rightarrow> (Inl (ServerError m), c)
      | None \<Rightarrow>
          (if oid \<in> set (map ID (docs c))
           then (Inr 1, c\<lparr>docs := filter (\<lambda>d. ID d \<noteq> oid) (docs c)\<rparr>)
           else (Inr 0, c)))"

definition count_documents :: "todo_filter \<Rightarrow> 'a collection_scheme \<Rightarrow> mongo_error + int64" where
  "count_documents f c =
     (case regex_encode_error f of Some e \<Rightarrow> Inl e | None \<Rightarrow>
      case fault c of
        Some m \<Rightarrow> Inl (ServerError m)
      | None \<Rightarrow>
      case regex_server_error f of Some e \<Rightarrow> Inl e | None \<Rightarrow> Inr (of_nat (length (filter (filter_matches f) (docs c)))))"

text \<open>Well-formedness of the collection: the \<open>_id\<close> index is unique.\<close>

definition store_wf :: "'a collection_scheme \<Rightarrow> bool" where
  "store_wf c = distinct (map ID (docs c))"

subsection \<open>Lemmas on the collection commands\<close>

lemma regex_errors_none:
  assumes "\<And>p. filter_title f = Some p \<Longrightarrow> ascii_text p \<and> CHR 0x00 \<notin> set p"
  shows "regex_encode_error f = None" and "regex_server_error f = None"
  using assms by (auto simp: regex_encode_error_def regex_server_error_def ascii_utf8_valid split: option.split)

lemma find_by_id_None_iff [layer_simps]:
  "List.find (\<lambda>t. ID t = oid) xs = None \<longleftrightarrow> oid \<notin> set (map ID xs)"
  by (auto simp: find_None_iff)

lemma find_by_id_Some:
  "List.find (\<lambda>t. ID t = oid) xs = Some t \<Longrightarrow> t \<in> set xs \<and> ID t = oid"
  by (auto simp: find_Some_iff)

lemma find_append_None:
  "List.find P xs = None \<Longrightarrow> List.find P (xs @ ys) = List.find P ys"
  by (induction xs) (auto split: if_splits)

lemma find_by_id_distinct:
  "distinct (map ID xs) \<Longrightarrow> t \<in> set xs \<Longrightarrow> List.find (\<lambda>d. ID d = ID t) xs = Some t"
proof (induction xs)
  case Nil
  then show ?case by simp
next
  case (Cons x xs)
  then show ?case by (auto simp: image_iff)
qed

lemma insert_one_wf: "store_wf c \<Longrightarrow> store_wf (snd (insert_one t c))"
  by (auto simp: insert_one_def store_wf_def split: option.splits)

lemma find_one_and_update_wf: "store_wf c \<Longrightarrow> store_wf (snd (find_one_and_update oid u c))"
proof -
  have "ID \<circ> (\<lambda>d. if ID d = oid then apply_set u d else d) = ID"
    by (auto simp: apply_set_def)
  then show "store_wf c \<Longrightarrow> ?thesis"
    by (auto simp: find_one_and_update_def store_wf_def split: option.splits)
qed

lemma delete_one_wf: "store_wf c \<Longrightarrow> store_wf (snd (delete_one oid c))"
  by (auto simp: delete_one_def store_wf_def distinct_map_filter split: option.splits)

lemma insert_one_find_one:
  "fst (insert_one t c) = Inr () \<Longrightarrow> find_one_by_id (ID t) (snd (insert_one t c)) = Inr t"
  by (auto simp: insert_one_def find_one_by_id_def find_append_None find_by_id_None_iff
      split: option.splits if_splits)

lemma delete_one_find_one:
  "fault c = None \<Longrightarrow> find_one_by_id oid (snd (delete_one oid c)) = Inl ErrNoDocuments"
proof -
  assume f: "fault c = None"
  let ?c' = "snd (delete_one oid c)"
  have nf: "fault ?c' = None" using f by (simp add: delete_one_def)
  have "oid \<notin> set (map ID (docs ?c'))" using f by (auto simp: delete_one_def)
  then have "List.find (\<lambda>t. ID t = oid) (docs ?c') = None" using find_by_id_None_iff by blast
  with nf show ?thesis by (simp add: find_one_by_id_def)
qed

lemma find_one_and_update_find_one:
  assumes "store_wf c" and "fst (find_one_and_update oid u c) = Inr t'"
  shows "find_one_by_id oid (snd (find_one_and_update oid u c)) = Inr t'"
proof -
  from assms(2) obtain t where f: "fault c = None" and t: "List.find (\<lambda>d. ID d = oid) (docs c) = Some t"
    and t': "t' = apply_set u t"
    by (auto simp: find_one_and_update_def split: option.splits)
  from t have tin: "t \<in> set (docs c)" and tid: "ID t = oid" by (auto dest: find_by_id_Some)
  have "store_wf (snd (find_one_and_update oid u c))" using assms(1) by (rule find_one_and_update_wf)
  moreover have "t' \<in> set (docs (snd (find_one_and_update oid u c)))"
    using f t tin tid t' by (auto simp: find_one_and_update_def)
  moreover have "ID t' = oid" using tid t' by (simp add: apply_set_def)
  ultimately show ?thesis
    using f find_by_id_distinct[of "docs (snd (find_one_and_update oid u c))" t']
    by (auto simp: find_one_by_id_def store_wf_def find_one_and_update_def t)
qed



lemma map_update_by_id_distinct:
  assumes "distinct (map ID xs)" and "t \<in> set xs"
  shows "map (\<lambda>d. if ID d = ID t then f d else d) xs = map (\<lambda>d. if ID d = ID t then f t else d) xs"
proof (rule map_cong)
  fix d assume "d \<in> set xs"
  with assms have "ID d = ID t \<Longrightarrow> d = t"
    by (auto simp: distinct_map dest: inj_onD)
  then show "(if ID d = ID t then f d else d) = (if ID d = ID t then f t else d)"
    by auto
qed simp

lemma find_one_and_update_present:
  assumes "fault c = None" and "store_wf c" and "t \<in> set (docs c)"
  shows "find_one_and_update (ID t) u c =
    (Inr (apply_set u t), c\<lparr>docs := map (\<lambda>d. if ID d = ID t then apply_set u t else d) (docs c)\<rparr>)"
proof -
  from assms(2,3) have "map (\<lambda>d. if ID d = ID t then apply_set u d else d) (docs c) =
      map (\<lambda>d. if ID d = ID t then apply_set u t else d) (docs c)"
    unfolding store_wf_def by (rule map_update_by_id_distinct)
  with assms show ?thesis
    by (simp add: find_one_and_update_def find_by_id_distinct store_wf_def)
qed

lemma map_ID_replace:
  "ID t' = k \<Longrightarrow> map (ID \<circ> (\<lambda>d. if ID d = k then t' else d)) xs = map ID xs"
  by (induction xs) auto

lemma replace_by_id_member:
  "t \<in> set xs \<Longrightarrow> t' \<in> set (map (\<lambda>d. if ID d = ID t then t' else d) xs)"
  by (induction xs) auto

end
