(* ===== verification/Repository.thy ===== *)
theory Repository
  imports Store
begin

text \<open>
  The persistence gateway, \<open>src/repositories/todo_repository.go\<close>. Its state
  is the system state \<open>sys\<close>: the collection the repository owns, extended
  with what the process contributes to a write, namely the wall clock read by
  \<open>time.Now()\<close> and the state of the driver's \<open>NewObjectID\<close> (the
  process-unique bytes and the counter). Each method is one definition with the
  method's name; methods that write return the new state, methods that only
  read return their result. Errors are wrapped with the messages of the source.
\<close>

record sys = collection +
  clock :: go_time
  process_unique :: "byte list"
  object_id_counter :: "32 word"

definition time_now :: "'a sys_scheme \<Rightarrow> go_time" where
  "time_now s = clock s"

text \<open>\<open>primitive.NewObjectID()\<close>: bumps the counter and lays out the new id.\<close>

definition NewObjectID :: "'a sys_scheme \<Rightarrow> object_id \<times> 'a sys_scheme" where
  "NewObjectID s =
     (let n = object_id_counter s + 1
      in (object_id_layout (time_now s) (process_unique s) n, s\<lparr>object_id_counter := n\<rparr>))"

definition repo_CreateTodo :: "todo \<Rightarrow> sys \<Rightarrow> todo result \<times> sys" where
  "repo_CreateTodo todo s0 =
     (let (oid, s1) = NewObjectID s0;
          todo1 = todo\<lparr>ID := oid\<rparr>;
          todo2 = todo1\<lparr>CreatedAt := time_now s1\<rparr>;
          todo3 = todo2\<lparr>UpdatedAt := time_now s1\<rparr>
      in (case insert_one todo3 s1 of
            (Inl err, s2) \<Rightarrow> (Inl (GoError (''Error the to create task: '' @ mongo_error_msg err)), s2)
          | (Inr _, s2) \<Rightarrow> (Inr todo3, s2)))"

text \<open>
  \<open>GetAll\<close> ignores the error of \<open>Find\<close>: when the command fails the cursor
  is \<open>nil\<close> and \<open>cursor.All\<close> dereferences it, which panics. A limit is set
  only when positive, a skip only when non-negative.
\<close>

definition repo_GetAll :: "todo_filter \<Rightarrow> int64 \<Rightarrow> int64 \<Rightarrow> sys \<Rightarrow> todo list result" where
  "repo_GetAll f limit skip s =
     (let opts = \<lparr>opt_limit = (if 0 < sint limit then Some limit else None),
                  opt_skip = (if 0 \<le> sint skip then Some skip else None),
                  opt_sort_created_desc = True\<rparr>
      in (case find f opts s of
            Inl _ \<Rightarrow> Inl (GoPanic ''runtime error: invalid memory address or nil pointer dereference'')
          | Inr todos \<Rightarrow> Inr todos))"

text \<open>A missing document is the result \<open>(nil, nil)\<close>, here \<open>Inr None\<close>.\<close>

definition repo_GetTodoByID :: "object_id \<Rightarrow> sys \<Rightarrow> todo option result" where
  "repo_GetTodoByID oid s =
     (case find_one_by_id oid s of
        Inl err \<Rightarrow>
          (if err = ErrNoDocuments then Inr None
           else Inl (GoError (''Fail the to search the task by ID! error: '' @ mongo_error_msg err)))
      | Inr todo \<Rightarrow> Inr (Some todo))"

definition repo_UpdateTodo :: "object_id \<Rightarrow> todo \<Rightarrow> sys \<Rightarrow> todo option result \<times> sys" where
  "repo_UpdateTodo oid todo s =
     (let todo1 = todo\<lparr>UpdatedAt := time_now s\<rparr>;
          upd = \<lparr>set_title = Title todo1, set_description = Description todo1,
                 set_complete = Complete todo1, set_updated_at = UpdatedAt todo1\<rparr>
      in (case find_one_and_update oid upd s of
            (Inl err, s') \<Rightarrow>
              (if err = ErrNoDocuments then (Inr None, s')
               else (Inl (GoError (''Fail the update task: '' @ mongo_error_msg err)), s'))
          | (Inr updated, s') \<Rightarrow> (Inr (Some updated), s')))"

definition repo_DeleteTodo :: "object_id \<Rightarrow> sys \<Rightarrow> unit result \<times> sys" where
  "repo_DeleteTodo oid s =
     (case delete_one oid s of
        (Inl err, s') \<Rightarrow> (Inl (GoError (''Fail the to delete task: '' @ mongo_error_msg err)), s')
      | (Inr n, s') \<Rightarrow>
          (if n = 0 then (Inl (GoError ''No tasks found with id to delete''), s') else (Inr (), s')))"

definition repo_CountTodos :: "todo_filter \<Rightarrow> sys \<Rightarrow> int64 result" where
  "repo_CountTodos f s =
     (case count_documents f s of
        Inl _ \<Rightarrow> Inl (GoError ''Fail the to count tasks'')
      | Inr n \<Rightarrow> Inr n)"

subsection \<open>Behaviour of the repository methods\<close>

lemma repo_GetTodoByID_fault:
  "fault s = Some m \<Longrightarrow> repo_GetTodoByID oid s = Inl (GoError (''Fail the to search the task by ID! error: '' @ m))"
  by (simp add: repo_GetTodoByID_def find_one_by_id_def)

lemma repo_GetTodoByID_absent:
  "fault s = None \<Longrightarrow> oid \<notin> set (map ID (docs s)) \<Longrightarrow> repo_GetTodoByID oid s = Inr None"
  by (simp add: repo_GetTodoByID_def find_one_by_id_def find_by_id_None_iff[THEN iffD2])

lemma repo_GetTodoByID_present:
  "fault s = None \<Longrightarrow> store_wf s \<Longrightarrow> t \<in> set (docs s) \<Longrightarrow> repo_GetTodoByID (ID t) s = Inr (Some t)"
  by (simp add: repo_GetTodoByID_def find_one_by_id_def find_by_id_distinct store_wf_def)

lemma repo_UpdateTodo_present:
  assumes "fault s = None" and "store_wf s" and "t \<in> set (docs s)"
  shows "repo_UpdateTodo (ID t) todo s =
    (let t' = apply_set \<lparr>set_title = Title todo, set_description = Description todo,
                          set_complete = Complete todo, set_updated_at = clock s\<rparr> t
     in (Inr (Some t'), s\<lparr>docs := map (\<lambda>d. if ID d = ID t then t' else d) (docs s)\<rparr>))"
  using assms by (simp add: repo_UpdateTodo_def find_one_and_update_present time_now_def Let_def)

lemma repo_UpdateTodo_absent:
  "fault s = None \<Longrightarrow> oid \<notin> set (map ID (docs s)) \<Longrightarrow> repo_UpdateTodo oid todo s = (Inr None, s)"
  by (simp add: repo_UpdateTodo_def find_one_and_update_def find_by_id_None_iff[THEN iffD2])

lemma NewObjectID_sys [simp]:
  "docs (snd (NewObjectID s)) = docs s" "fault (snd (NewObjectID s)) = fault s"
  "clock (snd (NewObjectID s)) = clock s"
  by (simp_all add: NewObjectID_def Let_def)

lemma repo_CreateTodo_fresh:
  fixes todo :: todo
  assumes "fault s = None" and "fst (NewObjectID s) \<notin> set (map ID (docs s))"
  defines "t \<equiv> todo\<lparr>ID := fst (NewObjectID s), CreatedAt := clock s, UpdatedAt := clock s\<rparr>"
  shows "repo_CreateTodo todo s = (Inr t, (snd (NewObjectID s))\<lparr>docs := docs s @ [t]\<rparr>)"
  using assms by (simp add: repo_CreateTodo_def insert_one_def time_now_def NewObjectID_def Let_def)

end
