(* ===== verification/Service.thy ===== *)
theory Service
  imports Repository
begin

text \<open>
  The domain service, \<open>src/services/todo_service.go\<close>. Each method parses
  the identifier of the request path with \<open>ObjectIDFromHex\<close>, validates with
  \<open>StructPartial\<close>, calls the repository and translates its outcomes into the
  service's own error messages, which the handlers later compare as strings.
  \<open>UpdateTodo\<close> and \<open>ToggleTodoComplete\<close> read the document, change it in
  memory and write it back: two separate store commands.
\<close>

text \<open>
  \<open>CreateTodo\<close> calls \<open>StructPartial(todo)\<close> with no field names, which
  validates nothing; the error branch is kept as the source has it.
\<close>

definition svc_CreateTodo :: "todo \<Rightarrow> sys \<Rightarrow> todo result \<times> sys" where
  "svc_CreateTodo todo s =
     (case struct_partial todo [] of
        Some _ \<Rightarrow> (Inl (GoError ''Error the update task''), s)
      | None \<Rightarrow> repo_CreateTodo todo s)"

text \<open>
  The filter gets a \<open>"title"\<close> key when the title is not empty and a
  \<open>"complete"\<close> key when a flag is given. \<open>skip = (page - 1) * pagSize\<close> and
  \<open>limit = pagSize\<close> are computed in Go's 64-bit \<open>int\<close>, which wraps.
\<close>

definition svc_GetAllTodos ::
  "string \<Rightarrow> bool option \<Rightarrow> int64 \<Rightarrow> int64 \<Rightarrow> sys \<Rightarrow> (todo list \<times> int64) result" where
  "svc_GetAllTodos title complete page pagSize s =
     (let f = \<lparr>filter_title = (if title \<noteq> [] then Some title else None),
               filter_complete = complete\<rparr>;
          skip = (page - 1) * pagSize;
          limit = pagSize
      in (case repo_GetAll f limit skip s of
            Inl err \<Rightarrow> Inl err
          | Inr todos \<Rightarrow>
              (case repo_CountTodos f s of
                 Inl err \<Rightarrow> Inl err
               | Inr total_n \<Rightarrow> Inr (todos, total_n))))"

definition svc_GetTodoByID :: "string \<Rightarrow> sys \<Rightarrow> todo result" where
  "svc_GetTodoByID id_str s =
     (case object_id_from_hex id_str of
        Inl _ \<Rightarrow> Inl (GoError ''Id is Invalid'')
      | Inr oid \<Rightarrow>
          (case repo_GetTodoByID oid s of
             Inl err \<Rightarrow> Inl err
           | Inr None \<Rightarrow> Inl (GoError ''Task not found'')
           | Inr (Some todo) \<Rightarrow> Inr todo))"

text \<open>
  \<open>UpdateTodo\<close> validates \<open>Title\<close>, \<open>Description\<close> and \<open>Complete\<close> of
  the partial task; only \<open>Title\<close> carries a tag, so an empty title is a
  validation error. It copies a non-empty title and description onto the stored
  task and always copies \<open>Complete\<close>. A document deleted between the read and
  the write makes the repository return \<open>(nil, nil)\<close>, which the service
  passes on as a success with no task.
\<close>

definition merge_update :: "todo \<Rightarrow> todo \<Rightarrow> todo" where
  "merge_update todo checkTodo =
     (let t1 = (if Title todo \<noteq> [] then checkTodo\<lparr>Title := Title todo\<rparr> else checkTodo);
          t2 = (if Description todo \<noteq> [] then t1\<lparr>Description := Description todo\<rparr> else t1)
      in t2\<lparr>Complete := Complete todo\<rparr>)"

definition svc_UpdateTodo :: "string \<Rightarrow> todo \<Rightarrow> sys \<Rightarrow> todo option result \<times> sys" where
  "svc_UpdateTodo id_str todo s =
     (case object_id_from_hex id_str of
        Inl _ \<Rightarrow> (Inl (GoError ''Id is Invalid''), s)
      | Inr oid \<Rightarrow>
          (case struct_partial todo [''Title'', ''Description'', ''Complete''] of
             Some err \<Rightarrow> (Inl (GoError (''Validation error: '' @ error_msg err)), s)
           | None \<Rightarrow>
               (case repo_GetTodoByID oid s of
                  Inl _ \<Rightarrow> (Inl (GoError ''Error the check if todo exists!''), s)
                | Inr None \<Rightarrow> (Inl (GoError ''Todo not found''), s)
                | Inr (Some checkTodo) \<Rightarrow>
                    (case repo_UpdateTodo oid (merge_update todo checkTodo) s of
                       (Inl _, s') \<Rightarrow> (Inl (GoError ''Error the update if todo exists!''), s')
                     | (Inr updateTodo, s') \<Rightarrow> (Inr updateTodo, s')))))"

text \<open>
  \<open>DeleteTodo\<close> wraps the parse error into its own message and passes the
  repository's errors on unchanged, including \<open>"No tasks found with id to
  delete"\<close> for an absent document.
\<close>

definition svc_DeleteTodo :: "string \<Rightarrow> sys \<Rightarrow> unit result \<times> sys" where
  "svc_DeleteTodo id_str s =
     (case object_id_from_hex id_str of
        Inl err \<Rightarrow> (Inl (GoError (''Id is invalid! Error: '' @ error_msg err)), s)
      | Inr oid \<Rightarrow>
          (case repo_DeleteTodo oid s of
             (Inl err, s') \<Rightarrow> (Inl err, s')
           | (Inr _, s') \<Rightarrow> (Inr (), s')))"

definition svc_ToggleTodoComplete :: "string \<Rightarrow> sys \<Rightarrow> todo option result \<times> sys" where
  "svc_ToggleTodoComplete id_str s =
     (case object_id_from_hex id_str of
        Inl _ \<Rightarrow> (Inl (GoError ''Id is Invalid''), s)
      | Inr oid \<Rightarrow>
          (case repo_GetTodoByID oid s of
             Inl _ \<Rightarrow> (Inl (GoError ''Error the check if todo exists before change status complete''), s)
           | Inr None \<Rightarrow> (Inl (GoError ''Task not found''), s)
           | Inr (Some todo) \<Rightarrow>
               (case repo_UpdateTodo oid (todo\<lparr>Complete := \<not> Complete todo\<rparr>) s of
                  (Inl err, s') \<Rightarrow> (Inl err, s')
                | (Inr changeTodo, s') \<Rightarrow> (Inr changeTodo, s'))))"

subsection \<open>The contract of listing\<close>

text \<open>
  What the specification asks of \<open>GetAllTodos\<close> (\<open>spec.md\<close>, 4.1 and 4.2),
  on unbounded numbers: the tasks that match the filter, sorted by
  \<open>createdAt\<close> descending, page \<open>page\<close> of size \<open>page_size\<close> (offset
  \<open>(page - 1) * page_size\<close>), and the number of matching tasks. Ties keep
  the collection's natural order, as the store model does.
\<close>

definition list_page_spec :: "todo_filter \<Rightarrow> nat \<Rightarrow> nat \<Rightarrow> todo list \<Rightarrow> todo list \<times> nat" where
  "list_page_spec f page page_size ds =
     (let m = sort_key (\<lambda>t. - CreatedAt t) (filter (filter_matches f) ds)
      in (take page_size (drop ((page - 1) * page_size) m), length m))"

subsection \<open>Behaviour of the service methods\<close>

lemma service_skip_exact:
  fixes page size :: int64
  assumes "1 \<le> sint page" and "1 \<le> sint size" and "(sint page - 1) * sint size < 2 ^ 63"
  shows "sint ((page - 1) * size) = (sint page - 1) * sint size"
proof -
  have "sint (page - 1) = sint page - 1"
    using sint64_diff_exact[of page 1] assms(1) sint_lt[of page] by simp
  moreover have "0 \<le> (sint page - 1) * sint size" using assms(1,2) by simp
  ultimately show ?thesis using assms(3) by (simp add: sint64_mult_exact)
qed

lemma list_filter_no_error:
  fixes cf :: "bool option"
  assumes "ascii_text title" and "CHR 0x00 \<notin> set title"
  shows "regex_encode_error \<lparr>filter_title = (if title \<noteq> [] then Some title else None), filter_complete = cf\<rparr> = None
       \<and> regex_server_error \<lparr>filter_title = (if title \<noteq> [] then Some title else None), filter_complete = cf\<rparr> = None"
  using assms by (simp add: regex_encode_error_def regex_server_error_def ascii_utf8_valid)

text \<open>
  What listing returns when the store is up and the title can be encoded and
  compiled: the sorted matches, skipped by the wrapped offset (a negative offset
  sets no skip, which is \<open>drop 0\<close>), limited to a positive page size, and
  their count.
\<close>

lemma svc_GetAllTodos_ok:
  fixes cf :: "bool option" and title :: string
  assumes "fault s = None" and "ascii_text title" and "CHR 0x00 \<notin> set title"
  defines "f \<equiv> \<lparr>filter_title = (if title \<noteq> [] then Some title else None), filter_complete = cf\<rparr>"
  shows "svc_GetAllTodos title cf page pagSize s =
           Inr (let skipped = drop (nat (sint ((page - 1) * pagSize)))
                                (sort_key (\<lambda>t. - CreatedAt t) (filter (filter_matches f) (docs s)))
                in if 0 < sint pagSize then take (nat (sint pagSize)) skipped else skipped,
                of_nat (length (filter (filter_matches f) (docs s))))"
  using assms list_filter_no_error[OF assms(2,3), of cf]
  by (simp add: svc_GetAllTodos_def repo_GetAll_def find_def repo_CountTodos_def count_documents_def Let_def)

lemma svc_GetAllTodos_total:
  fixes cf :: "bool option" and title :: string
  assumes "fault s = None" and "ascii_text title" and "CHR 0x00 \<notin> set title"
  defines "f \<equiv> \<lparr>filter_title = (if title \<noteq> [] then Some title else None), filter_complete = cf\<rparr>"
  shows "\<exists>todos. svc_GetAllTodos title cf page pagSize s =
                  Inr (todos, of_nat (length (filter (filter_matches f) (docs s))))"
  using svc_GetAllTodos_ok[OF assms(1-3), of cf page pagSize] by (simp add: f_def Let_def)

lemma struct_partial_update_fields:
  "struct_partial t [''Title'', ''Description'', ''Complete''] =
     (if Title t = [] then Some (GoError (field_error_msg ''Title'')) else None)"
  by (rule struct_partial_title) simp

lemma merge_update_fields [simp]:
  "ID (merge_update todo t) = ID t"
  "Title (merge_update todo t) = (if Title todo \<noteq> [] then Title todo else Title t)"
  "Description (merge_update todo t) = (if Description todo \<noteq> [] then Description todo else Description t)"
  "Complete (merge_update todo t) = Complete todo"
  by (simp_all add: merge_update_def Let_def)

lemma svc_UpdateTodo_present:
  assumes "fault s = None" and "store_wf s" and "t \<in> set (docs s)"
    and "object_id_from_hex id_str = Inr (ID t)" and "Title todo \<noteq> []"
  shows "svc_UpdateTodo id_str todo s =
    (let t' = apply_set \<lparr>set_title = Title todo,
                          set_description = (if Description todo \<noteq> [] then Description todo else Description t),
                          set_complete = Complete todo, set_updated_at = clock s\<rparr> t
     in (Inr (Some t'), s\<lparr>docs := map (\<lambda>d. if ID d = ID t then t' else d) (docs s)\<rparr>))"
proof -
  have r: "repo_UpdateTodo (ID (merge_update todo t)) (merge_update todo t) s =
    (let t' = apply_set \<lparr>set_title = Title (merge_update todo t),
                          set_description = Description (merge_update todo t),
                          set_complete = Complete (merge_update todo t), set_updated_at = clock s\<rparr> t
     in (Inr (Some t'), s\<lparr>docs := map (\<lambda>d. if ID d = ID t then t' else d) (docs s)\<rparr>))"
    unfolding merge_update_fields(1) by (rule repo_UpdateTodo_present[OF assms(1-3)])
  show ?thesis
    using assms r by (simp add: svc_UpdateTodo_def struct_partial_update_fields repo_GetTodoByID_present Let_def)
qed

lemma svc_UpdateTodo_no_title:
  assumes "object_id_from_hex id_str = Inr oid" and "Title todo = []"
  shows "svc_UpdateTodo id_str todo s =
           (Inl (GoError (''Validation error: '' @ field_error_msg ''Title'')), s)"
  using assms by (simp add: svc_UpdateTodo_def struct_partial_update_fields)

lemma svc_ToggleTodoComplete_present:
  assumes "fault s = None" and "store_wf s" and "t \<in> set (docs s)"
    and "object_id_from_hex id_str = Inr (ID t)"
  shows "svc_ToggleTodoComplete id_str s =
    (let t' = t\<lparr>Complete := \<not> Complete t, UpdatedAt := clock s\<rparr>
     in (Inr (Some t'), s\<lparr>docs := map (\<lambda>d. if ID d = ID t then t' else d) (docs s)\<rparr>))"
  using assms repo_UpdateTodo_present[OF assms(1-3), of "t\<lparr>Complete := \<not> Complete t\<rparr>"]
  by (simp add: svc_ToggleTodoComplete_def repo_GetTodoByID_present apply_set_def Let_def)

lemma svc_DeleteTodo_present:
  "fault s = None \<Longrightarrow> object_id_from_hex id_str = Inr oid \<Longrightarrow> oid \<in> set (map ID (docs s)) \<Longrightarrow>
   svc_DeleteTodo id_str s = (Inr (), s\<lparr>docs := filter (\<lambda>d. ID d \<noteq> oid) (docs s)\<rparr>)"
  by (simp add: svc_DeleteTodo_def repo_DeleteTodo_def delete_one_def)

lemma svc_DeleteTodo_absent:
  "fault s = None \<Longrightarrow> object_id_from_hex id_str = Inr oid \<Longrightarrow> oid \<notin> set (map ID (docs s)) \<Longrightarrow>
   svc_DeleteTodo id_str s = (Inl (GoError ''No tasks found with id to delete''), s)"
  by (simp add: svc_DeleteTodo_def repo_DeleteTodo_def delete_one_def)

lemma svc_GetTodoByID_absent:
  "fault s = None \<Longrightarrow> object_id_from_hex id_str = Inr oid \<Longrightarrow> oid \<notin> set (map ID (docs s)) \<Longrightarrow>
   svc_GetTodoByID id_str s = Inl (GoError ''Task not found'')"
  by (simp add: svc_GetTodoByID_def repo_GetTodoByID_absent)

lemma svc_CreateTodo_skips_validation: "svc_CreateTodo todo s = repo_CreateTodo todo s"
  by (simp add: svc_CreateTodo_def)

text \<open>
  C12. Listing refines its contract: with the store up, a title that MongoDB
  accepts and the model's matcher decides exactly (a pattern of the modelled
  fragment, matched against ASCII titles), \<open>page\<close> and \<open>pagSize\<close> at least
  1 and an offset \<open>(page - 1) * pagSize\<close> that fits in an \<open>int64\<close>,
  \<open>GetAllTodos\<close> returns exactly the page of \<open>list_page_spec\<close> and the
  number of matching tasks.
\<close>

theorem svc_GetAllTodos_refines_page_spec:
  fixes complete_flag :: "bool option" and title :: string
  assumes "fault s = None" and "pcre_fragment title" and "\<forall>t \<in> set (docs s). ascii_text (Title t)"
    and "1 \<le> sint page" and "1 \<le> sint pagSize" and "(sint page - 1) * sint pagSize < 2 ^ 63"
  defines "f \<equiv> \<lparr>filter_title = (if title \<noteq> [] then Some title else None), filter_complete = complete_flag\<rparr>"
  shows "svc_GetAllTodos title complete_flag page pagSize s =
           Inr (map_prod id of_nat (list_page_spec f (nat (sint page)) (nat (sint pagSize)) (docs s)))"
proof -
  have e: "ascii_text title" "CHR 0x00 \<notin> set title" using pcre_fragment_encodable[OF assms(2)] by auto
  have sk: "nat (sint ((page - 1) * pagSize)) = (nat (sint page) - 1) * nat (sint pagSize)"
    using service_skip_exact[OF assms(4-6)] assms(4,5) by (simp add: nat_mult_distrib nat_diff_distrib)
  show ?thesis
    using svc_GetAllTodos_ok[OF assms(1) e, of complete_flag page pagSize] assms(5) sk
    by (simp add: list_page_spec_def f_def Let_def)
qed

theorem svc_GetAllTodos_refines_page_spec_witness:
  "fault \<lparr>docs = [], fault = None, clock = 0, process_unique = [], object_id_counter = 0\<rparr> = None
   \<and> pcre_fragment ''A'' \<and> ascii_text ''a'' \<and> ascii_text ''ba''
   \<and> 1 \<le> sint (2 :: int64) \<and> 1 \<le> sint (1 :: int64) \<and> (sint (2 :: int64) - 1) * sint (1 :: int64) < 2 ^ 63
   \<and> svc_GetAllTodos ''A'' None 2 1
         \<lparr>docs = [\<lparr>ID = NilObjectID, Title = ''a'', Description = [], Complete = False,
                   CreatedAt = 1, UpdatedAt = 1\<rparr>,
                 \<lparr>ID = replicate 11 0 @ [1], Title = ''ba'', Description = [], Complete = True,
                   CreatedAt = 2, UpdatedAt = 2\<rparr>],
          fault = None, clock = 3, process_unique = [], object_id_counter = 0\<rparr> =
       Inr ([\<lparr>ID = NilObjectID, Title = ''a'', Description = [], Complete = False,
               CreatedAt = 1, UpdatedAt = 1\<rparr>], 2)"
  using svc_GetAllTodos_refines_page_spec[where page=2 and pagSize=1 and complete_flag=None and title="''A''"
      and s="\<lparr>docs = [\<lparr>ID = NilObjectID, Title = ''a'', Description = [], Complete = False,
                   CreatedAt = 1, UpdatedAt = 1\<rparr>,
                 \<lparr>ID = replicate 11 0 @ [1], Title = ''ba'', Description = [], Complete = True,
                   CreatedAt = 2, UpdatedAt = 2\<rparr>],
          fault = None, clock = 3, process_unique = [], object_id_counter = 0\<rparr>"]
  by (simp add: list_page_spec_def filter_matches_def pcre_fragment_def ascii_text_def pcre_match_i_def
      pcre_atom_def pcre_meta_chars_def char_matches_def ascii_lower_def eval_simps)

end
