(* ===== verification/Response.thy ===== *)
theory Response
  imports Model
begin

text \<open>
  The response envelope helper, \<open>src/utils/response.go\<close>. A response is the
  HTTP status and the JSON body \<open>APIResponse{status, message, data, meta}\<close>;
  \<open>data\<close> and \<open>meta\<close> carry \<open>omitempty\<close> and are left out when the
  interface value is \<open>nil\<close> (\<open>None\<close>). A \<open>*models.Todo\<close> that is
  \<open>nil\<close> inside a non-nil interface is not empty: it is sent as
  \<open>"data": null\<close> (\<open>Some (PTodo None)\<close>). The second kind of response is
  the plain-text body the recover middleware and Fiber's default error handler
  send for a panic or an unmatched route; the third is a bare \<open>fiber.Map\<close> of
  strings sent as JSON, as the health route does.
\<close>

datatype payload = PTodo "todo option" | PTodos "todo list"

record list_meta =
  meta_total :: int64
  meta_page :: int64
  meta_pageSize :: int64
  meta_totalPages :: int64

record api_response =
  Status :: int
  Message :: string
  Data :: "payload option"
  Meta :: "list_meta option"

datatype http_response = JsonResponse int api_response | TextResponse int string
  | MapResponse int "(string \<times> string) list"

primrec status_of :: "http_response \<Rightarrow> int" where
  "status_of (JsonResponse st _) = st"
| "status_of (TextResponse st _) = st"
| "status_of (MapResponse st _) = st"

text \<open>
  The variadic \<open>meta ...interface{}\<close> is a list; \<open>Meta\<close> is set only when
  its first element exists and is not \<open>nil\<close>.
\<close>

definition SendSuccessResponse ::
  "int \<Rightarrow> string \<Rightarrow> payload option \<Rightarrow> list_meta option list \<Rightarrow> http_response" where
  "SendSuccessResponse statusCode message data meta =
     JsonResponse statusCode
       \<lparr>Status = statusCode, Message = message, Data = data,
        Meta = (case meta of m # _ \<Rightarrow> m | [] \<Rightarrow> None)\<rparr>"

definition SendErrorResponse :: "int \<Rightarrow> string \<Rightarrow> http_response" where
  "SendErrorResponse statusCode message =
     JsonResponse statusCode \<lparr>Status = statusCode, Message = message, Data = None, Meta = None\<rparr>"

lemma status_of_SendSuccessResponse [simp]: "status_of (SendSuccessResponse st m d mt) = st"
  by (simp add: SendSuccessResponse_def)

lemma status_of_SendErrorResponse [simp]: "status_of (SendErrorResponse st m) = st"
  by (simp add: SendErrorResponse_def)

end
