(* ===== verification/Handler.thy ===== *)
theory Handler
  imports Service Response
begin

text \<open>
  The request handlers, \<open>src/handlers/todo_handler.go\<close>. A handler reads the
  path parameter, the query string or the parsed body, calls the service once
  and maps the outcome to a status code, choosing the code by comparing the
  error's message with literal strings. The body is taken after Fiber's
  \<open>BodyParser\<close>: either its error message (\<open>Inl\<close>) or the decoded request.
  A handler returns its response, or a panic that unwinds out of it (only the
  list handler can receive one, from the repository), and the new state.
\<close>

subsection \<open>Request inputs\<close>

text \<open>
  The query string as decoded pairs in request order. \<open>c.Query(key, def)\<close>
  returns the first value given for \<open>key\<close>, or \<open>def\<close> when there is none or
  it is empty.
\<close>

type_synonym query = "(string \<times> string) list"

definition go_query :: "query \<Rightarrow> string \<Rightarrow> string \<Rightarrow> string" where
  "go_query q key def = (case map_of q key of None \<Rightarrow> def | Some v \<Rightarrow> if v = [] then def else v)"

text \<open>
  \<open>strconv.ParseBool\<close> and \<open>strconv.Atoi\<close> (64-bit \<open>int\<close>, decimal, an
  optional sign, no underscores, out-of-range values rejected). The handlers only
  test whether these return an error, so the error value is \<open>None\<close>.
\<close>

definition ParseBool :: "string \<Rightarrow> bool option" where
  "ParseBool str =
     (if str \<in> set [''1'', ''t'', ''T'', ''TRUE'', ''true'', ''True''] then Some True
      else if str \<in> set [''0'', ''f'', ''F'', ''FALSE'', ''false'', ''False''] then Some False
      else None)"

definition is_digit :: "char \<Rightarrow> bool" where
  "is_digit c = (48 \<le> (of_char c :: nat) \<and> (of_char c :: nat) \<le> 57)"

definition decimal_value :: "string \<Rightarrow> nat" where
  "decimal_value ds = foldl (\<lambda>n c. 10 * n + (of_char c - 48)) 0 ds"

definition Atoi :: "string \<Rightarrow> int64 option" where
  "Atoi str =
     (let signed = (str \<noteq> [] \<and> (hd str = CHR ''-'' \<or> hd str = CHR ''+''));
          ds = (if signed then tl str else str);
          mag = int (decimal_value ds);
          v = (if str \<noteq> [] \<and> hd str = CHR ''-'' then - mag else mag)
      in if ds = [] \<or> \<not> list_all is_digit ds then None
         else if v < - (2 ^ 63) \<or> 2 ^ 63 - 1 < v then None
         else Some (word_of_int v))"

text \<open>A \<open>models.Todo{...}\<close> literal: the fields not named are zero.\<close>

definition todo_literal :: "string \<Rightarrow> string \<Rightarrow> bool \<Rightarrow> todo" where
  "todo_literal title description complete =
     \<lparr>ID = NilObjectID, Title = title, Description = description, Complete = complete,
      CreatedAt = go_zero_time, UpdatedAt = go_zero_time\<rparr>"

subsection \<open>Handlers\<close>

definition handler_CreateTodo ::
  "string + create_todo_request \<Rightarrow> sys \<Rightarrow> http_response result \<times> sys" where
  "handler_CreateTodo body s =
     (case body of
        Inl perr \<Rightarrow> (Inr (SendErrorResponse 400 (''Parser error: '' @ perr)), s)
      | Inr req \<Rightarrow>
          (let todo = todo_literal (CreateTitle req) (CreateDescription req) False
           in (case svc_CreateTodo todo s of
                 (Inl _, s') \<Rightarrow> (Inr (SendErrorResponse 400 ''Fail the to create new todo''), s')
               | (Inr createdTodo, s') \<Rightarrow>
                   (Inr (SendSuccessResponse 201 ''Todo created with success!''
                           (Some (PTodo (Some createdTodo))) []), s'))))"

definition complete_param_error :: string where
  "complete_param_error =
     ''Par'' @ [CHR 0xC3, CHR 0xA2] @ ''metro '' @ [sq] @ ''complete'' @ [sq] @ '' inv''
     @ [CHR 0xC3, CHR 0xA1] @ ''lido. Use '' @ [sq] @ ''true'' @ [sq] @ '' ou '' @ [sq] @ ''false''
     @ [sq] @ ''.''"

definition page_param :: "query \<Rightarrow> int64" where
  "page_param q = (case Atoi (go_query q ''page'' ''1'') of None \<Rightarrow> 1 | Some p \<Rightarrow> if sint p < 1 then 1 else p)"

definition page_size_param :: "query \<Rightarrow> int64" where
  "page_size_param q =
     (case Atoi (go_query q ''pageSize'' ''10'') of None \<Rightarrow> 10 | Some p \<Rightarrow> if sint p < 1 then 10 else p)"

text \<open>The part of \<open>GetAllTodos\<close> after the query has been read.\<close>

definition list_todos_response ::
  "string \<Rightarrow> bool option \<Rightarrow> int64 \<Rightarrow> int64 \<Rightarrow> sys \<Rightarrow> http_response result" where
  "list_todos_response titleFilter completeFilter page pageSize s =
     (case svc_GetAllTodos titleFilter completeFilter page pageSize s of
        Inl (GoPanic m) \<Rightarrow> Inl (GoPanic m)
      | Inl (GoError m) \<Rightarrow> Inr (SendErrorResponse 500 (''Error the get all todos! details: '' @ m))
      | Inr (todos, total_n) \<Rightarrow>
          (case go_div64 (total_n + pageSize - 1) pageSize of
             Inl p \<Rightarrow> Inl p
           | Inr totalPages \<Rightarrow>
               Inr (SendSuccessResponse 200 ''Todos listed!'' (Some (PTodos todos))
                      [Some \<lparr>meta_total = total_n, meta_page = page, meta_pageSize = pageSize,
                             meta_totalPages = totalPages\<rparr>])))"

text \<open>
  The source parses the \<open>complete\<close> parameter only when it is empty
  (\<open>if completeStr == ""\<close>), where \<open>ParseBool\<close> always fails.
\<close>

definition handler_GetAllTodos :: "query \<Rightarrow> sys \<Rightarrow> http_response result \<times> sys" where
  "handler_GetAllTodos q s =
     (let titleFilter = go_query q ''title'' [];
          completeStr = go_query q ''complete'' []
      in if completeStr = [] then
           (case ParseBool completeStr of
              None \<Rightarrow> (Inr (SendErrorResponse 400 complete_param_error), s)
            | Some parsedComplete \<Rightarrow>
                (list_todos_response titleFilter (Some parsedComplete) (page_param q) (page_size_param q) s, s))
         else (list_todos_response titleFilter None (page_param q) (page_size_param q) s, s))"

definition handler_GetTodoByID :: "string \<Rightarrow> sys \<Rightarrow> http_response result \<times> sys" where
  "handler_GetTodoByID id_str s =
     (case svc_GetTodoByID id_str s of
        Inl err \<Rightarrow>
          (if error_msg err = ''Task not found'' \<or> error_msg err = ''Id is Invalid''
           then (Inr (SendErrorResponse 404 (error_msg err)), s)
           else (Inr (SendErrorResponse 500 (''Fail the to find task: '' @ error_msg err)), s))
      | Inr todo \<Rightarrow> (Inr (SendSuccessResponse 200 ''Task founded'' (Some (PTodo (Some todo))) []), s))"

text \<open>
  The partial task of \<open>UpdateTodo\<close>: an empty \<open>models.Todo{}\<close> with the
  non-empty strings of the body and, when the body has one, its flag.
\<close>

definition update_request_todo :: "update_todo_request \<Rightarrow> todo" where
  "update_request_todo req =
     (let t0 = todo_literal [] [] False;
          t1 = (if UpdateTitle req \<noteq> [] then t0\<lparr>Title := UpdateTitle req\<rparr> else t0);
          t2 = (if UpdateDescription req \<noteq> [] then t1\<lparr>Description := UpdateDescription req\<rparr> else t1)
      in (case UpdateComplete req of None \<Rightarrow> t2 | Some b \<Rightarrow> t2\<lparr>Complete := b\<rparr>))"

definition handler_UpdateTodo ::
  "string \<Rightarrow> string + update_todo_request \<Rightarrow> sys \<Rightarrow> http_response result \<times> sys" where
  "handler_UpdateTodo id_str body s =
     (case body of
        Inl perr \<Rightarrow> (Inr (SendErrorResponse 200 (''Validation errors: '' @ perr)), s)
      | Inr req \<Rightarrow>
          (case svc_UpdateTodo id_str (update_request_todo req) s of
             (Inl err, s') \<Rightarrow>
               (if error_msg err = ''Todo not found'' \<or> error_msg err = ''Id is Invalid''
                   \<or> error_msg err = ''Error the check if todo exists!''
                then (Inr (SendErrorResponse 404 (error_msg err)), s')
                else (Inr (SendErrorResponse 400 (''Fail the to update todo: '' @ error_msg err)), s'))
           | (Inr updatedTodo, s') \<Rightarrow>
               (Inr (SendSuccessResponse 200 ''Task updated'' (Some (PTodo updatedTodo)) []), s')))"

definition handler_DeleteTodo :: "string \<Rightarrow> sys \<Rightarrow> http_response result \<times> sys" where
  "handler_DeleteTodo id_str s =
     (case svc_DeleteTodo id_str s of
        (Inl err, s') \<Rightarrow>
          (if error_msg err = ''Error the check if todo exists!'' \<or> error_msg err = ''Id is Invalid''
              \<or> error_msg err = ''Todo not found''
           then (Inr (SendErrorResponse 404 (error_msg err)), s')
           else (Inr (SendErrorResponse 500 (''Falha ao deletar tarefa: '' @ error_msg err)), s'))
      | (Inr _, s') \<Rightarrow> (Inr (SendSuccessResponse 204 ''Task deleted!'' None []), s'))"

definition handler_ToggleTodoComplete :: "string \<Rightarrow> sys \<Rightarrow> http_response result \<times> sys" where
  "handler_ToggleTodoComplete id_str s =
     (case svc_ToggleTodoComplete id_str s of
        (Inl err, s') \<Rightarrow>
          (if error_msg err = ''Task not found'' \<or> error_msg err = ''Id is Invalid''
           then (Inr (SendErrorResponse 404 (error_msg err)), s')
           else (Inr (SendErrorResponse 500
                        (''Fail the modificed task status completed : '' @ error_msg err)), s'))
      | (Inr updatedTodo, s') \<Rightarrow>
          (Inr (SendSuccessResponse 200 ''Status task completed changed'' (Some (PTodo updatedTodo)) []), s'))"

subsection \<open>A concrete state for the witnesses\<close>

text \<open>
  One stored task with identifier \<open>6553f1000102030405000001\<close>, marked
  complete, a clock one minute after its creation, and the generator state from
  which the next \<open>NewObjectID\<close> is \<open>6553f13c0102030405000002\<close>.
\<close>

abbreviation demo_oid :: object_id where
  "demo_oid \<equiv> [0x65, 0x53, 0xf1, 0x00, 1, 2, 3, 4, 5, 0, 0, 1]"

abbreviation demo_hex :: string where
  "demo_hex \<equiv> ''6553f1000102030405000001''"

abbreviation demo_todo :: todo where
  "demo_todo \<equiv> \<lparr>ID = demo_oid, Title = ''Buy milk'', Description = ''2 liters'', Complete = True,
                 CreatedAt = 1700000000000, UpdatedAt = 1700000000000\<rparr>"

abbreviation demo_sys :: sys where
  "demo_sys \<equiv> \<lparr>docs = [demo_todo], fault = None, clock = 1700000060000,
                process_unique = [1, 2, 3, 4, 5], object_id_counter = 1\<rparr>"

abbreviation demo_new_oid :: object_id where
  "demo_new_oid \<equiv> [0x65, 0x53, 0xf1, 0x3c, 1, 2, 3, 4, 5, 0, 0, 2]"

text \<open>The task a \<open>POST\<close> on \<open>demo_sys\<close> stores: a second, newer task.\<close>

abbreviation demo_todo2 :: todo where
  "demo_todo2 \<equiv> demo_todo\<lparr>ID := demo_new_oid, CreatedAt := 1700000060000, UpdatedAt := 1700000060000\<rparr>"

subsection \<open>Properties of the handlers\<close>

lemma update_request_todo_fields [simp]:
  "Title (update_request_todo req) = UpdateTitle req"
  "Description (update_request_todo req) = UpdateDescription req"
  "Complete (update_request_todo req) = (UpdateComplete req = Some True)"
  by (auto simp: update_request_todo_def todo_literal_def Let_def split: option.split)

lemma demo_hex_parse: "object_id_from_hex demo_hex = Inr demo_oid"
  by (simp add: object_id_from_hex_def hex_digit_value_def eval_simps)

lemma demo_NewObjectID: "NewObjectID demo_sys = (demo_new_oid, demo_sys\<lparr>object_id_counter := 2\<rparr>)"
  by (simp add: NewObjectID_def object_id_layout_def time_now_def eval_simps)

text \<open>
  C1. \<open>PUT /todos/{id}\<close> on a stored task with a non-empty title answers 200
  with the task after the merge and stores it: the title is replaced, the
  description is replaced only when the body's is not empty, \<open>updatedAt\<close> is
  the current clock, \<open>id\<close> and \<open>createdAt\<close> are kept, and \<open>complete\<close>
  becomes true exactly when the body says \<open>"complete": true\<close>: a body without
  the flag clears it.
\<close>

theorem handler_UpdateTodo_merges:
  assumes "fault s = None" and "store_wf s" and "t \<in> set (docs s)"
    and "object_id_from_hex id_str = Inr (ID t)" and "UpdateTitle req \<noteq> []"
  defines "t' \<equiv> t\<lparr>Title := UpdateTitle req,
                   Description := (if UpdateDescription req = [] then Description t else UpdateDescription req),
                   Complete := (UpdateComplete req = Some True), UpdatedAt := clock s\<rparr>"
  shows "handler_UpdateTodo id_str (Inr req) s =
    (Inr (SendSuccessResponse 200 ''Task updated'' (Some (PTodo (Some t'))) []),
     s\<lparr>docs := map (\<lambda>d. if ID d = ID t then t' else d) (docs s)\<rparr>)"
  using assms svc_UpdateTodo_present[OF assms(1-4), of "update_request_todo req"]
  by (simp add: handler_UpdateTodo_def apply_set_def Let_def)

theorem handler_UpdateTodo_merges_witness:
  "fault demo_sys = None \<and> store_wf demo_sys \<and> demo_todo \<in> set (docs demo_sys)
   \<and> object_id_from_hex demo_hex = Inr (ID demo_todo) \<and> UpdateTitle \<lparr>UpdateTitle = ''Buy bread'', UpdateDescription = [], UpdateComplete = None\<rparr> \<noteq> []
   \<and> handler_UpdateTodo demo_hex (Inr \<lparr>UpdateTitle = ''Buy bread'', UpdateDescription = [], UpdateComplete = None\<rparr>) demo_sys =
     (Inr (SendSuccessResponse 200 ''Task updated''
        (Some (PTodo (Some (demo_todo\<lparr>Title := ''Buy bread'', Complete := False, UpdatedAt := 1700000060000\<rparr>)))) []),
      demo_sys\<lparr>docs := [demo_todo\<lparr>Title := ''Buy bread'', Complete := False, UpdatedAt := 1700000060000\<rparr>]\<rparr>)"
  using handler_UpdateTodo_merges[of demo_sys demo_todo demo_hex "\<lparr>UpdateTitle = ''Buy bread'', UpdateDescription = [], UpdateComplete = None\<rparr>"]
  by (simp add: store_wf_def demo_hex_parse)

text \<open>
  C2. \<open>GET /todos\<close> without a non-empty \<open>complete\<close> query parameter is always
  rejected with 400 and the message about the \<open>complete\<close> parameter, whatever
  the store holds: the handler parses the parameter only when it is empty.
\<close>

theorem list_without_complete_is_rejected:
  assumes "go_query q ''complete'' [] = []"
  shows "handler_GetAllTodos q s = (Inr (SendErrorResponse 400 complete_param_error), s)"
  using assms by (simp add: handler_GetAllTodos_def ParseBool_def)

theorem list_without_complete_is_rejected_witness:
  "go_query [(''title'', ''milk'')] ''complete'' [] = []
   \<and> handler_GetAllTodos [(''title'', ''milk'')] demo_sys =
       (Inr (SendErrorResponse 400 complete_param_error), demo_sys)"
  using list_without_complete_is_rejected[of "[(''title'', ''milk'')]" demo_sys]
  by (simp add: go_query_def)

text \<open>
  C3. \<open>POST /todos\<close> on a reachable server, when the next \<open>ObjectID\<close> is not in
  use, answers 201 with the new task and appends it to the collection: its id is
  the generated one, its title and description are the body's (an empty title
  included), \<open>complete\<close> is false and both timestamps are the current clock.
\<close>

theorem handler_CreateTodo_creates:
  fixes req :: create_todo_request
  assumes "fault s = None" and "fst (NewObjectID s) \<notin> set (map ID (docs s))"
  defines "t \<equiv> \<lparr>ID = fst (NewObjectID s), Title = CreateTitle req, Description = CreateDescription req,
               Complete = False, CreatedAt = clock s, UpdatedAt = clock s\<rparr>"
  shows "handler_CreateTodo (Inr req) s =
    (Inr (SendSuccessResponse 201 ''Todo created with success!'' (Some (PTodo (Some t))) []),
     (snd (NewObjectID s))\<lparr>docs := docs s @ [t]\<rparr>)"
  using assms by (simp add: handler_CreateTodo_def svc_CreateTodo_def repo_CreateTodo_fresh todo_literal_def)

theorem handler_CreateTodo_creates_witness:
  "fault demo_sys = None \<and> fst (NewObjectID demo_sys) \<notin> set (map ID (docs demo_sys))
   \<and> handler_CreateTodo (Inr \<lparr>CreateTitle = [], CreateDescription = ''x''\<rparr>) demo_sys =
     (Inr (SendSuccessResponse 201 ''Todo created with success!''
        (Some (PTodo (Some \<lparr>ID = demo_new_oid, Title = [], Description = ''x'', Complete = False,
                             CreatedAt = 1700000060000, UpdatedAt = 1700000060000\<rparr>))) []),
      demo_sys\<lparr>docs := [demo_todo, \<lparr>ID = demo_new_oid, Title = [], Description = ''x'', Complete = False,
                             CreatedAt = 1700000060000, UpdatedAt = 1700000060000\<rparr>],
               object_id_counter := 2\<rparr>)"
  using handler_CreateTodo_creates[of demo_sys "\<lparr>CreateTitle = [], CreateDescription = ''x''\<rparr>"]
  by (simp add: demo_NewObjectID)

text \<open>
  C4. \<open>PUT /todos/{id}\<close> with a well-formed id and a body without a title is
  rejected with 400 (the validator's \<open>required\<close> error on \<open>Title\<close>) before
  the store is read, and nothing changes.
\<close>

theorem handler_UpdateTodo_requires_title:
  assumes "object_id_from_hex id_str = Inr oid" and "UpdateTitle req = []"
  shows "handler_UpdateTodo id_str (Inr req) s =
    (Inr (SendErrorResponse 400 (''Fail the to update todo: Validation error: '' @ field_error_msg ''Title'')), s)"
  using assms svc_UpdateTodo_no_title[OF assms(1), of "update_request_todo req" s]
  by (simp add: handler_UpdateTodo_def field_error_msg_def)

theorem handler_UpdateTodo_requires_title_witness:
  "object_id_from_hex demo_hex = Inr demo_oid
   \<and> UpdateTitle \<lparr>UpdateTitle = [], UpdateDescription = ''new desc'', UpdateComplete = None\<rparr> = []
   \<and> handler_UpdateTodo demo_hex (Inr \<lparr>UpdateTitle = [], UpdateDescription = ''new desc'', UpdateComplete = None\<rparr>) demo_sys =
     (Inr (SendErrorResponse 400 (''Fail the to update todo: Validation error: '' @ field_error_msg ''Title'')), demo_sys)"
  using handler_UpdateTodo_requires_title[of demo_hex demo_oid "\<lparr>UpdateTitle = [], UpdateDescription = ''new desc'', UpdateComplete = None\<rparr>" demo_sys]
  by (simp add: demo_hex_parse)

text \<open>
  C5. Deleting a stored task answers 204; afterwards \<open>GET\<close> on its id answers 404
  \<open>Task not found\<close>, and deleting it again answers 500, not 404.
\<close>

theorem delete_then_get_and_delete:
  assumes "fault s = None" and "object_id_from_hex id_str = Inr oid" and "oid \<in> set (map ID (docs s))"
  defines "s1 \<equiv> snd (handler_DeleteTodo id_str s)"
  shows "fst (handler_DeleteTodo id_str s) = Inr (SendSuccessResponse 204 ''Task deleted!'' None [])
       \<and> handler_GetTodoByID id_str s1 = (Inr (SendErrorResponse 404 ''Task not found''), s1)
       \<and> handler_DeleteTodo id_str s1 =
           (Inr (SendErrorResponse 500 ''Falha ao deletar tarefa: No tasks found with id to delete''), s1)"
proof -
  have d: "svc_DeleteTodo id_str s = (Inr (), s\<lparr>docs := filter (\<lambda>d. ID d \<noteq> oid) (docs s)\<rparr>)"
    using assms(1-3) by (rule svc_DeleteTodo_present)
  then have s1: "s1 = s\<lparr>docs := filter (\<lambda>d. ID d \<noteq> oid) (docs s)\<rparr>"
    by (simp add: s1_def handler_DeleteTodo_def)
  have f1: "fault s1 = None" and gone: "oid \<notin> set (map ID (docs s1))" using assms(1) by (auto simp: s1)
  show ?thesis
    using d svc_GetTodoByID_absent[OF f1 assms(2) gone] svc_DeleteTodo_absent[OF f1 assms(2) gone]
    by (simp add: s1_def handler_DeleteTodo_def handler_GetTodoByID_def)
qed

theorem delete_then_get_and_delete_witness:
  "fault demo_sys = None \<and> object_id_from_hex demo_hex = Inr demo_oid \<and> demo_oid \<in> set (map ID (docs demo_sys))
   \<and> fst (handler_DeleteTodo demo_hex demo_sys) = Inr (SendSuccessResponse 204 ''Task deleted!'' None [])
   \<and> handler_GetTodoByID demo_hex (demo_sys\<lparr>docs := []\<rparr>) = (Inr (SendErrorResponse 404 ''Task not found''), demo_sys\<lparr>docs := []\<rparr>)
   \<and> handler_DeleteTodo demo_hex (demo_sys\<lparr>docs := []\<rparr>) =
       (Inr (SendErrorResponse 500 ''Falha ao deletar tarefa: No tasks found with id to delete''), demo_sys\<lparr>docs := []\<rparr>)"
proof -
  have s1: "snd (handler_DeleteTodo demo_hex demo_sys) = demo_sys\<lparr>docs := []\<rparr>"
    by (simp add: handler_DeleteTodo_def svc_DeleteTodo_def repo_DeleteTodo_def delete_one_def demo_hex_parse)
  show ?thesis
    using delete_then_get_and_delete[of demo_sys demo_hex demo_oid] s1 by (simp add: demo_hex_parse)
qed

text \<open>
  C6. Toggling a stored task answers 200 with the flag flipped; toggling it again
  (with no write in between) answers 200 with the original flag, and the store
  then holds the original task with only \<open>updatedAt\<close> refreshed.
\<close>

theorem toggle_twice_restores:
  assumes "fault s = None" and "store_wf s" and "t \<in> set (docs s)"
    and "object_id_from_hex id_str = Inr (ID t)"
  defines "s1 \<equiv> snd (handler_ToggleTodoComplete id_str s)"
  shows "fst (handler_ToggleTodoComplete id_str s) =
           Inr (SendSuccessResponse 200 ''Status task completed changed''
                  (Some (PTodo (Some (t\<lparr>Complete := \<not> Complete t, UpdatedAt := clock s\<rparr>)))) [])
       \<and> fst (handler_ToggleTodoComplete id_str s1) =
           Inr (SendSuccessResponse 200 ''Status task completed changed''
                  (Some (PTodo (Some (t\<lparr>UpdatedAt := clock s\<rparr>)))) [])
       \<and> docs (snd (handler_ToggleTodoComplete id_str s1)) =
           map (\<lambda>d. if ID d = ID t then t\<lparr>UpdatedAt := clock s\<rparr> else d) (docs s)"
proof -
  define t1 where "t1 = t\<lparr>Complete := \<not> Complete t, UpdatedAt := clock s\<rparr>"
  have first: "svc_ToggleTodoComplete id_str s =
      (Inr (Some t1), s\<lparr>docs := map (\<lambda>d. if ID d = ID t then t1 else d) (docs s)\<rparr>)"
    using svc_ToggleTodoComplete_present[OF assms(1-4)] by (simp add: t1_def Let_def)
  then have s1: "s1 = s\<lparr>docs := map (\<lambda>d. if ID d = ID t then t1 else d) (docs s)\<rparr>"
    by (simp add: s1_def handler_ToggleTodoComplete_def)
  have id1: "ID t1 = ID t" by (simp add: t1_def)
  have wf1: "store_wf s1" using assms(2) by (simp add: s1 store_wf_def map_ID_replace[OF id1])
  have in1: "t1 \<in> set (docs s1)" using assms(3) by (simp add: s1 replace_by_id_member)
  have second: "svc_ToggleTodoComplete id_str s1 =
      (Inr (Some (t\<lparr>UpdatedAt := clock s\<rparr>)),
       s1\<lparr>docs := map (\<lambda>d. if ID d = ID t then t\<lparr>UpdatedAt := clock s\<rparr> else d) (docs s1)\<rparr>)"
    using svc_ToggleTodoComplete_present[of s1 t1 id_str] assms(1,4) wf1 in1 id1
    by (simp add: s1 t1_def Let_def)
  have "map (\<lambda>d. if ID d = ID t then t\<lparr>UpdatedAt := clock s\<rparr> else d)
          (map (\<lambda>d. if ID d = ID t then t1 else d) (docs s)) =
        map (\<lambda>d. if ID d = ID t then t\<lparr>UpdatedAt := clock s\<rparr> else d) (docs s)"
    by (simp add: id1)
  with first second show ?thesis
    by (simp add: s1 handler_ToggleTodoComplete_def t1_def)
qed

theorem toggle_twice_restores_witness:
  "fault demo_sys = None \<and> store_wf demo_sys \<and> demo_todo \<in> set (docs demo_sys)
   \<and> object_id_from_hex demo_hex = Inr (ID demo_todo)
   \<and> fst (handler_ToggleTodoComplete demo_hex demo_sys) =
       Inr (SendSuccessResponse 200 ''Status task completed changed''
              (Some (PTodo (Some (demo_todo\<lparr>Complete := False, UpdatedAt := 1700000060000\<rparr>)))) [])
   \<and> fst (handler_ToggleTodoComplete demo_hex (snd (handler_ToggleTodoComplete demo_hex demo_sys))) =
       Inr (SendSuccessResponse 200 ''Status task completed changed''
              (Some (PTodo (Some (demo_todo\<lparr>UpdatedAt := 1700000060000\<rparr>)))) [])
   \<and> docs (snd (handler_ToggleTodoComplete demo_hex (snd (handler_ToggleTodoComplete demo_hex demo_sys)))) =
       [demo_todo\<lparr>UpdatedAt := 1700000060000\<rparr>]"
  using toggle_twice_restores[of demo_sys demo_todo demo_hex]
  by (simp add: store_wf_def demo_hex_parse)

text \<open>
  C7. A path id that \<open>ObjectIDFromHex\<close> rejects makes \<open>GET\<close>, \<open>PUT\<close> and
  \<open>PATCH .../toggle\<close> answer 404 \<open>Id is Invalid\<close> without touching the store,
  while \<open>DELETE\<close> answers 500 with the parser's message.
\<close>

theorem invalid_id_handling:
  assumes "object_id_from_hex id_str = Inl e"
  shows "handler_GetTodoByID id_str s = (Inr (SendErrorResponse 404 ''Id is Invalid''), s)
       \<and> handler_UpdateTodo id_str (Inr req) s = (Inr (SendErrorResponse 404 ''Id is Invalid''), s)
       \<and> handler_ToggleTodoComplete id_str s = (Inr (SendErrorResponse 404 ''Id is Invalid''), s)
       \<and> handler_DeleteTodo id_str s =
           (Inr (SendErrorResponse 500 (''Falha ao deletar tarefa: Id is invalid! Error: '' @ error_msg e)), s)"
  using assms
  by (simp add: handler_GetTodoByID_def svc_GetTodoByID_def handler_UpdateTodo_def svc_UpdateTodo_def
      handler_ToggleTodoComplete_def svc_ToggleTodoComplete_def handler_DeleteTodo_def svc_DeleteTodo_def)

theorem invalid_id_handling_witness:
  "object_id_from_hex ''42'' = Inl (GoError ErrInvalidHex)
   \<and> handler_GetTodoByID ''42'' demo_sys = (Inr (SendErrorResponse 404 ''Id is Invalid''), demo_sys)
   \<and> handler_UpdateTodo ''42'' (Inr \<lparr>UpdateTitle = ''t'', UpdateDescription = [], UpdateComplete = None\<rparr>) demo_sys =
       (Inr (SendErrorResponse 404 ''Id is Invalid''), demo_sys)
   \<and> handler_ToggleTodoComplete ''42'' demo_sys = (Inr (SendErrorResponse 404 ''Id is Invalid''), demo_sys)
   \<and> handler_DeleteTodo ''42'' demo_sys =
       (Inr (SendErrorResponse 500 (''Falha ao deletar tarefa: Id is invalid! Error: '' @ ErrInvalidHex)), demo_sys)"
proof -
  have p: "object_id_from_hex ''42'' = Inl (GoError ErrInvalidHex)" by (simp add: object_id_from_hex_def)
  show ?thesis
    using invalid_id_handling[OF p, of demo_sys "\<lparr>UpdateTitle = ''t'', UpdateDescription = [], UpdateComplete = None\<rparr>"] p
    by simp
qed

text \<open>
  C8. \<open>POST /todos\<close> with a decoded body fails (400 \<open>Fail the to create new
  todo\<close>) exactly when the store does: the server is unreachable or the
  generated id is already stored. The validation step of the service never
  rejects a task, so an empty title is accepted.
\<close>

theorem create_fails_only_on_store_error:
  "fst (handler_CreateTodo (Inr req) s) = Inr (SendErrorResponse 400 ''Fail the to create new todo'')
   \<longleftrightarrow> fault s \<noteq> None \<or> fst (NewObjectID s) \<in> set (map ID (docs s))"
proof (cases "fault s = None \<and> fst (NewObjectID s) \<notin> set (map ID (docs s))")
  case True
  then show ?thesis
    by (simp add: handler_CreateTodo_def svc_CreateTodo_skips_validation repo_CreateTodo_fresh
        SendErrorResponse_def SendSuccessResponse_def Let_def)
next
  case False
  then show ?thesis
    by (auto simp: handler_CreateTodo_def svc_CreateTodo_def repo_CreateTodo_def insert_one_def
        NewObjectID_def Let_def split: option.split)
qed

theorem create_fails_only_on_store_error_witness:
  "fault (demo_sys\<lparr>fault := Some ''server selection error''\<rparr>) \<noteq> None
   \<and> fst (handler_CreateTodo (Inr \<lparr>CreateTitle = ''Buy milk'', CreateDescription = []\<rparr>)
          (demo_sys\<lparr>fault := Some ''server selection error''\<rparr>)) =
       Inr (SendErrorResponse 400 ''Fail the to create new todo'')"
  using create_fails_only_on_store_error[of "\<lparr>CreateTitle = ''Buy milk'', CreateDescription = []\<rparr>"
          "demo_sys\<lparr>fault := Some ''server selection error''\<rparr>"]
  by simp

text \<open>
  C9. A stored task is found again under the text of its id: \<open>GET\<close> on
  \<open>Hex()\<close> of a stored 12-byte identifier answers 200 with that task, because
  \<open>ObjectIDFromHex\<close> inverts \<open>Hex()\<close>.
\<close>

theorem get_by_printed_id:
  assumes "fault s = None" and "store_wf s" and "t \<in> set (docs s)" and "length (ID t) = 12"
  shows "handler_GetTodoByID (object_id_hex (ID t)) s =
           (Inr (SendSuccessResponse 200 ''Task founded'' (Some (PTodo (Some t))) []), s)"
  using assms
  by (simp add: handler_GetTodoByID_def svc_GetTodoByID_def object_id_hex_roundtrip repo_GetTodoByID_present)

theorem get_by_printed_id_witness:
  "fault demo_sys = None \<and> store_wf demo_sys \<and> demo_todo \<in> set (docs demo_sys) \<and> length (ID demo_todo) = 12
   \<and> handler_GetTodoByID (object_id_hex demo_oid) demo_sys =
       (Inr (SendSuccessResponse 200 ''Task founded'' (Some (PTodo (Some demo_todo))) []), demo_sys)"
  using get_by_printed_id[of demo_sys demo_todo] by (simp add: store_wf_def)

text \<open>
  C10. Every id text the parser accepts behaves as the lower-case text of the id
  it denotes, for all four handlers that take an id: two spellings that differ
  only in letter case address the same task.
\<close>

theorem id_letter_case_irrelevant:
  assumes "object_id_from_hex str = Inr oid"
  shows "handler_GetTodoByID str s = handler_GetTodoByID (object_id_hex oid) s
       \<and> handler_UpdateTodo str b s = handler_UpdateTodo (object_id_hex oid) b s
       \<and> handler_DeleteTodo str s = handler_DeleteTodo (object_id_hex oid) s
       \<and> handler_ToggleTodoComplete str s = handler_ToggleTodoComplete (object_id_hex oid) s"
proof -
  have "length oid = 12" using object_id_from_hex_Inr[OF assms] by simp
  then have p: "object_id_from_hex (object_id_hex oid) = Inr oid" by (rule object_id_hex_roundtrip)
  show ?thesis
    using assms p
    by (simp add: handler_GetTodoByID_def svc_GetTodoByID_def handler_UpdateTodo_def svc_UpdateTodo_def
        handler_DeleteTodo_def svc_DeleteTodo_def handler_ToggleTodoComplete_def svc_ToggleTodoComplete_def
        split: sum.split)
qed

theorem id_letter_case_irrelevant_witness:
  "object_id_from_hex ''6553F1000102030405000001'' = Inr demo_oid
   \<and> handler_GetTodoByID ''6553F1000102030405000001'' demo_sys = handler_GetTodoByID (object_id_hex demo_oid) demo_sys
   \<and> handler_UpdateTodo ''6553F1000102030405000001'' (Inl ''x'') demo_sys = handler_UpdateTodo (object_id_hex demo_oid) (Inl ''x'') demo_sys
   \<and> handler_DeleteTodo ''6553F1000102030405000001'' demo_sys = handler_DeleteTodo (object_id_hex demo_oid) demo_sys
   \<and> handler_ToggleTodoComplete ''6553F1000102030405000001'' demo_sys = handler_ToggleTodoComplete (object_id_hex demo_oid) demo_sys"
proof -
  have p: "object_id_from_hex ''6553F1000102030405000001'' = Inr demo_oid"
    by (simp add: object_id_from_hex_def hex_digit_value_def eval_simps)
  show ?thesis using id_letter_case_irrelevant[OF p, of demo_sys "Inl ''x''"] p by simp
qed

text \<open>
  C11. With the store up, listing with a title filter that contains no PCRE
  metacharacter, in ASCII without NUL, over tasks with ASCII titles, succeeds,
  counts exactly the tasks whose title contains the filter case-insensitively (and
  match the flag, when one is given), and returns only such tasks. On ASCII text,
  MongoDB's caseless matching is ASCII case folding.
\<close>

theorem list_title_filter_is_substring_search:
  fixes complete :: "bool option"
  assumes "fault s = None" and "title \<noteq> []" and "literal_pattern title"
    and "ascii_text title" and "CHR 0x00 \<notin> set title" and "\<forall>t \<in> set (docs s). ascii_text (Title t)"
  defines "P \<equiv> \<lambda>t. sublist (map ascii_lower title) (map ascii_lower (Title t))
                   \<and> (case complete of None \<Rightarrow> True | Some b \<Rightarrow> Complete t = b)"
  shows "\<exists>todos. svc_GetAllTodos title complete page pageSize s = Inr (todos, of_nat (length (filter P (docs s))))
                \<and> set todos \<subseteq> set (filter P (docs s))"
proof -
  have fm: "filter_matches \<lparr>filter_title = Some title, filter_complete = complete\<rparr> = P"
    using assms(3) by (auto simp: filter_matches_def P_def pcre_match_i_literal)
  show ?thesis
    using svc_GetAllTodos_ok[OF assms(1,4,5), of complete page pageSize] assms(2)
    by (auto simp: fm Let_def dest!: in_set_takeD in_set_dropD)
qed

theorem list_title_filter_is_substring_search_witness:
  "fault demo_sys = None \<and> ''MILK'' \<noteq> [] \<and> literal_pattern ''MILK''
   \<and> ascii_text ''MILK'' \<and> CHR 0x00 \<notin> set ''MILK'' \<and> list_all (\<lambda>t. ascii_text (Title t)) (docs demo_sys)
   \<and> (\<exists>todos. svc_GetAllTodos ''MILK'' None 1 10 demo_sys =
          Inr (todos, of_nat (length (filter (\<lambda>t. sublist (map ascii_lower ''MILK'') (map ascii_lower (Title t))) (docs demo_sys))))
        \<and> set todos \<subseteq> set (filter (\<lambda>t. sublist (map ascii_lower ''MILK'') (map ascii_lower (Title t))) (docs demo_sys)))"
proof -
  have l: "literal_pattern ''MILK''" by (simp add: literal_pattern_def pcre_meta_chars_def)
  have a: "ascii_text ''MILK''" "ascii_text ''Buy milk''" by (simp_all add: ascii_text_def)
  show ?thesis
    using list_title_filter_is_substring_search[of demo_sys "''MILK''" None 1 10] l a by simp
qed

text \<open>
  C13. The \<open>totalPages\<close> of a listing with a title MongoDB accepts (a
  pattern of the modelled fragment) is the ceiling of \<open>total / pageSize\<close>,
  the least \<open>t\<close> with \<open>total \<le> t * pageSize\<close>, when
  \<open>total + pageSize\<close> fits in an \<open>int64\<close>; \<open>total\<close> is the number of
  tasks that match the filter.
\<close>

theorem list_total_pages_is_ceiling:
  fixes cf :: "bool option" and title :: string
  assumes "fault s = None" and "pcre_fragment title" and "1 \<le> sint pageSize"
  defines "m \<equiv> length (filter (filter_matches \<lparr>filter_title = (if title \<noteq> [] then Some title else None),
                                                filter_complete = cf\<rparr>) (docs s))"
  assumes "int m + sint pageSize \<le> 2 ^ 63"
  shows "\<exists>todos tp. list_todos_response title cf page pageSize s =
           Inr (SendSuccessResponse 200 ''Todos listed!'' (Some (PTodos todos))
                  [Some \<lparr>meta_total = of_nat m, meta_page = page, meta_pageSize = pageSize, meta_totalPages = tp\<rparr>])
         \<and> (sint tp - 1) * sint pageSize < int m \<and> int m \<le> sint tp * sint pageSize"
proof -
  have e: "ascii_text title" "CHR 0x00 \<notin> set title" using pcre_fragment_encodable[OF assms(2)] by auto
  obtain todos where svc: "svc_GetAllTodos title cf page pageSize s = Inr (todos, of_nat m)"
    using svc_GetAllTodos_total[OF assms(1) e, of cf page pageSize] by (auto simp: m_def)
  have m: "sint (of_nat m :: int64) = int m" using assms(3,5) sint64_of_nat[of m] by simp
  have a: "sint (pageSize - 1) = sint pageSize - 1"
    using assms(3) sint64_diff_exact[of pageSize 1] sint_lt[of pageSize] by simp
  have b: "sint (of_nat m + pageSize - 1) = int m + sint pageSize - 1"
    using assms(3,5) a m sint64_add_exact[of "of_nat m" "pageSize - 1"] by (simp add: add_diff_eq)
  define tp :: int64 where "tp = word_of_int ((int m + sint pageSize - 1) div sint pageSize)"
  have div: "go_div64 (of_nat m + pageSize - 1) pageSize = Inr tp"
    using assms(3) b by (simp add: go_div64_pos tp_def)
  have "0 \<le> (int m + sint pageSize - 1) div sint pageSize"
    using assms(3) by (simp add: pos_imp_zdiv_nonneg_iff)
  moreover have "(int m + sint pageSize - 1) div sint pageSize \<le> int m + sint pageSize - 1"
  proof (cases "int m + sint pageSize - 1 = 0")
    case False
    then show ?thesis using assms(3) int_div_le_self[of "int m + sint pageSize - 1" "sint pageSize"] by simp
  qed simp
  then have "(int m + sint pageSize - 1) div sint pageSize < 2 ^ 63" using assms(5) by simp
  ultimately have "sint tp = (int m + sint pageSize - 1) div sint pageSize"
    by (simp add: tp_def signed_of_int signed_take_bit_int_eq_self)
  then have "(sint tp - 1) * sint pageSize < int m \<and> int m \<le> sint tp * sint pageSize"
    using div_round_up_least[of "sint pageSize" "int m"] assms(3) by simp
  then show ?thesis using svc div by (auto simp: list_todos_response_def)
qed

theorem list_total_pages_is_ceiling_witness:
  "fault (demo_sys\<lparr>docs := [demo_todo, demo_todo2]\<rparr>) = None \<and> pcre_fragment [] \<and> 1 \<le> sint (1 :: int64)
   \<and> int (length (filter (filter_matches \<lparr>filter_title = None, filter_complete = None\<rparr>) [demo_todo, demo_todo2]))
       + sint (1 :: int64) \<le> 2 ^ 63
   \<and> (\<exists>todos tp. list_todos_response [] None 1 1 (demo_sys\<lparr>docs := [demo_todo, demo_todo2]\<rparr>) =
           Inr (SendSuccessResponse 200 ''Todos listed!'' (Some (PTodos todos))
                  [Some \<lparr>meta_total = 2, meta_page = 1, meta_pageSize = 1, meta_totalPages = tp\<rparr>])
         \<and> (sint tp - 1) * 1 < 2 \<and> 2 \<le> sint tp * 1)"
  using list_total_pages_is_ceiling[where s="demo_sys\<lparr>docs := [demo_todo, demo_todo2]\<rparr>" and pageSize=1
      and cf=None and title="[]" and page=1]
  by (simp add: filter_matches_def pcre_fragment_def ascii_text_def)

text \<open>
  C14. \<open>totalPages\<close> is computed in \<open>int64\<close> and wraps: whenever
  \<open>total + pageSize - 1\<close> exceeds \<open>math.MaxInt64\<close> (a \<open>pageSize\<close> near
  \<open>math.MaxInt64\<close>, which \<open>strconv.Atoi\<close> accepts), the sum wraps to a
  negative number and the response reports \<open>totalPages\<close> at most 0, namely
  \<open>-((2^64 - (total + pageSize - 1)) div pageSize)\<close>, although at least one
  task matches.
\<close>

theorem list_total_pages_overflow:
  fixes cf :: "bool option" and title :: string
  assumes "fault s = None" and "pcre_fragment title" and "1 \<le> sint pageSize"
  defines "m \<equiv> length (filter (filter_matches \<lparr>filter_title = (if title \<noteq> [] then Some title else None),
                                                filter_complete = cf\<rparr>) (docs s))"
  assumes "int m < 2 ^ 63" and "2 ^ 63 \<le> int m + sint pageSize - 1"
  shows "\<exists>todos tp. list_todos_response title cf page pageSize s =
           Inr (SendSuccessResponse 200 ''Todos listed!'' (Some (PTodos todos))
                  [Some \<lparr>meta_total = of_nat m, meta_page = page, meta_pageSize = pageSize, meta_totalPages = tp\<rparr>])
         \<and> sint tp = - ((2 ^ 64 - (int m + sint pageSize - 1)) div sint pageSize) \<and> sint tp \<le> 0 \<and> 0 < m"
proof -
  have e: "ascii_text title" "CHR 0x00 \<notin> set title" using pcre_fragment_encodable[OF assms(2)] by auto
  obtain todos where svc: "svc_GetAllTodos title cf page pageSize s = Inr (todos, of_nat m)"
    using svc_GetAllTodos_total[OF assms(1) e, of cf page pageSize] by (auto simp: m_def)
  have p: "sint pageSize < 2 ^ 63" using sint_lt[of pageSize] by simp
  have mm: "sint (of_nat m :: int64) = int m" using assms(5) sint64_of_nat[of m] by simp
  have w: "sint (of_nat m + pageSize) = int m + sint pageSize - 2 ^ 64"
    using sint64_add_wraps[of "of_nat m" pageSize] mm assms(6) by simp
  have x: "sint (of_nat m + pageSize - 1) = int m + sint pageSize - 1 - 2 ^ 64"
    using sint64_diff_exact[of "of_nat m + pageSize" 1] w assms(5,6) p by simp
  define q where "q = - ((2 ^ 64 - (int m + sint pageSize - 1)) div sint pageSize)"
  have "- sint (of_nat m + pageSize - 1) = 2 ^ 64 - (int m + sint pageSize - 1)" using x by simp
  then have "- ((- sint (of_nat m + pageSize - 1)) div sint pageSize) = q" by (simp only: q_def)
  moreover have "go_div64 (of_nat m + pageSize - 1) pageSize
      = Inr (word_of_int (- ((- sint (of_nat m + pageSize - 1)) div sint pageSize)))"
    using x assms(3,5) p by (intro go_div64_neg) simp_all
  ultimately have div: "go_div64 (of_nat m + pageSize - 1) pageSize = Inr (word_of_int q)" by simp
  have "0 \<le> (2 ^ 64 - (int m + sint pageSize - 1)) div sint pageSize"
    using assms(3,5) p by (simp add: pos_imp_zdiv_nonneg_iff)
  moreover have "(2 ^ 64 - (int m + sint pageSize - 1)) div sint pageSize \<le> 2 ^ 63"
    using assms(3,5,6) p int_div_le_self[of "2 ^ 64 - (int m + sint pageSize - 1)" "sint pageSize"] by simp
  ultimately have "- (2 ^ 63) \<le> q" "q \<le> 0" by (simp_all add: q_def)
  then have q: "sint (word_of_int q :: int64) = q" "q \<le> 0"
    by (simp_all add: signed_of_int signed_take_bit_int_eq_self)
  have m0: "0 < m" using assms(6) p by simp
  have r: "list_todos_response title cf page pageSize s =
           Inr (SendSuccessResponse 200 ''Todos listed!'' (Some (PTodos todos))
                  [Some \<lparr>meta_total = of_nat m, meta_page = page, meta_pageSize = pageSize,
                         meta_totalPages = word_of_int q\<rparr>])"
    using svc div by (simp add: list_todos_response_def)
  have t: "sint (word_of_int q :: int64) = - ((2 ^ 64 - (int m + sint pageSize - 1)) div sint pageSize)"
    using q(1) q_def by (rule trans)
  show ?thesis
    apply (intro exI conjI)
       apply (rule r)
      apply (rule t)
    using q m0 by simp_all
qed

theorem list_total_pages_overflow_witness:
  "fault (demo_sys\<lparr>docs := [demo_todo, demo_todo2]\<rparr>) = None \<and> pcre_fragment []
   \<and> 1 \<le> sint (0x7FFFFFFFFFFFFFFF :: int64)
   \<and> int (length (filter (filter_matches \<lparr>filter_title = None, filter_complete = None\<rparr>) [demo_todo, demo_todo2])) < 2 ^ 63
   \<and> 2 ^ 63 \<le> int (length (filter (filter_matches \<lparr>filter_title = None, filter_complete = None\<rparr>) [demo_todo, demo_todo2]))
                + sint (0x7FFFFFFFFFFFFFFF :: int64) - 1
   \<and> (\<exists>todos tp. list_todos_response [] None 1 0x7FFFFFFFFFFFFFFF (demo_sys\<lparr>docs := [demo_todo, demo_todo2]\<rparr>) =
           Inr (SendSuccessResponse 200 ''Todos listed!'' (Some (PTodos todos))
                  [Some \<lparr>meta_total = 2, meta_page = 1, meta_pageSize = 0x7FFFFFFFFFFFFFFF, meta_totalPages = tp\<rparr>])
         \<and> sint tp = - 1)"
proof -
  have p: "sint (0x7FFFFFFFFFFFFFFF :: int64) = 0x7FFFFFFFFFFFFFFF" by (simp add: eval_simps)
  show ?thesis
    using list_total_pages_overflow[where s="demo_sys\<lparr>docs := [demo_todo, demo_todo2]\<rparr>"
        and pageSize="0x7FFFFFFFFFFFFFFF" and cf=None and title="[]" and page=1]
    by (auto simp: filter_matches_def pcre_fragment_def ascii_text_def p)
qed

text \<open>
  C15. The offset \<open>(page - 1) * pageSize\<close> is computed in Go's 64-bit
  \<open>int\<close> and wraps: whenever it is a non-zero multiple of \<open>2^64\<close>, a page
  far beyond the last one, listing answers exactly what page 1 answers, where the
  contract's page (\<open>list_page_spec\<close>) is empty.
\<close>

theorem list_page_skip_wraps:
  fixes cf :: "bool option" and title :: string
  assumes "fault s = None" and "pcre_fragment title" and "2 \<le> sint page" and "1 \<le> sint pageSize"
    and "2 ^ 64 dvd (sint page - 1) * sint pageSize" and "length (docs s) < 2 ^ 64"
  defines "f \<equiv> \<lparr>filter_title = (if title \<noteq> [] then Some title else None), filter_complete = cf\<rparr>"
  shows "svc_GetAllTodos title cf page pageSize s = svc_GetAllTodos title cf 1 pageSize s
         \<and> fst (list_page_spec f (nat (sint page)) (nat (sint pageSize)) (docs s)) = []"
proof
  have e: "ascii_text title" "CHR 0x00 \<notin> set title" using pcre_fragment_encodable[OF assms(2)] by auto
  have "sint (page - 1) = sint page - 1"
    using assms(3) sint64_diff_exact[of page 1] sint_lt[of page] by simp
  then have "(page - 1) * pageSize = 0" using int64_mult_wraps_to_zero[of "page - 1" pageSize] assms(5) by simp
  then show "svc_GetAllTodos title cf page pageSize s = svc_GetAllTodos title cf 1 pageSize s"
    using svc_GetAllTodos_ok[OF assms(1) e, of cf page pageSize] svc_GetAllTodos_ok[OF assms(1) e, of cf 1 pageSize]
    by simp
next
  have "0 < (sint page - 1) * sint pageSize" using assms(3,4) by simp
  then have "2 ^ 64 \<le> (sint page - 1) * sint pageSize" using assms(5) by (simp add: zdvd_imp_le)
  moreover have "(nat (sint page) - 1) * nat (sint pageSize) = nat ((sint page - 1) * sint pageSize)"
    using assms(3,4) by (simp add: nat_mult_distrib nat_diff_distrib)
  ultimately have "2 ^ 64 \<le> (nat (sint page) - 1) * nat (sint pageSize)"
    by (simp add: le_nat_iff)
  then have "length (filter (filter_matches f) (docs s)) \<le> (nat (sint page) - 1) * nat (sint pageSize)"
    using assms(6) length_filter_le[of "filter_matches f" "docs s"] by linarith
  then show "fst (list_page_spec f (nat (sint page)) (nat (sint pageSize)) (docs s)) = []"
    by (simp add: list_page_spec_def Let_def)
qed

theorem list_page_skip_wraps_witness:
  "fault demo_sys = None \<and> pcre_fragment [] \<and> 2 \<le> sint (0x4000000000000001 :: int64) \<and> 1 \<le> sint (4 :: int64)
   \<and> 2 ^ 64 dvd (sint (0x4000000000000001 :: int64) - 1) * sint (4 :: int64) \<and> length (docs demo_sys) < 2 ^ 64
   \<and> svc_GetAllTodos [] None 0x4000000000000001 4 demo_sys = svc_GetAllTodos [] None 1 4 demo_sys
   \<and> fst (list_page_spec \<lparr>filter_title = None, filter_complete = None\<rparr> 0x4000000000000001 4 (docs demo_sys)) = []"
proof -
  have p: "sint (0x4000000000000001 :: int64) = 0x4000000000000001" by (simp add: eval_simps)
  show ?thesis
    using list_page_skip_wraps[where s=demo_sys and page="0x4000000000000001" and pageSize=4 and cf=None and title="[]"]
    by (simp add: pcre_fragment_def ascii_text_def p)
qed

end
