(* ===== verification/Json.thy ===== *)
theory Json
  imports Model
begin

text \<open>
  How \<open>c.BodyParser\<close> fills the request bodies of \<open>src/dtos/\<close>: Fiber hands a
  JSON body to \<open>encoding/json\<close>'s \<open>Unmarshal\<close>. A JSON document is a value
  of \<open>json\<close> (numbers keep their literal text). Decoding an object into a
  struct walks its members in order; a key selects the field whose tag name equals
  it, or else the field whose tag name equals it after Go's name folding; unknown
  keys are skipped, and a later duplicate overwrites an earlier one. \<open>null\<close>
  leaves a string field unchanged and sets a pointer field to \<open>nil\<close>. A value of
  the wrong kind records an \<open>UnmarshalTypeError\<close>, decoding goes on, and the
  first recorded error is the result.
\<close>

datatype json = JNull | JBool bool | JNumber string | JString string
  | JArray "json list" | JObject "(string \<times> json) list"

primrec json_kind :: "json \<Rightarrow> string" where
  "json_kind JNull = ''null''"
| "json_kind (JBool _) = ''bool''"
| "json_kind (JNumber _) = ''number''"
| "json_kind (JString _) = ''string''"
| "json_kind (JArray _) = ''array''"
| "json_kind (JObject _) = ''object''"

text \<open>The JSON names of the fields, from the struct tags, in struct order.\<close>

definition create_request_fields :: "string list" where
  "create_request_fields = [''title'', ''description'']"

definition update_request_fields :: "string list" where
  "update_request_fields = [''title'', ''description'', ''complete'']"

text \<open>
  \<open>foldName\<close> of \<open>encoding/json\<close> (Go 1.21 and later): ASCII letters are
  upper-cased and every other character \<open>r\<close> becomes
  \<open>unicode.ToUpper(unicode.ToLower(r))\<close>. Only four non-ASCII characters
  fold to ASCII letters: U+017F (long s) to \<open>S\<close>, U+0130 and U+0131 (dotted
  and dotless I) to \<open>I\<close>, and U+212A (Kelvin sign) to \<open>K\<close>; they are
  folded here from their UTF-8 bytes. Every other non-ASCII character folds to a
  non-ASCII one, so keeping its bytes gives the same comparisons against the
  ASCII field names.
\<close>

fun go_fold_name :: "string \<Rightarrow> string" where
  "go_fold_name [] = []"
| "go_fold_name (c # cs) =
     (if c = CHR 0xC5 \<and> take 1 cs = [CHR 0xBF] then CHR ''S'' # go_fold_name (drop 1 cs)
      else if c = CHR 0xC4 \<and> (take 1 cs = [CHR 0xB0] \<or> take 1 cs = [CHR 0xB1]) then CHR ''I'' # go_fold_name (drop 1 cs)
      else if c = CHR 0xE2 \<and> take 2 cs = [CHR 0x84, CHR 0xAA] then CHR ''K'' # go_fold_name (drop 2 cs)
      else (if 0x61 \<le> (of_char c :: nat) \<and> (of_char c :: nat) \<le> 0x7A then char_of (of_char c - (32 :: nat)) else c)
           # go_fold_name cs)"

text \<open>The field a member key selects: exact name first, then equal folded names.\<close>

definition json_field_for :: "string list \<Rightarrow> string \<Rightarrow> string option" where
  "json_field_for names k =
     (if k \<in> set names then Some k
      else List.find (\<lambda>n. go_fold_name n = go_fold_name k) names)"

definition unmarshal_field_error :: "string \<Rightarrow> string \<Rightarrow> json \<Rightarrow> string \<Rightarrow> string" where
  "unmarshal_field_error struct_name field v ty =
     ''json: cannot unmarshal '' @ json_kind v @ '' into Go struct field '' @ struct_name @ ''.''
     @ field @ '' of type '' @ ty"

definition unmarshal_value_error :: "json \<Rightarrow> string \<Rightarrow> string" where
  "unmarshal_value_error v ty = ''json: cannot unmarshal '' @ json_kind v @ '' into Go value of type '' @ ty"

text \<open>\<open>saveError\<close>: only the first error is kept.\<close>

definition save_error :: "string option \<Rightarrow> string \<Rightarrow> string option" where
  "save_error saved e = (case saved of None \<Rightarrow> Some e | Some _ \<Rightarrow> saved)"

fun decode_create_members ::
  "(string \<times> json) list \<Rightarrow> string option \<Rightarrow> create_todo_request \<Rightarrow> string option \<times> create_todo_request" where
  "decode_create_members [] err r = (err, r)"
| "decode_create_members ((k, v) # kvs) err r =
     (case json_field_for create_request_fields k of
        None \<Rightarrow> decode_create_members kvs err r
      | Some f \<Rightarrow>
          (case v of
             JString str \<Rightarrow>
               decode_create_members kvs err
                 (if f = ''title'' then r\<lparr>CreateTitle := str\<rparr> else r\<lparr>CreateDescription := str\<rparr>)
           | JNull \<Rightarrow> decode_create_members kvs err r
           | _ \<Rightarrow> decode_create_members kvs
                    (save_error err (unmarshal_field_error ''CreateTodoRequest'' f v ''string'')) r))"

fun decode_update_members ::
  "(string \<times> json) list \<Rightarrow> string option \<Rightarrow> update_todo_request \<Rightarrow> string option \<times> update_todo_request" where
  "decode_update_members [] err r = (err, r)"
| "decode_update_members ((k, v) # kvs) err r =
     (case json_field_for update_request_fields k of
        None \<Rightarrow> decode_update_members kvs err r
      | Some f \<Rightarrow>
          (if f = ''complete'' then
             (case v of
                JBool b \<Rightarrow> decode_update_members kvs err (r\<lparr>UpdateComplete := Some b\<rparr>)
              | JNull \<Rightarrow> decode_update_members kvs err (r\<lparr>UpdateComplete := None\<rparr>)
              | _ \<Rightarrow> decode_update_members kvs
                       (save_error err (unmarshal_field_error ''UpdateTodoRequest'' f v ''bool'')) r)
           else
             (case v of
                JString str \<Rightarrow>
                  decode_update_members kvs err
                    (if f = ''title'' then r\<lparr>UpdateTitle := str\<rparr> else r\<lparr>UpdateDescription := str\<rparr>)
              | JNull \<Rightarrow> decode_update_members kvs err r
              | _ \<Rightarrow> decode_update_members kvs
                       (save_error err (unmarshal_field_error ''UpdateTodoRequest'' f v ''string'')) r)))"

text \<open>
  \<open>json.Unmarshal(body, &req)\<close> into a zero request: \<open>null\<close> leaves it zero,
  an object is decoded member by member, any other value is a type error.
\<close>

definition decode_create_request :: "json \<Rightarrow> string + create_todo_request" where
  "decode_create_request j =
     (let zero = \<lparr>CreateTitle = [], CreateDescription = []\<rparr>
      in case j of
           JNull \<Rightarrow> Inr zero
         | JObject kvs \<Rightarrow>
             (case decode_create_members kvs None zero of
                (None, r) \<Rightarrow> Inr r
              | (Some e, _) \<Rightarrow> Inl e)
         | _ \<Rightarrow> Inl (unmarshal_value_error j ''dtos.CreateTodoRequest''))"

definition decode_update_request :: "json \<Rightarrow> string + update_todo_request" where
  "decode_update_request j =
     (let zero = \<lparr>UpdateTitle = [], UpdateDescription = [], UpdateComplete = None\<rparr>
      in case j of
           JNull \<Rightarrow> Inr zero
         | JObject kvs \<Rightarrow>
             (case decode_update_members kvs None zero of
                (None, r) \<Rightarrow> Inr r
              | (Some e, _) \<Rightarrow> Inl e)
         | _ \<Rightarrow> Inl (unmarshal_value_error j ''dtos.UpdateTodoRequest''))"

subsection \<open>Decoding lemmas\<close>

lemma json_field_for_exact [simp]: "k \<in> set names \<Longrightarrow> json_field_for names k = Some k"
  by (simp add: json_field_for_def)

lemma decode_update_members_keeps_error:
  "fst (decode_update_members kvs (Some e) r) = Some e"
proof (induction kvs arbitrary: r)
  case Nil
  then show ?case by simp
next
  case (Cons kv kvs)
  then show ?case
    by (cases kv) (auto simp: save_error_def split: option.split json.split)
qed

text \<open>
  A body whose first member selects \<open>title\<close> with a value that is neither a
  string nor \<open>null\<close> does not decode: that member records the first
  \<open>UnmarshalTypeError\<close>, and later members cannot replace it.
\<close>

lemma decode_update_title_type_error:
  assumes "json_field_for update_request_fields k = Some ''title''"
    and "json_kind v \<noteq> ''string''" and "json_kind v \<noteq> ''null''"
  shows "decode_update_request (JObject ((k, v) # kvs)) =
           Inl (unmarshal_field_error ''UpdateTodoRequest'' ''title'' v ''string'')"
proof -
  let ?z = "\<lparr>UpdateTitle = [], UpdateDescription = [], UpdateComplete = None\<rparr>"
  let ?e = "unmarshal_field_error ''UpdateTodoRequest'' ''title'' v ''string''"
  have step: "decode_update_members ((k, v) # kvs) None ?z = decode_update_members kvs (Some ?e) ?z"
    using assms by (cases v) (simp_all add: save_error_def)
  obtain r where "decode_update_members kvs (Some ?e) ?z = (Some ?e, r)"
    using decode_update_members_keeps_error[of kvs ?e ?z] by (metis prod.collapse)
  then show ?thesis using step by (simp add: decode_update_request_def)
qed

end
