(* ===== verification/App.thy ===== *)
theory App
  imports Handler Json
begin

text \<open>
  The application, \<open>src/main.go\<close>: a Fiber app with the middleware chain
  CORS, logger, recover and a per-IP rate limiter, in registration order, in
  front of the route table of the todo handlers and \<open>/health\<close>. A request is
  a record with the parts the program reads (method, path, query, body, client
  IP); the server state pairs the system state \<open>sys\<close> with the limiter's
  storage. \<open>serve\<close> answers one request; \<open>app_step\<close> is the step relation
  of the whole server (requests, the clock, the store becoming unreachable and
  reachable again), and \<open>reachable\<close> its reachable states from an empty store.
  The logger writes a line per request and changes no state; it is omitted.
\<close>

datatype http_method = GET | HEAD | POST | PUT | PATCH | DELETE | OPTIONS

primrec method_name :: "http_method \<Rightarrow> string" where
  "method_name GET = ''GET''"
| "method_name HEAD = ''HEAD''"
| "method_name POST = ''POST''"
| "method_name PUT = ''PUT''"
| "method_name PATCH = ''PATCH''"
| "method_name DELETE = ''DELETE''"
| "method_name OPTIONS = ''OPTIONS''"

text \<open>
  The body as \<open>BodyParser\<close> sees it: a JSON document (content type
  \<open>application/json\<close>), a JSON content type whose body does not parse (the
  parser's message), or a content type \<open>BodyParser\<close> does not decode, for
  which it returns \<open>fiber.ErrUnprocessableEntity\<close>. Form and XML bodies are
  not modelled.
\<close>

datatype req_body = BodyJson json | BodyMalformed string | BodyNotJson

text \<open>
  The path is the one the server hands to Fiber after fasthttp's normalisation
  (no repeated slashes, no dot segments); the query is already split into pairs.
  Of the headers, the model keeps the two the CORS middleware reads,
  \<open>Origin\<close> and \<open>Access-Control-Request-Method\<close> (empty when absent);
  \<open>Content-Type\<close> is part of \<open>req_body\<close>.
\<close>

record http_request =
  req_method :: http_method
  req_path :: string
  req_query :: query
  req_body :: req_body
  req_ip :: string
  req_origin :: string
  req_acrm :: string

definition body_parser :: "(json \<Rightarrow> string + 'a) \<Rightarrow> req_body \<Rightarrow> string + 'a" where
  "body_parser decode b =
     (case b of
        BodyJson j \<Rightarrow> decode j
      | BodyMalformed e \<Rightarrow> Inl e
      | BodyNotJson \<Rightarrow> Inl ''Unprocessable Entity'')"

subsection \<open>Routing\<close>

text \<open>
  \<open>strings.Split(p, "/")\<close>, and the path Fiber matches routes against: with
  the default \<open>StrictRouting = false\<close> trailing slashes are dropped, with
  \<open>CaseSensitive = false\<close> letters are compared in lower case. Parameter
  values are read from the original path, so they keep their case.
\<close>

fun split_slash :: "string \<Rightarrow> string list" where
  "split_slash [] = [[]]"
| "split_slash (c # cs) =
     (if c = CHR ''/'' then [] # split_slash cs
      else (case split_slash cs of w # ws \<Rightarrow> (c # w) # ws | [] \<Rightarrow> [[c]]))"

definition trim_trailing_slashes :: "string \<Rightarrow> string" where
  "trim_trailing_slashes p = rev (dropWhile (\<lambda>c. c = CHR ''/'') (rev p))"

definition path_segments :: "string \<Rightarrow> string list" where
  "path_segments p = tl (split_slash (trim_trailing_slashes p))"

datatype segment = Lit string | Param

datatype endpoint = EpCreate | EpList | EpGet | EpUpdate | EpDelete | EpToggle | EpHealth

text \<open>
  The route table of \<open>main.go\<close>: the group \<open>/api/v1/todos\<close> with its six
  routes, then \<open>/health\<close>. Fiber registers every \<open>GET\<close> route for
  \<open>HEAD\<close> as well.
\<close>

definition todos_prefix :: "segment list" where
  "todos_prefix = [Lit ''api'', Lit ''v1'', Lit ''todos'']"

definition route_table :: "(http_method \<times> segment list \<times> endpoint) list" where
  "route_table =
     [(POST, todos_prefix, EpCreate),
      (GET, todos_prefix, EpList),
      (GET, todos_prefix @ [Param], EpGet),
      (PUT, todos_prefix @ [Param], EpUpdate),
      (DELETE, todos_prefix @ [Param], EpDelete),
      (PATCH, todos_prefix @ [Param, Lit ''toggle''], EpToggle),
      (GET, [Lit ''health''], EpHealth)]"

definition method_matches :: "http_method \<Rightarrow> http_method \<Rightarrow> bool" where
  "method_matches route_m m = (route_m = m \<or> (route_m = GET \<and> m = HEAD))"

text \<open>A parameter matches a non-empty segment; a literal its own text, caseless.\<close>

fun segment_matches :: "segment \<Rightarrow> string \<Rightarrow> bool" where
  "segment_matches (Lit w) x = (map ascii_lower x = w)"
| "segment_matches Param x = (x \<noteq> [])"

definition pattern_matches :: "segment list \<Rightarrow> string list \<Rightarrow> bool" where
  "pattern_matches pat xs = (length pat = length xs \<and> list_all2 segment_matches pat xs)"

definition pattern_param :: "segment list \<Rightarrow> string list \<Rightarrow> string" where
  "pattern_param pat xs = (case [x. (Param, x) \<leftarrow> zip pat xs] of x # _ \<Rightarrow> x | [] \<Rightarrow> [])"

definition match_route :: "http_method \<Rightarrow> string \<Rightarrow> (endpoint \<times> string) option" where
  "match_route m p =
     (let xs = path_segments p
      in map_option (\<lambda>(_, pat, ep). (ep, pattern_param pat xs))
           (List.find (\<lambda>(rm, pat, _). method_matches rm m \<and> pattern_matches pat xs) route_table))"

text \<open>\<open>methodExist\<close>: some other method has a route for the path (answer 405).\<close>

definition method_exists :: "string \<Rightarrow> bool" where
  "method_exists p = list_ex (\<lambda>(_, pat, _). pattern_matches pat (path_segments p)) route_table"

text \<open>\<open>html.EscapeString\<close>, applied to the path in the 404 message.\<close>

definition html_escape :: "string \<Rightarrow> string" where
  "html_escape s =
     concat (map (\<lambda>c. if c = CHR ''<'' then ''&lt;'' else if c = CHR ''>'' then ''&gt;''
                      else if c = CHR ''&'' then ''&amp;'' else if c = sq then ''&#39;''
                      else if c = CHR 0x22 then ''&#34;'' else [c]) s)"

definition not_found_response :: "http_method \<Rightarrow> string \<Rightarrow> http_response" where
  "not_found_response m p =
     (if method_exists p then TextResponse 405 ''Method Not Allowed''
      else TextResponse 404 (''Cannot '' @ method_name m @ '' '' @ html_escape p))"

subsection \<open>Dispatch, recover and the rate limiter\<close>

text \<open>The handler a route selects, with the body decoded for the two write routes.\<close>

definition health_response :: http_response where
  "health_response = MapResponse 200 [(''status'', ''ok''), (''message'', ''API is running!'')]"

definition route_request :: "http_request \<Rightarrow> sys \<Rightarrow> http_response result \<times> sys" where
  "route_request req s =
     (case match_route (req_method req) (req_path req) of
        None \<Rightarrow> (Inr (not_found_response (req_method req) (req_path req)), s)
      | Some (EpCreate, _) \<Rightarrow> handler_CreateTodo (body_parser decode_create_request (req_body req)) s
      | Some (EpList, _) \<Rightarrow> handler_GetAllTodos (req_query req) s
      | Some (EpGet, id_str) \<Rightarrow> handler_GetTodoByID id_str s
      | Some (EpUpdate, id_str) \<Rightarrow> handler_UpdateTodo id_str (body_parser decode_update_request (req_body req)) s
      | Some (EpDelete, id_str) \<Rightarrow> handler_DeleteTodo id_str s
      | Some (EpToggle, id_str) \<Rightarrow> handler_ToggleTodoComplete id_str s
      | Some (EpHealth, _) \<Rightarrow> (Inr health_response, s))"

text \<open>
  \<open>recover.New()\<close> turns a panic into an error, and Fiber's default error
  handler answers an error with status 500 and its message as plain text.
\<close>

definition recover_mw :: "http_response result \<Rightarrow> http_response" where
  "recover_mw r = (case r of Inl e \<Rightarrow> TextResponse 500 (error_msg e) | Inr resp \<Rightarrow> resp)"

text \<open>
  \<open>limiter.New\<close> with \<open>Max: 100\<close>, \<open>Expiration: 25 * time.Second\<close> and
  the client IP as key, which uses Fiber's fixed-window algorithm: an entry per
  key holds the hits of the current window and the second the window ends
  (\<open>exp = 0\<close> for a new key). A request at second \<open>ts\<close> opens a new window
  when the key is new or \<open>ts \<ge> exp\<close>, counts itself, and is refused with 429
  when the hits exceed \<open>Max\<close>. The storage's own expiry of idle entries
  removes an entry only after its window has ended, which gives the same answers,
  so it is not modelled. Timestamps are whole seconds of the clock.
\<close>

record limiter_entry =
  currHits :: int
  exp :: nat

definition limiter_max :: int where
  "limiter_max = 100"

definition limiter_expiration :: nat where
  "limiter_expiration = 25"

definition limiter_admit :: "nat \<Rightarrow> limiter_entry option \<Rightarrow> bool \<times> limiter_entry" where
  "limiter_admit ts e0 =
     (let e = (case e0 of None \<Rightarrow> \<lparr>currHits = 0, exp = 0\<rparr> | Some e \<Rightarrow> e);
          e1 = (if exp e = 0 then e\<lparr>exp := ts + limiter_expiration\<rparr>
                else if ts \<ge> exp e then e\<lparr>currHits := 0, exp := ts + limiter_expiration\<rparr>
                else e);
          e2 = e1\<lparr>currHits := currHits e1 + 1\<rparr>;
          remaining = limiter_max - currHits e2
      in (0 \<le> remaining, e2))"

record app_state =
  db :: sys
  limits :: "string \<Rightarrow> limiter_entry option"

definition limiter_ts :: "app_state \<Rightarrow> nat" where
  "limiter_ts a = nat (clock (db a) div 1000)"

text \<open>
  \<open>cors.New()\<close> of Fiber v2 (2.52): a request is a preflight when it is an
  \<open>OPTIONS\<close> request with an \<open>Origin\<close> and an
  \<open>Access-Control-Request-Method\<close> header; every other request, an
  \<open>OPTIONS\<close> request without them included, goes on to the next handler.
  With the default configuration every origin is allowed.
\<close>

definition is_preflight :: "http_request \<Rightarrow> bool" where
  "is_preflight req = (req_method req = OPTIONS \<and> req_origin req \<noteq> [] \<and> req_acrm req \<noteq> [])"

text \<open>
  One request through the chain. CORS answers a preflight with 204 before the
  later middleware run. Otherwise the limiter
  counts the request; a refused request gets 429 with the status text; an
  admitted one reaches the route, and recover turns a panic into 500.
\<close>

definition serve :: "http_request \<Rightarrow> app_state \<Rightarrow> http_response \<times> app_state" where
  "serve req a =
     (if is_preflight req then (TextResponse 204 ''No Content'', a)
      else
        (let (ok, e) = limiter_admit (limiter_ts a) (limits a (req_ip req));
             a1 = a\<lparr>limits := (limits a)(req_ip req \<mapsto> e)\<rparr>
         in if \<not> ok then (TextResponse 429 ''Too Many Requests'', a1)
            else (case route_request req (db a1) of
                    (r, s') \<Rightarrow> (recover_mw r, a1\<lparr>db := s'\<rparr>))))"

text \<open>Requests answered one after another, as one client connection sends them.\<close>

fun serve_all :: "http_request list \<Rightarrow> app_state \<Rightarrow> http_response list \<times> app_state" where
  "serve_all [] a = ([], a)"
| "serve_all (r # rs) a =
     (let (resp, a1) = serve r a; (resps, a2) = serve_all rs a1 in (resp # resps, a2))"

subsection \<open>The server as a transition system\<close>

text \<open>
  A step of the server: it answers a request, the clock advances, or the store
  becomes unreachable or reachable again. Requests are answered one at a time
  here; interleavings within a request are not steps of this relation.
\<close>

inductive app_step :: "app_state \<Rightarrow> app_state \<Rightarrow> bool" where
  request: "serve req a = (resp, a') \<Longrightarrow> app_step a a'"
| tick: "app_step a (a\<lparr>db := (db a)\<lparr>clock := clock (db a) + int d\<rparr>\<rparr>)"
| store_down: "app_step a (a\<lparr>db := (db a)\<lparr>fault := Some m\<rparr>\<rparr>)"
| store_up: "app_step a (a\<lparr>db := (db a)\<lparr>fault := None\<rparr>\<rparr>)"

text \<open>
  The server starts with an empty collection and an empty limiter, at any time
  after the Unix epoch, with the five process-unique bytes the driver draws at
  start (\<open>processUnique [5]byte\<close>); the store's availability and the
  counter are arbitrary.
\<close>

inductive reachable :: "app_state \<Rightarrow> bool" where
  init: "docs (db a) = [] \<Longrightarrow> limits a = Map.empty \<Longrightarrow> 0 \<le> clock (db a) \<Longrightarrow>
         length (process_unique (db a)) = 5 \<Longrightarrow> reachable a"
| step: "reachable a \<Longrightarrow> app_step a a' \<Longrightarrow> reachable a'"

end
