(* ===== verification/Server.thy ===== *)
theory Server
  imports App
begin

text \<open>
  Properties of the server model of \<open>App\<close>. Every handler changes the store
  by at most one collection command, with the current clock as its timestamp
  (\<open>store_effect\<close>, proved layer by layer through the collection
  \<open>effect_rules\<close>); from it follow the invariant of the stored tasks
  (\<open>todo_inv\<close>) and that \<open>createdAt\<close> never changes. The limiter's storage
  keeps an invariant of its own (\<open>limits_inv\<close>); a budget argument bounds
  the requests it admits in one window, and its windows end; requests it admits
  are served as their routes (\<open>route_all\<close>), and CORS preflights bypass it.
  The routing lemmas give the handler \<open>main.go\<close>'s table selects for every
  path; with them, the steps of one task through create, toggle, read, delete
  and read again are proved for every state, and the error paths of the list
  and update routes are traced through recover. The last part evaluates
  \<open>serve\<close> on concrete requests for the witnesses.
\<close>

subsection \<open>Definitions for the proofs\<close>

text \<open>
  The ways one request may change the system state: not at all, an insert of a
  task stamped with the clock under an id drawn from the generator, an update whose \<open>$set\<close>
  stamps the clock, or a delete.
\<close>

inductive store_effect :: "sys \<Rightarrow> sys \<Rightarrow> bool" where
  none: "store_effect s s"
| insert: "ID t = fst (NewObjectID s) \<Longrightarrow> CreatedAt t = clock s \<Longrightarrow> UpdatedAt t = clock s \<Longrightarrow>
           store_effect s (snd (insert_one t (snd (NewObjectID s))))"
| update: "set_updated_at u = clock s \<Longrightarrow> store_effect s (snd (find_one_and_update oid u s))"
| delete: "store_effect s (snd (delete_one oid s))"


text \<open>
  The invariant of the stored tasks: identifiers are unique and
  \<open>createdAt \<le> updatedAt \<le> clock\<close> for every task.
\<close>

definition todo_inv :: "sys \<Rightarrow> bool" where
  "todo_inv s = (store_wf s \<and> list_all (\<lambda>t. CreatedAt t \<le> UpdatedAt t \<and> UpdatedAt t \<le> clock s) (docs s))"

text \<open>
  The invariant of the limiter: the clock is past the epoch and every entry has
  counted a hit and has a window that ends at most one expiration after now.
\<close>

definition limits_inv :: "app_state \<Rightarrow> bool" where
  "limits_inv a = (0 \<le> clock (db a) \<and>
     (\<forall>ip e. limits a ip = Some e \<longrightarrow> 1 \<le> currHits e \<and> 0 < exp e \<and> exp e \<le> limiter_ts a + limiter_expiration))"

text \<open>How many more requests of a key the limiter admits at second \<open>ts\<close>.\<close>

definition limiter_budget :: "nat \<Rightarrow> limiter_entry option \<Rightarrow> int" where
  "limiter_budget ts e0 =
     (case e0 of None \<Rightarrow> limiter_max
      | Some e \<Rightarrow> if exp e = 0 \<or> exp e \<le> ts then limiter_max else max 0 (limiter_max - currHits e))"

text \<open>A handler's result is a JSON envelope or a panic.\<close>

definition is_json :: "http_response result \<Rightarrow> bool" where
  "is_json r = (case r of Inr (JsonResponse _ _) \<Rightarrow> True | Inr _ \<Rightarrow> False | Inl _ \<Rightarrow> True)"

text \<open>
  The route results of requests answered one after another when the limiter
  admits them all: \<open>serve_all\<close> without the middleware.
\<close>

fun route_all :: "http_request list \<Rightarrow> sys \<Rightarrow> http_response result list \<times> sys" where
  "route_all [] s = ([], s)"
| "route_all (r # rs) s = (let (x, s1) = route_request r s; (xs, s2) = route_all rs s1 in (x # xs, s2))"

text \<open>A request of client \<open>ip\<close> with no query and no CORS headers.\<close>

abbreviation client_req :: "string \<Rightarrow> http_method \<Rightarrow> string \<Rightarrow> req_body \<Rightarrow> http_request" where
  "client_req ip m p b \<equiv> \<lparr>req_method = m, req_path = p, req_query = [], req_body = b, req_ip = ip,
                           req_origin = [], req_acrm = []\<rparr>"

text \<open>The end-to-end scenario of the specification: one client, one task.\<close>

abbreviation e2e_start :: app_state where
  "e2e_start \<equiv> \<lparr>db = \<lparr>docs = [], fault = None, clock = 1700000060000, process_unique = [1, 2, 3, 4, 5],
                        object_id_counter = 1\<rparr>, limits = Map.empty\<rparr>"

abbreviation e2e_req :: "http_method \<Rightarrow> string \<Rightarrow> req_body \<Rightarrow> http_request" where
  "e2e_req m p b \<equiv> client_req ''10.0.0.1'' m p b"

abbreviation e2e_task :: todo where
  "e2e_task \<equiv> \<lparr>ID = demo_new_oid, Title = ''Buy milk'', Description = [], Complete = False,
               CreatedAt = 1700000060000, UpdatedAt = 1700000060000\<rparr>"

abbreviation e2e_done :: todo where
  "e2e_done \<equiv> \<lparr>ID = demo_new_oid, Title = ''Buy milk'', Description = [], Complete = True,
               CreatedAt = 1700000060000, UpdatedAt = 1700000060000\<rparr>"

lemmas serve_eval = serve_def limiter_admit_def limiter_ts_def limiter_max_def limiter_expiration_def
  route_request_def match_route_def path_segments_def trim_trailing_slashes_def route_table_def
  todos_prefix_def method_matches_def pattern_matches_def pattern_param_def ascii_lower_def
  body_parser_def recover_mw_def is_preflight_def Let_def

text \<open>The path of one task: \<open>/api/v1/todos/\<close> and its id segment.\<close>

abbreviation todo_path :: "string \<Rightarrow> string" where
  "todo_path x \<equiv> ''/api/v1/todos/'' @ x"

abbreviation e2e_state :: "todo list \<Rightarrow> int \<Rightarrow> app_state" where
  "e2e_state ds hits \<equiv> \<lparr>db = \<lparr>docs = ds, fault = None, clock = 1700000060000, process_unique = [1, 2, 3, 4, 5],
          object_id_counter = 2\<rparr>, limits = [''10.0.0.1'' \<mapsto> \<lparr>currHits = hits, exp = 1700000085\<rparr>]\<rparr>"


subsection \<open>Every request is one store effect\<close>

lemma repo_CreateTodo_effect [effect_rules]: "repo_CreateTodo todo s = (r, s') \<Longrightarrow> store_effect s s'"
proof -
  assume h: "repo_CreateTodo todo s = (r, s')"
  define t where "t = todo\<lparr>ID := fst (NewObjectID s), CreatedAt := clock s, UpdatedAt := clock s\<rparr>"
  have "s' = snd (insert_one t (snd (NewObjectID s)))"
    using h by (auto simp: repo_CreateTodo_def t_def time_now_def NewObjectID_def Let_def split: prod.splits sum.splits)
  then show ?thesis by (simp add: store_effect.insert t_def)
qed

lemma repo_UpdateTodo_effect [effect_rules]: "repo_UpdateTodo oid todo s = (r, s') \<Longrightarrow> store_effect s s'"
proof -
  assume h: "repo_UpdateTodo oid todo s = (r, s')"
  define u where "u = \<lparr>set_title = Title todo, set_description = Description todo,
                        set_complete = Complete todo, set_updated_at = clock s\<rparr>"
  have "s' = snd (find_one_and_update oid u s)"
    using h by (auto simp: repo_UpdateTodo_def u_def time_now_def Let_def split: prod.splits sum.splits if_splits)
  then show ?thesis by (simp add: store_effect.update u_def)
qed

lemma repo_DeleteTodo_effect [effect_rules]: "repo_DeleteTodo oid s = (r, s') \<Longrightarrow> store_effect s s'"
proof -
  assume h: "repo_DeleteTodo oid s = (r, s')"
  have "s' = snd (delete_one oid s)"
    using h by (auto simp: repo_DeleteTodo_def split: prod.splits sum.splits if_splits)
  then show ?thesis by (simp add: store_effect.delete)
qed

lemma svc_CreateTodo_effect [effect_rules]: "svc_CreateTodo todo s = (r, s') \<Longrightarrow> store_effect s s'"
  by (auto simp: svc_CreateTodo_def intro: store_effect.none effect_rules)

lemma svc_UpdateTodo_effect [effect_rules]: "svc_UpdateTodo id_str todo s = (r, s') \<Longrightarrow> store_effect s s'"
  by (auto simp: svc_UpdateTodo_def split: sum.splits option.splits prod.splits
      intro: store_effect.none effect_rules)

lemma svc_DeleteTodo_effect [effect_rules]: "svc_DeleteTodo id_str s = (r, s') \<Longrightarrow> store_effect s s'"
  by (auto simp: svc_DeleteTodo_def split: sum.splits prod.splits intro: store_effect.none effect_rules)

lemma svc_ToggleTodoComplete_effect [effect_rules]:
  "svc_ToggleTodoComplete id_str s = (r, s') \<Longrightarrow> store_effect s s'"
  by (auto simp: svc_ToggleTodoComplete_def split: sum.splits option.splits prod.splits
      intro: store_effect.none effect_rules)



lemma handler_CreateTodo_effect [effect_rules]: "handler_CreateTodo body s = (r, s') \<Longrightarrow> store_effect s s'"
  by (auto simp: handler_CreateTodo_def Let_def split: sum.splits prod.splits intro: store_effect.none effect_rules)

lemma handler_GetAllTodos_state: "handler_GetAllTodos q s = (r, s') \<Longrightarrow> s' = s"
  by (auto simp: handler_GetAllTodos_def Let_def split: option.splits if_splits)

lemma handler_GetTodoByID_state: "handler_GetTodoByID id_str s = (r, s') \<Longrightarrow> s' = s"
  by (auto simp: handler_GetTodoByID_def split: sum.splits if_splits)

lemma handler_UpdateTodo_effect [effect_rules]: "handler_UpdateTodo id_str body s = (r, s') \<Longrightarrow> store_effect s s'"
  by (auto simp: handler_UpdateTodo_def split: sum.splits prod.splits if_splits intro: store_effect.none effect_rules)

lemma handler_DeleteTodo_effect [effect_rules]: "handler_DeleteTodo id_str s = (r, s') \<Longrightarrow> store_effect s s'"
  by (auto simp: handler_DeleteTodo_def split: sum.splits prod.splits if_splits intro: effect_rules)

lemma handler_ToggleTodoComplete_effect [effect_rules]:
  "handler_ToggleTodoComplete id_str s = (r, s') \<Longrightarrow> store_effect s s'"
  by (auto simp: handler_ToggleTodoComplete_def split: sum.splits prod.splits if_splits intro: effect_rules)

lemma route_request_effect: "route_request req s = (r, s') \<Longrightarrow> store_effect s s'"
  by (auto simp: route_request_def split: option.splits endpoint.splits prod.splits
      dest: handler_GetAllTodos_state handler_GetTodoByID_state intro: store_effect.none effect_rules)

lemma store_effect_clock: "store_effect s s' \<Longrightarrow> clock s' = clock s"
  by (induction rule: store_effect.induct)
     (auto simp: insert_one_def find_one_and_update_def delete_one_def split: option.splits if_splits)

lemma store_effect_inv: "store_effect s s' \<Longrightarrow> todo_inv s \<Longrightarrow> todo_inv s'"
proof (induction rule: store_effect.induct)
  case (insert t s)
  then show ?case
    using insert_one_wf[of "snd (NewObjectID s)" t]
    by (auto simp: todo_inv_def list_all_iff store_wf_def insert_one_def split: option.splits if_splits)
next
  case (update u s oid)
  then show ?case
    using find_one_and_update_wf[of s oid u]
    by (auto simp: todo_inv_def list_all_iff find_one_and_update_def apply_set_def split: option.splits)
next
  case (delete s oid)
  then show ?case
    using delete_one_wf[of s oid]
    by (auto simp: todo_inv_def list_all_iff delete_one_def split: option.splits if_splits)
qed simp


lemma object_id_layout_length [simp]: "length (object_id_layout now p c) = 7 + length p"
  by (simp add: object_id_layout_def)

lemma store_effect_process: "store_effect s s' \<Longrightarrow> process_unique s' = process_unique s"
  by (induction rule: store_effect.induct)
     (auto simp: insert_one_def find_one_and_update_def delete_one_def NewObjectID_def Let_def
      split: option.splits if_splits)

lemma serve_effect: "serve req a = (resp, a') \<Longrightarrow> store_effect (db a) (db a')"
  by (auto simp: serve_def Let_def split: if_splits prod.splits
      intro: store_effect.none dest: route_request_effect)

lemma app_step_inv: "app_step a a' \<Longrightarrow> todo_inv (db a) \<Longrightarrow> todo_inv (db a')"
proof (induction rule: app_step.induct)
  case (request req a resp a')
  then show ?case by (blast dest: serve_effect store_effect_inv)
next
  case (tick a d)
  then show ?case by (auto simp: todo_inv_def store_wf_def list_all_iff)
qed (auto simp: todo_inv_def store_wf_def)

lemma store_effect_created:
  assumes "store_effect s s'" and "store_wf s" and "t \<in> set (docs s)" and "t' \<in> set (docs s')"
    and "ID t' = ID t"
  shows "CreatedAt t' = CreatedAt t"
  using assms
proof (induction rule: store_effect.induct)
  case (none s)
  then show ?case by (auto simp: store_wf_def distinct_map dest: inj_onD)
next
  case (insert t0 s)
  then show ?case
    by (auto simp: insert_one_def store_wf_def distinct_map image_iff split: option.splits if_splits
        dest: inj_onD)
next
  case (update u s oid)
  then show ?case
    by (auto simp: find_one_and_update_def apply_set_def store_wf_def distinct_map split: option.splits
        dest: inj_onD)
next
  case (delete s oid)
  then show ?case
    by (auto simp: delete_one_def store_wf_def distinct_map split: option.splits if_splits dest: inj_onD)
qed

subsection \<open>Limiter\<close>

lemma limiter_admit_entry:
  "limiter_admit ts e0 = (ok, e) \<Longrightarrow>
   (case e0 of None \<Rightarrow> True | Some e' \<Rightarrow> 0 \<le> currHits e' \<and> 0 < exp e' \<and> exp e' \<le> ts + limiter_expiration) \<Longrightarrow>
   1 \<le> currHits e \<and> 0 < exp e \<and> exp e \<le> ts + limiter_expiration"
  by (auto simp: limiter_admit_def Let_def limiter_expiration_def split: option.splits if_splits)

lemma serve_limits:
  "serve req a = (resp, a') \<Longrightarrow> clock (db a') = clock (db a) \<and>
     (limits a' = limits a \<or> (\<exists>ok e. limiter_admit (limiter_ts a) (limits a (req_ip req)) = (ok, e)
                                     \<and> limits a' = (limits a)(req_ip req \<mapsto> e)))"
  by (auto simp: serve_def Let_def split: if_splits prod.splits
      dest!: route_request_effect store_effect_clock)

lemma app_step_limits_inv: "app_step a a' \<Longrightarrow> limits_inv a \<Longrightarrow> limits_inv a'"
proof (induction rule: app_step.induct)
  case (request req a resp a')
  have ts: "limiter_ts a' = limiter_ts a" using serve_limits[OF request(1)] by (simp add: limiter_ts_def)
  from serve_limits[OF request(1)] show ?case
  proof (elim conjE disjE exE)
    fix ok e assume c: "clock (db a') = clock (db a)"
      and adm: "limiter_admit (limiter_ts a) (limits a (req_ip req)) = (ok, e)"
      and l: "limits a' = (limits a)(req_ip req \<mapsto> e)"
    have "1 \<le> currHits e \<and> 0 < exp e \<and> exp e \<le> limiter_ts a + limiter_expiration"
      using request(2) by (intro limiter_admit_entry[OF adm]) (fastforce simp: limits_inv_def split: option.splits)
    then show ?thesis using request(2) c l ts by (auto simp: limits_inv_def)
  qed (use request(2) ts in \<open>auto simp: limits_inv_def\<close>)
next
  case (tick a d)
  then show ?case
    by (fastforce simp: limits_inv_def limiter_ts_def intro: order_trans[OF _ add_right_mono]
        zdiv_mono1 nat_mono)
qed (auto simp: limits_inv_def limiter_ts_def)
lemma is_json_simps [simp]:
  "is_json (Inr (SendSuccessResponse st m d mt))" "is_json (Inr (SendErrorResponse st m))" "is_json (Inl e)"
  by (simp_all add: is_json_def SendSuccessResponse_def SendErrorResponse_def)

lemma handler_CreateTodo_json: "is_json (fst (handler_CreateTodo b s))"
  by (simp add: handler_CreateTodo_def Let_def split: sum.split prod.split)

lemma list_todos_response_json: "is_json (list_todos_response t c p ps s)"
  by (simp add: list_todos_response_def split: sum.split prod.split go_error.split)

lemma handler_GetAllTodos_json: "is_json (fst (handler_GetAllTodos q s))"
  by (simp add: handler_GetAllTodos_def list_todos_response_json Let_def split: option.split)

lemma handler_GetTodoByID_json: "is_json (fst (handler_GetTodoByID i s))"
  by (simp add: handler_GetTodoByID_def split: sum.split)

lemma handler_UpdateTodo_json: "is_json (fst (handler_UpdateTodo i b s))"
  by (simp add: handler_UpdateTodo_def split: sum.split prod.split)

lemma handler_DeleteTodo_json: "is_json (fst (handler_DeleteTodo i s))"
  by (simp add: handler_DeleteTodo_def split: sum.split prod.split)

lemma handler_ToggleTodoComplete_json: "is_json (fst (handler_ToggleTodoComplete i s))"
  by (simp add: handler_ToggleTodoComplete_def split: sum.split prod.split)

lemma route_request_not_refusal:
  "recover_mw (fst (route_request req s)) \<noteq> TextResponse 429 ''Too Many Requests''"
proof -
  have "is_json (fst (route_request req s)) \<or> fst (route_request req s) = Inr health_response
        \<or> fst (route_request req s) = Inr (not_found_response (req_method req) (req_path req))"
    by (simp add: route_request_def handler_CreateTodo_json handler_GetAllTodos_json handler_GetTodoByID_json
        handler_UpdateTodo_json handler_DeleteTodo_json handler_ToggleTodoComplete_json
        split: option.split endpoint.split prod.split)
  then show ?thesis
    by (auto simp: is_json_def recover_mw_def health_response_def not_found_response_def
        split: sum.splits http_response.splits)
qed


lemma reachable_limits_inv: "reachable a \<Longrightarrow> limits_inv a"
proof (induction rule: reachable.induct)
  case (init a)
  then show ?case by (simp add: limits_inv_def)
next
  case (step a a')
  then show ?case using app_step_limits_inv by blast
qed

lemma store_effect_wf: "store_effect s s' \<Longrightarrow> store_wf s \<Longrightarrow> store_wf s'"
  by (induction rule: store_effect.induct)
     (auto simp: store_wf_def intro: insert_one_wf[unfolded store_wf_def] find_one_and_update_wf[unfolded store_wf_def]
        delete_one_wf[unfolded store_wf_def])

lemma reachable_wf: "reachable a \<Longrightarrow> store_wf (db a) \<and> length (process_unique (db a)) = 5"
proof (induction rule: reachable.induct)
  case (init a)
  then show ?case by (simp add: store_wf_def)
next
  case (step a a')
  from step.hyps(2) step.IH show ?case
  proof (induction rule: app_step.induct)
    case (request req a resp a')
    then show ?case using serve_effect store_effect_wf store_effect_process by metis
  qed (simp_all add: store_wf_def)
qed

subsection \<open>Requests the limiter admits\<close>

lemma limiter_admit_ok:
  assumes "1 \<le> limiter_budget ts e0" and "\<forall>e. e0 = Some e \<longrightarrow> 0 < exp e"
  shows "fst (limiter_admit ts e0) \<and> limiter_budget ts (Some (snd (limiter_admit ts e0))) = limiter_budget ts e0 - 1
         \<and> 0 < exp (snd (limiter_admit ts e0))"
  using assms
  by (auto simp: limiter_admit_def limiter_budget_def limiter_max_def limiter_expiration_def Let_def
      split: option.splits if_splits)

lemma serve_all_admitted:
  assumes "\<forall>r \<in> set rs. req_ip r = ip \<and> \<not> is_preflight r"
    and "int (length rs) \<le> limiter_budget (limiter_ts a) (limits a ip)"
    and "\<forall>e. limits a ip = Some e \<longrightarrow> 0 < exp e"
  shows "fst (serve_all rs a) = map recover_mw (fst (route_all rs (db a)))
         \<and> db (snd (serve_all rs a)) = snd (route_all rs (db a))"
  using assms
proof (induction rs arbitrary: a)
  case Nil
  then show ?case by simp
next
  case (Cons r rs)
  obtain x s1 where rr: "route_request r (db a) = (x, s1)" by fastforce
  have ip: "req_ip r = ip" and np: "\<not> is_preflight r" using Cons.prems(1) by auto
  define e where "e = snd (limiter_admit (limiter_ts a) (limits a ip))"
  have ok: "limiter_admit (limiter_ts a) (limits a ip) = (True, e)"
    and bud: "limiter_budget (limiter_ts a) (Some e) = limiter_budget (limiter_ts a) (limits a ip) - 1"
    and ex: "0 < exp e"
    using limiter_admit_ok[of "limiter_ts a" "limits a ip"] Cons.prems(2,3) by (auto simp: e_def prod_eq_iff)
  define a1 where "a1 = a\<lparr>limits := (limits a)(ip \<mapsto> e), db := s1\<rparr>"
  have sv: "serve r a = (recover_mw x, a1)" using ok rr ip np by (simp add: serve_def a1_def)
  have "clock s1 = clock (db a)" using route_request_effect[OF rr] by (rule store_effect_clock)
  then have ts: "limiter_ts a1 = limiter_ts a" by (simp add: limiter_ts_def a1_def)
  have ih: "fst (serve_all rs a1) = map recover_mw (fst (route_all rs s1)) \<and> db (snd (serve_all rs a1)) = snd (route_all rs s1)"
    using Cons.IH[of a1] Cons.prems(1,2) bud ex ts by (simp add: a1_def)
  show ?case using sv rr ih by (simp add: split_def Let_def)
qed

lemma limiter_admit_budget:
  "limiter_admit ts e0 = (ok, e) \<Longrightarrow> (case e0 of None \<Rightarrow> True | Some e' \<Rightarrow> 0 \<le> currHits e') \<Longrightarrow>
   (if ok then 1 else 0) + limiter_budget ts (Some e) \<le> limiter_budget ts e0 \<and> 0 \<le> currHits e"
  by (auto simp: limiter_admit_def limiter_budget_def limiter_max_def limiter_expiration_def Let_def
      split: option.splits if_splits)

lemma serve_admission:
  assumes "req_method req \<noteq> OPTIONS" and "serve req a = (resp, a')"
    and "limiter_admit (limiter_ts a) (limits a (req_ip req)) = (ok, e)"
  shows "limits a' = (limits a)(req_ip req \<mapsto> e) \<and> limiter_ts a' = limiter_ts a
         \<and> (resp \<noteq> TextResponse 429 ''Too Many Requests'' \<longleftrightarrow> ok)"
proof -
  obtain r s' where rr: "route_request req (db a) = (r, s')" by fastforce
  have "clock s' = clock (db a)" using route_request_effect[OF rr] by (rule store_effect_clock)
  moreover have "recover_mw r \<noteq> TextResponse 429 ''Too Many Requests''"
    using route_request_not_refusal[of req "db a"] rr by simp
  ultimately show ?thesis
    using assms rr by (auto simp: serve_def is_preflight_def limiter_ts_def Let_def split: if_splits)
qed

lemma serve_all_budget:
  "(\<forall>r\<in>set rs. req_ip r = ip \<and> req_method r \<noteq> OPTIONS) \<Longrightarrow>
   (case limits a ip of None \<Rightarrow> True | Some e \<Rightarrow> 0 \<le> currHits e) \<Longrightarrow>
   int (length (filter (\<lambda>resp. resp \<noteq> TextResponse 429 ''Too Many Requests'') (fst (serve_all rs a))))
     \<le> limiter_budget (limiter_ts a) (limits a ip)"
proof (induction rs arbitrary: a)
  case Nil
  then show ?case by (auto simp: limiter_budget_def limiter_max_def split: option.splits)
next
  case (Cons r rs)
  obtain resp a1 where sv: "serve r a = (resp, a1)" by fastforce
  obtain ok e where adm: "limiter_admit (limiter_ts a) (limits a ip) = (ok, e)" by fastforce
  have ip: "req_ip r = ip" "req_method r \<noteq> OPTIONS" using Cons.prems(1) by auto
  have a1: "limits a1 = (limits a)(ip \<mapsto> e)" "limiter_ts a1 = limiter_ts a"
    and ok: "resp \<noteq> TextResponse 429 ''Too Many Requests'' \<longleftrightarrow> ok"
    using serve_admission[OF ip(2) sv] adm ip(1) by auto
  have b: "(if ok then 1 else 0) + limiter_budget (limiter_ts a) (Some e) \<le> limiter_budget (limiter_ts a) (limits a ip)"
    and e: "0 \<le> currHits e"
    using limiter_admit_budget[OF adm Cons.prems(2)] by auto
  have "int (length (filter (\<lambda>resp. resp \<noteq> TextResponse 429 ''Too Many Requests'') (fst (serve_all rs a1))))
          \<le> limiter_budget (limiter_ts a) (Some e)"
    using Cons.IH[of a1] Cons.prems(1) a1 e by simp
  then show ?case using sv ok b by (auto simp: Let_def split: prod.splits)
qed

text \<open>
  C19. The rate limiter of \<open>main.go\<close> admits at most 100 requests of one client
  while the clock stands still: in any reachable state, of a burst of requests
  from one IP answered one after another (none a CORS preflight), at most 100
  get an answer other than 429 Too Many Requests.
\<close>

theorem limiter_burst_bound:
  assumes "reachable a" and "\<forall>r\<in>set rs. req_ip r = ip \<and> req_method r \<noteq> OPTIONS"
  shows "length (filter (\<lambda>resp. resp \<noteq> TextResponse 429 ''Too Many Requests'') (fst (serve_all rs a))) \<le> 100"
proof -
  have h: "case limits a ip of None \<Rightarrow> True | Some e \<Rightarrow> 0 \<le> currHits e"
    using reachable_limits_inv[OF assms(1)] by (fastforce simp: limits_inv_def split: option.split)
  then have "limiter_budget (limiter_ts a) (limits a ip) \<le> 100"
    by (auto simp: limiter_budget_def limiter_max_def split: option.splits)
  then have "int (length (filter (\<lambda>resp. resp \<noteq> TextResponse 429 ''Too Many Requests'') (fst (serve_all rs a)))) \<le> 100"
    using serve_all_budget[OF assms(2) h] by linarith
  then show ?thesis by simp
qed


theorem limiter_burst_bound_witness:
  "reachable e2e_start
   \<and> req_ip (e2e_req GET ''/health'' (BodyJson JNull)) = ''10.0.0.1''
   \<and> req_method (e2e_req GET ''/health'' (BodyJson JNull)) \<noteq> OPTIONS
   \<and> length (filter (\<lambda>resp. resp \<noteq> TextResponse 429 ''Too Many Requests'')
        (fst (serve_all [e2e_req GET ''/health'' (BodyJson JNull)] e2e_start))) \<le> 100"
proof -
  have r: "reachable e2e_start" by (rule reachable.init) simp_all
  show ?thesis
    using limiter_burst_bound[OF r, of "[e2e_req GET ''/health'' (BodyJson JNull)]" "''10.0.0.1''"] r by simp
qed

lemma limiter_admit_expired:
  "(case e0 of None \<Rightarrow> True | Some e \<Rightarrow> 0 < exp e \<and> exp e \<le> ts) \<Longrightarrow> fst (limiter_admit ts e0)"
  by (auto simp: limiter_admit_def limiter_max_def Let_def split: option.splits)

text \<open>
  C20. A refused client is not refused forever: in any reachable state, once the
  clock has advanced by 25 seconds, the next request of any client passes the
  limiter (it gets an answer other than 429).
\<close>

theorem limiter_readmits_after_window:
  assumes "reachable a" and "req_method req \<noteq> OPTIONS" and "25000 \<le> d"
  shows "fst (serve req (a\<lparr>db := (db a)\<lparr>clock := clock (db a) + int d\<rparr>\<rparr>)) \<noteq> TextResponse 429 ''Too Many Requests''"
proof -
  let ?a = "a\<lparr>db := (db a)\<lparr>clock := clock (db a) + int d\<rparr>\<rparr>"
  have inv: "limits_inv a" using assms(1) by (rule reachable_limits_inv)
  then have c: "0 \<le> clock (db a)" by (simp add: limits_inv_def)
  have "(clock (db a) + 25000) div 1000 = clock (db a) div 1000 + 25" by simp
  moreover have "(clock (db a) + 25000) div 1000 \<le> (clock (db a) + int d) div 1000"
    using assms(3) by (intro zdiv_mono1) simp_all
  ultimately have ts: "limiter_ts a + limiter_expiration \<le> limiter_ts ?a"
    using c by (simp add: limiter_ts_def limiter_expiration_def nat_add_distrib[symmetric])
  have "case limits ?a (req_ip req) of None \<Rightarrow> True | Some e \<Rightarrow> 0 < exp e \<and> exp e \<le> limiter_ts ?a"
    using inv ts by (fastforce simp: limits_inv_def split: option.split)
  then have ok: "fst (limiter_admit (limiter_ts ?a) (limits ?a (req_ip req)))" by (rule limiter_admit_expired)
  obtain resp a' where sv: "serve req ?a = (resp, a')" by fastforce
  obtain b e where adm: "limiter_admit (limiter_ts ?a) (limits ?a (req_ip req)) = (b, e)" by fastforce
  show ?thesis using serve_admission[OF assms(2) sv adm] ok adm sv by simp
qed

theorem limiter_readmits_after_window_witness:
  "reachable e2e_start \<and> GET \<noteq> OPTIONS \<and> (25000 :: nat) \<le> 25000
   \<and> fst (serve (e2e_req GET ''/health'' (BodyJson JNull))
           (e2e_start\<lparr>db := (db e2e_start)\<lparr>clock := clock (db e2e_start) + int 25000\<rparr>\<rparr>))
       \<noteq> TextResponse 429 ''Too Many Requests''"
proof -
  have r: "reachable e2e_start" by (rule reachable.init) simp_all
  show ?thesis
    using limiter_readmits_after_window[OF r, of "e2e_req GET ''/health'' (BodyJson JNull)" 25000] r by simp
qed

subsection \<open>CORS preflights\<close>

lemma serve_all_length [simp]: "length (fst (serve_all rs a)) = length rs"
  by (induction rs arbitrary: a) (auto simp: split_def Let_def)

lemma serve_preflight: "is_preflight r \<Longrightarrow> serve r a = (TextResponse 204 ''No Content'', a)"
  by (simp add: serve_def)

text \<open>
  C31. CORS runs before the limiter in \<open>main.go\<close>, so preflight requests
  (\<open>OPTIONS\<close> with \<open>Origin\<close> and \<open>Access-Control-Request-Method\<close>) are
  answered 204 and change nothing: serving any sequence of requests leaves the
  same store and limiter state, and gives every other request the same answer,
  as serving it with the preflights removed.
\<close>

theorem preflights_bypass_limiter:
  "snd (serve_all rs a) = snd (serve_all (filter (\<lambda>r. \<not> is_preflight r) rs) a)
   \<and> map snd (filter (\<lambda>(r, _). \<not> is_preflight r) (zip rs (fst (serve_all rs a))))
       = fst (serve_all (filter (\<lambda>r. \<not> is_preflight r) rs) a)
   \<and> map snd (filter (\<lambda>(r, _). is_preflight r) (zip rs (fst (serve_all rs a))))
       = replicate (length (filter is_preflight rs)) (TextResponse 204 ''No Content'')"
proof (induction rs arbitrary: a)
  case Nil
  then show ?case by simp
next
  case (Cons r rs)
  show ?case
  proof (cases "is_preflight r")
    case True
    obtain resps a2 where "serve_all rs a = (resps, a2)" by fastforce
    then show ?thesis using Cons.IH[of a] True by (simp add: serve_preflight)
  next
    case False
    obtain resp a1 where sv: "serve r a = (resp, a1)" by fastforce
    obtain resps a2 where "serve_all rs a1 = (resps, a2)" by fastforce
    moreover obtain fresps fa where "serve_all (filter (\<lambda>r. \<not> is_preflight r) rs) a1 = (fresps, fa)"
      by fastforce
    ultimately show ?thesis using Cons.IH[of a1] False sv by simp
  qed
qed

subsection \<open>Routing and recover\<close>

lemma split_slash_noslash: "CHR ''/'' \<notin> set x \<Longrightarrow> split_slash x = [x]"
  by (induction x) auto

lemma split_slash_append: "CHR ''/'' \<notin> set x \<Longrightarrow> split_slash (x @ CHR ''/'' # y) = x # split_slash y"
  by (induction x) (auto split: list.split)

lemma trim_no_trailing: "p \<noteq> [] \<Longrightarrow> last p \<noteq> CHR ''/'' \<Longrightarrow> trim_trailing_slashes p = p"
  by (cases "rev p") (auto simp: trim_trailing_slashes_def last_rev[symmetric] simp del: last_rev)

lemma path_segments_item:
  assumes "x \<noteq> []" and "CHR ''/'' \<notin> set x"
  shows "path_segments (todo_path x) = [''api'', ''v1'', ''todos'', x]"
    and "path_segments (todo_path x @ ''/toggle'') = [''api'', ''v1'', ''todos'', x, ''toggle'']"
proof -
  have "last x \<noteq> CHR ''/''" using assms(2) last_in_set[OF assms(1)] by metis
  then show "path_segments (todo_path x) = [''api'', ''v1'', ''todos'', x]"
    using assms by (simp add: path_segments_def trim_no_trailing split_slash_append split_slash_noslash)
  show "path_segments (todo_path x @ ''/toggle'') = [''api'', ''v1'', ''todos'', x, ''toggle'']"
    using assms by (simp add: path_segments_def trim_no_trailing split_slash_append split_slash_noslash)
qed

lemma path_segments_todos: "path_segments ''/api/v1/todos'' = [''api'', ''v1'', ''todos'']"
  by (simp add: path_segments_def trim_trailing_slashes_def)

lemmas route_eval = route_table_def todos_prefix_def method_matches_def pattern_matches_def pattern_param_def
  not_found_response_def ascii_lower_def eval_simps

text \<open>Where \<open>main.go\<close>'s table sends the collection path, an item path and a toggle path.\<close>

lemma route_request_collection:
  assumes "req_path req = ''/api/v1/todos''"
  shows "route_request req s =
    (case req_method req of
       POST \<Rightarrow> handler_CreateTodo (body_parser decode_create_request (req_body req)) s
     | GET \<Rightarrow> handler_GetAllTodos (req_query req) s
     | HEAD \<Rightarrow> handler_GetAllTodos (req_query req) s
     | _ \<Rightarrow> (Inr (TextResponse 405 ''Method Not Allowed''), s))"
  unfolding route_request_def not_found_response_def match_route_def method_exists_def assms path_segments_todos
  by (cases "req_method req") (simp_all add: route_eval)

lemma route_request_item:
  assumes "x \<noteq> []" and "CHR ''/'' \<notin> set x" and "req_path req = todo_path x"
  shows "route_request req s =
    (case req_method req of
       GET \<Rightarrow> handler_GetTodoByID x s
     | HEAD \<Rightarrow> handler_GetTodoByID x s
     | PUT \<Rightarrow> handler_UpdateTodo x (body_parser decode_update_request (req_body req)) s
     | DELETE \<Rightarrow> handler_DeleteTodo x s
     | _ \<Rightarrow> (Inr (TextResponse 405 ''Method Not Allowed''), s))"
  unfolding route_request_def not_found_response_def match_route_def method_exists_def assms(3) path_segments_item[OF assms(1,2)]
  using assms(1) by (cases "req_method req") (simp_all add: route_eval)

lemma route_request_toggle:
  assumes "x \<noteq> []" and "CHR ''/'' \<notin> set x" and "req_path req = todo_path x @ ''/toggle''"
  shows "route_request req s =
    (if req_method req = PATCH then handler_ToggleTodoComplete x s
     else (Inr (TextResponse 405 ''Method Not Allowed''), s))"
  unfolding route_request_def not_found_response_def match_route_def method_exists_def assms(3) path_segments_item[OF assms(1,2)]
  using assms(1) by (cases "req_method req") (simp_all add: route_eval)

text \<open>
  C21. The route table of \<open>main.go\<close> sends each method and path to its
  handler, for every id segment: \<open>POST\<close> and \<open>GET\<close> on the collection to
  create and list, \<open>GET\<close> (and \<open>HEAD\<close>), \<open>PUT\<close> and \<open>DELETE\<close> on
  \<open>/api/v1/todos/{id}\<close> to get, update and delete, \<open>PATCH\<close> on
  \<open>/api/v1/todos/{id}/toggle\<close> to toggle, with the id segment passed on
  unchanged; \<open>POST\<close> and \<open>PATCH\<close> on an item path are answered 405.
\<close>

theorem route_table_dispatch:
  assumes "x \<noteq> []" and "CHR ''/'' \<notin> set x"
  shows "route_request (req\<lparr>req_method := POST, req_path := ''/api/v1/todos''\<rparr>) s
           = handler_CreateTodo (body_parser decode_create_request (req_body req)) s
    \<and> route_request (req\<lparr>req_method := GET, req_path := ''/api/v1/todos''\<rparr>) s = handler_GetAllTodos (req_query req) s
    \<and> route_request (req\<lparr>req_method := GET, req_path := todo_path x\<rparr>) s = handler_GetTodoByID x s
    \<and> route_request (req\<lparr>req_method := HEAD, req_path := todo_path x\<rparr>) s = handler_GetTodoByID x s
    \<and> route_request (req\<lparr>req_method := PUT, req_path := todo_path x\<rparr>) s
        = handler_UpdateTodo x (body_parser decode_update_request (req_body req)) s
    \<and> route_request (req\<lparr>req_method := DELETE, req_path := todo_path x\<rparr>) s = handler_DeleteTodo x s
    \<and> route_request (req\<lparr>req_method := PATCH, req_path := todo_path x @ ''/toggle''\<rparr>) s
        = handler_ToggleTodoComplete x s
    \<and> route_request (req\<lparr>req_method := POST, req_path := todo_path x\<rparr>) s
        = (Inr (TextResponse 405 ''Method Not Allowed''), s)
    \<and> route_request (req\<lparr>req_method := PATCH, req_path := todo_path x\<rparr>) s
        = (Inr (TextResponse 405 ''Method Not Allowed''), s)"
proof -
  have c: "\<And>r. req_path r = ''/api/v1/todos'' \<Longrightarrow> route_request r s =
    (case req_method r of
       POST \<Rightarrow> handler_CreateTodo (body_parser decode_create_request (req_body r)) s
     | GET \<Rightarrow> handler_GetAllTodos (req_query r) s
     | HEAD \<Rightarrow> handler_GetAllTodos (req_query r) s
     | _ \<Rightarrow> (Inr (TextResponse 405 ''Method Not Allowed''), s))"
    by (rule route_request_collection)
  have i: "\<And>r. req_path r = todo_path x \<Longrightarrow> route_request r s =
    (case req_method r of
       GET \<Rightarrow> handler_GetTodoByID x s
     | HEAD \<Rightarrow> handler_GetTodoByID x s
     | PUT \<Rightarrow> handler_UpdateTodo x (body_parser decode_update_request (req_body r)) s
     | DELETE \<Rightarrow> handler_DeleteTodo x s
     | _ \<Rightarrow> (Inr (TextResponse 405 ''Method Not Allowed''), s))"
    using route_request_item[OF assms] by blast
  have t: "\<And>r. req_path r = todo_path x @ ''/toggle'' \<Longrightarrow> route_request r s =
    (if req_method r = PATCH then handler_ToggleTodoComplete x s
     else (Inr (TextResponse 405 ''Method Not Allowed''), s))"
    using route_request_toggle[OF assms] by blast
  show ?thesis by (simp add: c i t)
qed

theorem route_table_dispatch_witness:
  "''6553f13c0102030405000002'' \<noteq> [] \<and> CHR ''/'' \<notin> set ''6553f13c0102030405000002''
   \<and> route_request (e2e_req PATCH (todo_path ''6553f13c0102030405000002'' @ ''/toggle'') (BodyJson JNull)) demo_sys
       = handler_ToggleTodoComplete ''6553f13c0102030405000002'' demo_sys
   \<and> route_request (e2e_req POST (todo_path ''6553f13c0102030405000002'') (BodyJson JNull)) demo_sys
       = (Inr (TextResponse 405 ''Method Not Allowed''), demo_sys)"
  using route_table_dispatch[of "''6553f13c0102030405000002''" "e2e_req GET [] (BodyJson JNull)" demo_sys]
  by simp

text \<open>
  C22. When the store is unreachable, an admitted \<open>GET /api/v1/todos\<close> with a
  \<open>complete\<close> parameter panics in the repository (the ignored error of
  \<open>Find\<close> leaves a nil cursor), and the recover middleware answers 500 with the
  runtime's message as plain text, not the JSON envelope of the other errors.
\<close>

theorem list_store_down_is_panic_text:
  assumes "req_method req = GET" and "req_path req = ''/api/v1/todos''"
    and "go_query (req_query req) ''complete'' [] \<noteq> []" and "fault (db a) = Some m"
    and "fst (limiter_admit (limiter_ts a) (limits a (req_ip req)))"
  shows "fst (serve req a) = TextResponse 500 ''runtime error: invalid memory address or nil pointer dereference''"
  using assms
  by (auto simp: serve_def is_preflight_def Let_def route_request_def match_route_def path_segments_def trim_trailing_slashes_def
      route_table_def todos_prefix_def method_matches_def pattern_matches_def ascii_lower_def eval_simps
      handler_GetAllTodos_def list_todos_response_def svc_GetAllTodos_def repo_GetAll_def find_def recover_mw_def
      regex_encode_error_def split: prod.splits option.splits if_splits)

theorem list_store_down_is_panic_text_witness:
  "req_method (e2e_req GET ''/api/v1/todos'' (BodyJson JNull)\<lparr>req_query := [(''complete'', ''true'')]\<rparr>) = GET
   \<and> req_path (e2e_req GET ''/api/v1/todos'' (BodyJson JNull)\<lparr>req_query := [(''complete'', ''true'')]\<rparr>) = ''/api/v1/todos''
   \<and> go_query [(''complete'', ''true'')] ''complete'' [] \<noteq> []
   \<and> fault (db (e2e_start\<lparr>db := (db e2e_start)\<lparr>fault := Some ''server selection error''\<rparr>\<rparr>))
       = Some ''server selection error''
   \<and> fst (limiter_admit (limiter_ts e2e_start) None)
   \<and> fst (serve (e2e_req GET ''/api/v1/todos'' (BodyJson JNull)\<lparr>req_query := [(''complete'', ''true'')]\<rparr>)
            (e2e_start\<lparr>db := (db e2e_start)\<lparr>fault := Some ''server selection error''\<rparr>\<rparr>))
       = TextResponse 500 ''runtime error: invalid memory address or nil pointer dereference''"
proof -
  have q: "go_query [(''complete'', ''true'')] ''complete'' [] \<noteq> []" by (simp add: go_query_def)
  have l: "fst (limiter_admit (limiter_ts e2e_start) None)"
    by (simp add: limiter_admit_def limiter_max_def Let_def)
  show ?thesis
    using list_store_down_is_panic_text[where req="e2e_req GET ''/api/v1/todos'' (BodyJson JNull)\<lparr>req_query := [(''complete'', ''true'')]\<rparr>"
        and a="e2e_start\<lparr>db := (db e2e_start)\<lparr>fault := Some ''server selection error''\<rparr>\<rparr>"
        and m="''server selection error''"] q l
    by (simp add: limiter_ts_def)
qed

text \<open>
  C27. A title that cannot be used as a regular expression makes listing panic
  even while the store is up: when the \<open>title\<close> parameter contains a NUL byte
  (the driver cannot encode it) or, with the store reachable, is not valid UTF-8
  (the server rejects it), \<open>Find\<close> fails, \<open>GetAll\<close> ignores the error and
  dereferences the nil cursor, and an admitted \<open>GET /api/v1/todos\<close> with a
  \<open>complete\<close> parameter is answered 500 with the runtime's message in plain
  text; nothing is stored.
\<close>

theorem list_bad_title_panics:
  assumes "req_method req = GET" and "req_path req = ''/api/v1/todos''"
    and "go_query (req_query req) ''complete'' [] \<noteq> []"
    and "CHR 0x00 \<in> set (go_query (req_query req) ''title'' [])
         \<or> (fault (db a) = None \<and> \<not> utf8_valid (go_query (req_query req) ''title'' []))"
    and "fst (limiter_admit (limiter_ts a) (limits a (req_ip req)))"
  shows "fst (serve req a) = TextResponse 500 ''runtime error: invalid memory address or nil pointer dereference''
         \<and> db (snd (serve req a)) = db a"
proof -
  obtain e where ok: "limiter_admit (limiter_ts a) (limits a (req_ip req)) = (True, e)"
    using assms(5) by (metis prod.collapse)
  have ne: "go_query (req_query req) ''title'' [] \<noteq> []" using assms(4) by (auto simp: utf8_valid_def)
  have "repo_GetAll \<lparr>filter_title = Some (go_query (req_query req) ''title'' []), filter_complete = None\<rparr> l k (db a)
        = Inl (GoPanic ''runtime error: invalid memory address or nil pointer dereference'')" for l k
    using assms(4) by (auto simp: repo_GetAll_def find_def regex_encode_error_def regex_server_error_def
        split: option.split)
  then have "route_request req (db a) =
      (Inl (GoPanic ''runtime error: invalid memory address or nil pointer dereference''), db a)"
    using route_request_collection[OF assms(2), of "db a"] assms(1,3) ne
    by (simp add: handler_GetAllTodos_def list_todos_response_def svc_GetAllTodos_def Let_def)
  then show ?thesis using ok assms(1) by (simp add: serve_def is_preflight_def recover_mw_def)
qed

theorem list_bad_title_panics_witness:
  "req_method (e2e_req GET ''/api/v1/todos'' (BodyJson JNull)\<lparr>req_query := [(''complete'', ''true''), (''title'', [CHR 0x61, CHR 0x00])]\<rparr>) = GET
   \<and> req_path (e2e_req GET ''/api/v1/todos'' (BodyJson JNull)\<lparr>req_query := [(''complete'', ''true''), (''title'', [CHR 0x61, CHR 0x00])]\<rparr>)
       = ''/api/v1/todos''
   \<and> go_query [(''complete'', ''true''), (''title'', [CHR 0x61, CHR 0x00])] ''complete'' [] \<noteq> []
   \<and> CHR 0x00 \<in> set (go_query [(''complete'', ''true''), (''title'', [CHR 0x61, CHR 0x00])] ''title'' [])
   \<and> fst (limiter_admit (limiter_ts e2e_start) None)
   \<and> fst (serve (e2e_req GET ''/api/v1/todos'' (BodyJson JNull)\<lparr>req_query := [(''complete'', ''true''), (''title'', [CHR 0x61, CHR 0x00])]\<rparr>)
            e2e_start)
       = TextResponse 500 ''runtime error: invalid memory address or nil pointer dereference''"
proof -
  have q: "go_query [(''complete'', ''true''), (''title'', [CHR 0x61, CHR 0x00])] ''complete'' [] \<noteq> []"
    "CHR 0x00 \<in> set (go_query [(''complete'', ''true''), (''title'', [CHR 0x61, CHR 0x00])] ''title'' [])"
    by (simp_all add: go_query_def)
  have l: "fst (limiter_admit (limiter_ts e2e_start) None)"
    by (simp add: limiter_admit_def limiter_max_def Let_def)
  show ?thesis
    using list_bad_title_panics[where req="e2e_req GET ''/api/v1/todos'' (BodyJson JNull)\<lparr>req_query := [(''complete'', ''true''), (''title'', [CHR 0x61, CHR 0x00])]\<rparr>"
        and a=e2e_start] q l
    by simp
qed

text \<open>
  C23. An update whose JSON body gives \<open>title\<close> (under any key that
  \<open>encoding/json\<close> matches to it) a number, boolean, array or object in its
  first member is answered with HTTP status 200, \<open>success: false\<close> and the
  decoder's message, for every id segment; nothing is stored.
\<close>

theorem update_type_error_answers_200:
  assumes "req_method req = PUT" and "req_path req = todo_path x" and "x \<noteq> []" and "CHR ''/'' \<notin> set x"
    and "req_body req = BodyJson (JObject ((k, v) # kvs))"
    and "json_field_for update_request_fields k = Some ''title''"
    and "json_kind v \<noteq> ''string''" and "json_kind v \<noteq> ''null''"
    and "fst (limiter_admit (limiter_ts a) (limits a (req_ip req)))"
  shows "fst (serve req a) = SendErrorResponse 200
           (''Validation errors: json: cannot unmarshal '' @ json_kind v
            @ '' into Go struct field UpdateTodoRequest.title of type string'')
         \<and> db (snd (serve req a)) = db a"
proof -
  obtain e where ok: "limiter_admit (limiter_ts a) (limits a (req_ip req)) = (True, e)"
    using assms(9) by (metis prod.collapse)
  have "route_request req (db a) =
          (Inr (SendErrorResponse 200 (''Validation errors: ''
             @ unmarshal_field_error ''UpdateTodoRequest'' ''title'' v ''string'')), db a)"
    using route_request_item[OF assms(3,4,2), of "db a"] assms(1,5)
      decode_update_title_type_error[OF assms(6-8), of kvs]
    by (simp add: body_parser_def handler_UpdateTodo_def)
  then show ?thesis
    using ok assms(1) by (simp add: serve_def is_preflight_def recover_mw_def unmarshal_field_error_def)
qed

theorem update_type_error_answers_200_witness:
  "req_method (e2e_req PUT (todo_path demo_hex) (BodyJson (JObject [(''Title'', JNumber ''42'')]))) = PUT
   \<and> req_path (e2e_req PUT (todo_path demo_hex) (BodyJson (JObject [(''Title'', JNumber ''42'')]))) = todo_path demo_hex
   \<and> demo_hex \<noteq> [] \<and> CHR ''/'' \<notin> set demo_hex
   \<and> req_body (e2e_req PUT (todo_path demo_hex) (BodyJson (JObject [(''Title'', JNumber ''42'')])))
       = BodyJson (JObject [(''Title'', JNumber ''42'')])
   \<and> json_field_for update_request_fields ''Title'' = Some ''title''
   \<and> json_kind (JNumber ''42'') \<noteq> ''string'' \<and> json_kind (JNumber ''42'') \<noteq> ''null''
   \<and> fst (limiter_admit (limiter_ts e2e_start) (limits e2e_start ''10.0.0.1''))
   \<and> fst (serve (e2e_req PUT (todo_path demo_hex) (BodyJson (JObject [(''Title'', JNumber ''42'')]))) e2e_start)
       = SendErrorResponse 200
           ''Validation errors: json: cannot unmarshal number into Go struct field UpdateTodoRequest.title of type string''
   \<and> db (snd (serve (e2e_req PUT (todo_path demo_hex) (BodyJson (JObject [(''Title'', JNumber ''42'')]))) e2e_start))
       = db e2e_start"
proof -
  have k: "json_field_for update_request_fields ''Title'' = Some ''title''"
    by (simp add: json_field_for_def update_request_fields_def eval_simps)
  have l: "fst (limiter_admit (limiter_ts e2e_start) (limits e2e_start ''10.0.0.1''))"
    by (simp add: limiter_admit_def limiter_max_def Let_def)
  show ?thesis
    using update_type_error_answers_200[where req="e2e_req PUT (todo_path demo_hex) (BodyJson (JObject [(''Title'', JNumber ''42'')]))"
        and x=demo_hex and k="''Title''" and v="JNumber ''42''" and kvs="[]" and a=e2e_start] k l
    by simp
qed

subsection \<open>One task through the routes\<close>

text \<open>The printed id of a stored task is a path segment: hex digits, no slash.\<close>

lemma lower_hex_digit_not_slash: "d < 16 \<Longrightarrow> lower_hex_digit d \<noteq> CHR ''/''"
  by (auto simp: lower_hex_digit_def eval_simps take_bit_nat_eq_self)

lemma object_id_hex_segment:
  assumes "length oid = 12"
  shows "object_id_hex oid \<noteq> []" and "CHR ''/'' \<notin> set (object_id_hex oid)"
proof -
  show "object_id_hex oid \<noteq> []"
    using assms length_hex_encode[of oid] by (auto simp: object_id_hex_def)
  have u: "unat w < 16 * 16" for w :: byte
    using unsigned_less[of w] by simp
  have "\<And>w :: byte. unat w div 16 < 16" "\<And>w :: byte. unat w mod 16 < 16"
    using u by (auto simp: less_mult_imp_div_less)
  then have "\<And>w :: byte. CHR ''/'' \<noteq> lower_hex_digit (unat w div 16)"
      "\<And>w :: byte. CHR ''/'' \<noteq> lower_hex_digit (unat w mod 16)"
    using lower_hex_digit_not_slash by metis+
  then show "CHR ''/'' \<notin> set (object_id_hex oid)"
    by (auto simp: object_id_hex_def hex_encode_def byte_hex_def)
qed

lemma NewObjectID_length: "length (process_unique s) = 5 \<Longrightarrow> length (fst (NewObjectID s)) = 12"
  by (simp add: NewObjectID_def Let_def)

text \<open>
  What \<open>main.go\<close>'s routes do with one task: create it, toggle it, read it,
  delete it, and read it once deleted. These are the steps of the end-to-end
  scenario, for every state and every task.
\<close>

lemma route_create_fresh:
  assumes "fault s = None" and "fst (NewObjectID s) \<notin> set (map ID (docs s))"
    and "req_method r = POST" and "req_path r = ''/api/v1/todos''"
    and "req_body r = BodyJson (JObject [(''title'', JString title), (''description'', JString descr)])"
  defines "t \<equiv> \<lparr>ID = fst (NewObjectID s), Title = title, Description = descr, Complete = False,
                 CreatedAt = clock s, UpdatedAt = clock s\<rparr>"
  shows "route_request r s =
           (Inr (SendSuccessResponse 201 ''Todo created with success!'' (Some (PTodo (Some t))) []),
            (snd (NewObjectID s))\<lparr>docs := docs s @ [t]\<rparr>)"
  using assms route_request_collection[OF assms(4), of s]
    repo_CreateTodo_fresh[OF assms(1,2), of "todo_literal title descr False"]
  by (simp add: handler_CreateTodo_def body_parser_def decode_create_request_def create_request_fields_def
      svc_CreateTodo_skips_validation todo_literal_def)

lemma route_toggle_present:
  assumes "fault s = None" and "store_wf s" and "t \<in> set (docs s)" and "length (ID t) = 12"
    and "req_method r = PATCH" and "req_path r = todo_path (object_id_hex (ID t)) @ ''/toggle''"
  defines "t' \<equiv> t\<lparr>Complete := \<not> Complete t, UpdatedAt := clock s\<rparr>"
  shows "route_request r s =
           (Inr (SendSuccessResponse 200 ''Status task completed changed'' (Some (PTodo (Some t'))) []),
            s\<lparr>docs := map (\<lambda>d. if ID d = ID t then t' else d) (docs s)\<rparr>)"
  using assms route_request_toggle[OF object_id_hex_segment[OF assms(4)] assms(6), of s]
    svc_ToggleTodoComplete_present[OF assms(1-3) object_id_hex_roundtrip[OF assms(4)]]
  by (simp add: handler_ToggleTodoComplete_def Let_def)

lemma route_get_present:
  assumes "fault s = None" and "store_wf s" and "t \<in> set (docs s)" and "length (ID t) = 12"
    and "req_method r = GET" and "req_path r = todo_path (object_id_hex (ID t))"
  shows "route_request r s = (Inr (SendSuccessResponse 200 ''Task founded'' (Some (PTodo (Some t))) []), s)"
  using assms route_request_item[OF object_id_hex_segment[OF assms(4)] assms(6), of s]
  by (simp add: handler_GetTodoByID_def svc_GetTodoByID_def object_id_hex_roundtrip repo_GetTodoByID_present)

lemma route_delete_present:
  assumes "fault s = None" and "oid \<in> set (map ID (docs s))" and "length oid = 12"
    and "req_method r = DELETE" and "req_path r = todo_path (object_id_hex oid)"
  shows "route_request r s = (Inr (SendSuccessResponse 204 ''Task deleted!'' None []),
                              s\<lparr>docs := filter (\<lambda>d. ID d \<noteq> oid) (docs s)\<rparr>)"
  using assms route_request_item[OF object_id_hex_segment[OF assms(3)] assms(5), of s]
    svc_DeleteTodo_present[OF assms(1) object_id_hex_roundtrip[OF assms(3)] assms(2)]
  by (simp add: handler_DeleteTodo_def)

lemma route_get_absent:
  assumes "fault s = None" and "oid \<notin> set (map ID (docs s))" and "length oid = 12"
    and "req_method r = GET" and "req_path r = todo_path (object_id_hex oid)"
  shows "route_request r s = (Inr (SendErrorResponse 404 ''Task not found''), s)"
  using assms route_request_item[OF object_id_hex_segment[OF assms(3)] assms(5), of s]
    svc_GetTodoByID_absent[OF assms(1) object_id_hex_roundtrip[OF assms(3)] assms(2)]
  by (simp add: handler_GetTodoByID_def)

subsection \<open>Concrete steps for the witnesses\<close>

lemma e2e_hex: "object_id_from_hex ''6553f13c0102030405000002'' = Inr demo_new_oid"
  by (simp add: object_id_from_hex_def hex_digit_value_def eval_simps)

lemma e2e_layout: "object_id_layout 1700000060000 [1, 2, 3, 4, 5] 2 = demo_new_oid"
  by (simp add: object_id_layout_def eval_simps)

lemma e2e_post:
  "serve (e2e_req POST ''/api/v1/todos'' (BodyJson (JObject [(''title'', JString ''Buy milk'')]))) e2e_start =
   (SendSuccessResponse 201 ''Todo created with success!'' (Some (PTodo (Some e2e_task))) [],
    \<lparr>db = \<lparr>docs = [e2e_task], fault = None, clock = 1700000060000, process_unique = [1, 2, 3, 4, 5],
          object_id_counter = 2\<rparr>,
     limits = [''10.0.0.1'' \<mapsto> \<lparr>currHits = 1, exp = 1700000085\<rparr>]\<rparr>)"
  by (simp add: serve_def limiter_admit_def limiter_ts_def limiter_max_def limiter_expiration_def
      route_request_def match_route_def path_segments_def trim_trailing_slashes_def route_table_def
      todos_prefix_def method_matches_def pattern_matches_def pattern_param_def ascii_lower_def
      body_parser_def decode_create_request_def create_request_fields_def
      handler_CreateTodo_def todo_literal_def svc_CreateTodo_def repo_CreateTodo_def NewObjectID_def
      time_now_def e2e_layout insert_one_def recover_mw_def is_preflight_def Let_def eval_simps)

lemma e2e_toggle:
  "serve (e2e_req PATCH ''/api/v1/todos/6553f13c0102030405000002/toggle'' (BodyJson JNull)) (e2e_state [e2e_task] 1) =
   (SendSuccessResponse 200 ''Status task completed changed'' (Some (PTodo (Some (e2e_done)))) [],
    e2e_state [e2e_done] 2)"
  by (simp add: serve_eval e2e_hex handler_ToggleTodoComplete_def svc_ToggleTodoComplete_def repo_GetTodoByID_def
      find_one_by_id_def repo_UpdateTodo_def find_one_and_update_def apply_set_def time_now_def eval_simps)

end
