(* ===== verification/Concurrency.thy ===== *)
theory Concurrency
  imports Server
begin

text \<open>
  Requests run concurrently (one goroutine each) and share only the store.
  \<open>UpdateTodo\<close> and \<open>ToggleTodoComplete\<close> issue two store commands, a read
  (\<open>GetTodoByID\<close>) and a write (\<open>UpdateTodo\<close>), with no transaction
  around them, so other requests' commands may come in between. This theory
  cuts the two service methods at that point: the read phase (everything up to
  and including the read) and the write phase (the rest), each followed by the
  handler's classification of the result. A request in flight is a
  \<open>thread\<close>; \<open>conc_step\<close> lets any thread take its next phase, or another
  client's delete (a single store command) happen, in any order. Each store
  command itself is atomic, as MongoDB makes a single-document command.
\<close>

subsection \<open>The two phases of toggle and update\<close>

definition toggle_read :: "string \<Rightarrow> sys \<Rightarrow> go_error + (object_id \<times> todo)" where
  "toggle_read id_str s =
     (case object_id_from_hex id_str of
        Inl _ \<Rightarrow> Inl (GoError ''Id is Invalid'')
      | Inr oid \<Rightarrow>
          (case repo_GetTodoByID oid s of
             Inl _ \<Rightarrow> Inl (GoError ''Error the check if todo exists before change status complete'')
           | Inr None \<Rightarrow> Inl (GoError ''Task not found'')
           | Inr (Some todo) \<Rightarrow> Inr (oid, todo)))"

definition toggle_write :: "object_id \<Rightarrow> todo \<Rightarrow> sys \<Rightarrow> todo option result \<times> sys" where
  "toggle_write oid todo s =
     (case repo_UpdateTodo oid (todo\<lparr>Complete := \<not> Complete todo\<rparr>) s of
        (Inl err, s') \<Rightarrow> (Inl err, s')
      | (Inr changeTodo, s') \<Rightarrow> (Inr changeTodo, s'))"

definition toggle_response :: "todo option result \<Rightarrow> http_response" where
  "toggle_response r =
     (case r of
        Inl err \<Rightarrow>
          (if error_msg err = ''Task not found'' \<or> error_msg err = ''Id is Invalid''
           then SendErrorResponse 404 (error_msg err)
           else SendErrorResponse 500 (''Fail the modificed task status completed : '' @ error_msg err))
      | Inr updatedTodo \<Rightarrow> SendSuccessResponse 200 ''Status task completed changed'' (Some (PTodo updatedTodo)) [])"

definition update_read :: "string \<Rightarrow> todo \<Rightarrow> sys \<Rightarrow> go_error + (object_id \<times> todo)" where
  "update_read id_str todo s =
     (case object_id_from_hex id_str of
        Inl _ \<Rightarrow> Inl (GoError ''Id is Invalid'')
      | Inr oid \<Rightarrow>
          (case struct_partial todo [''Title'', ''Description'', ''Complete''] of
             Some err \<Rightarrow> Inl (GoError (''Validation error: '' @ error_msg err))
           | None \<Rightarrow>
               (case repo_GetTodoByID oid s of
                  Inl _ \<Rightarrow> Inl (GoError ''Error the check if todo exists!'')
                | Inr None \<Rightarrow> Inl (GoError ''Todo not found'')
                | Inr (Some checkTodo) \<Rightarrow> Inr (oid, checkTodo))))"

definition update_write :: "object_id \<Rightarrow> todo \<Rightarrow> todo \<Rightarrow> sys \<Rightarrow> todo option result \<times> sys" where
  "update_write oid todo checkTodo s =
     (case repo_UpdateTodo oid (merge_update todo checkTodo) s of
        (Inl _, s') \<Rightarrow> (Inl (GoError ''Error the update if todo exists!''), s')
      | (Inr updateTodo, s') \<Rightarrow> (Inr updateTodo, s'))"

definition update_response :: "todo option result \<Rightarrow> http_response" where
  "update_response r =
     (case r of
        Inl err \<Rightarrow>
          (if error_msg err = ''Todo not found'' \<or> error_msg err = ''Id is Invalid''
              \<or> error_msg err = ''Error the check if todo exists!''
           then SendErrorResponse 404 (error_msg err)
           else SendErrorResponse 400 (''Fail the to update todo: '' @ error_msg err))
      | Inr updatedTodo \<Rightarrow> SendSuccessResponse 200 ''Task updated'' (Some (PTodo updatedTodo)) [])"

subsection \<open>Interleaved requests\<close>

text \<open>
  A toggle of an id, or an update of an id with the task the handler built from
  the decoded body. A thread is ready, has read the stored task, or has been
  answered.
\<close>

datatype req_op = Toggle string | Update string todo

datatype thread = Ready req_op | Fetched req_op object_id todo | Answered http_response

primrec read_phase :: "req_op \<Rightarrow> sys \<Rightarrow> thread" where
  "read_phase (Toggle id_str) s =
     (case toggle_read id_str s of
        Inl e \<Rightarrow> Answered (toggle_response (Inl e))
      | Inr (oid, t) \<Rightarrow> Fetched (Toggle id_str) oid t)"
| "read_phase (Update id_str u) s =
     (case update_read id_str u s of
        Inl e \<Rightarrow> Answered (update_response (Inl e))
      | Inr (oid, t) \<Rightarrow> Fetched (Update id_str u) oid t)"

primrec write_phase :: "req_op \<Rightarrow> object_id \<Rightarrow> todo \<Rightarrow> sys \<Rightarrow> thread \<times> sys" where
  "write_phase (Toggle id_str) oid t s =
     (case toggle_write oid t s of (r, s') \<Rightarrow> (Answered (toggle_response r), s'))"
| "write_phase (Update id_str u) oid t s =
     (case update_write oid u t s of (r, s') \<Rightarrow> (Answered (update_response r), s'))"

inductive conc_step :: "sys \<times> thread list \<Rightarrow> sys \<times> thread list \<Rightarrow> bool" where
  read_step: "i < length ts \<Longrightarrow> ts ! i = Ready rop \<Longrightarrow> conc_step (s, ts) (s, ts[i := read_phase rop s])"
| write_step: "i < length ts \<Longrightarrow> ts ! i = Fetched rop oid t \<Longrightarrow> write_phase rop oid t s = (th, s') \<Longrightarrow>
          conc_step (s, ts) (s', ts[i := th])"
| delete_step: "svc_DeleteTodo id_str s = (r, s') \<Longrightarrow> conc_step (s, ts) (s', ts)"

text \<open>
  A concrete race, on the task of the end-to-end scenario (stored with
  \<open>complete = false\<close>), addressed by its printed id.
\<close>

abbreviation race_id :: string where
  "race_id \<equiv> ''6553f13c0102030405000002''"

abbreviation race_sys :: "todo list \<Rightarrow> sys" where
  "race_sys ds \<equiv> \<lparr>docs = ds, fault = None, clock = 1700000060000, process_unique = [1, 2, 3, 4, 5],
                   object_id_counter = 2\<rparr>"

abbreviation race_update :: todo where
  "race_update \<equiv> \<lparr>ID = NilObjectID, Title = ''Buy bread'', Description = [], Complete = False,
                   CreatedAt = go_zero_time, UpdatedAt = go_zero_time\<rparr>"

abbreviation toggled_answer :: http_response where
  "toggled_answer \<equiv> SendSuccessResponse 200 ''Status task completed changed'' (Some (PTodo (Some e2e_done))) []"


subsection \<open>Properties of the phases and of interleavings\<close>

lemma race_delete: "svc_DeleteTodo race_id (race_sys [e2e_task]) = (Inr (), race_sys [])"
  by (simp add: svc_DeleteTodo_def e2e_hex repo_DeleteTodo_def delete_one_def)

text \<open>
  The cut is faithful: the handlers of toggle and update (after body parsing)
  are their read phase followed by their write phase, so a run in which nothing
  comes in between is the sequential model.
\<close>

lemma handlers_are_read_then_write:
  "handler_ToggleTodoComplete id_str s =
     (case toggle_read id_str s of
        Inl e \<Rightarrow> (Inr (toggle_response (Inl e)), s)
      | Inr (oid, t) \<Rightarrow> (case toggle_write oid t s of (r, s') \<Rightarrow> (Inr (toggle_response r), s')))
   \<and> handler_UpdateTodo id_str (Inr req) s =
     (case update_read id_str (update_request_todo req) s of
        Inl e \<Rightarrow> (Inr (update_response (Inl e)), s)
      | Inr (oid, t) \<Rightarrow> (case update_write oid (update_request_todo req) t s of (r, s') \<Rightarrow> (Inr (update_response r), s')))"
proof
  show "handler_ToggleTodoComplete id_str s =
     (case toggle_read id_str s of
        Inl e \<Rightarrow> (Inr (toggle_response (Inl e)), s)
      | Inr (oid, t) \<Rightarrow> (case toggle_write oid t s of (r, s') \<Rightarrow> (Inr (toggle_response r), s')))"
    by (simp add: handler_ToggleTodoComplete_def svc_ToggleTodoComplete_def toggle_read_def toggle_write_def
        toggle_response_def split: sum.split option.split prod.split)
  show "handler_UpdateTodo id_str (Inr req) s =
     (case update_read id_str (update_request_todo req) s of
        Inl e \<Rightarrow> (Inr (update_response (Inl e)), s)
      | Inr (oid, t) \<Rightarrow> (case update_write oid (update_request_todo req) t s of (r, s') \<Rightarrow> (Inr (update_response r), s')))"
    by (simp add: handler_UpdateTodo_def svc_UpdateTodo_def update_read_def update_write_def update_response_def
        split: sum.split option.split prod.split)
qed

lemma write_phase_effect: "write_phase rop oid t s = (th, s') \<Longrightarrow> store_effect s s'"
  by (cases rop) (auto simp: toggle_write_def update_write_def split: prod.splits sum.splits
      intro: repo_UpdateTodo_effect)

lemma conc_step_effect: "conc_step c c' \<Longrightarrow> store_effect (fst c) (fst c')"
  by (induction rule: conc_step.induct)
     (auto intro: store_effect.none write_phase_effect svc_DeleteTodo_effect)

text \<open>The phases on a stored task, for every state and every task.\<close>

lemma read_toggle_present:
  "fault s = None \<Longrightarrow> store_wf s \<Longrightarrow> t \<in> set (docs s) \<Longrightarrow> object_id_from_hex h = Inr (ID t) \<Longrightarrow>
   read_phase (Toggle h) s = Fetched (Toggle h) (ID t) t"
  by (simp add: toggle_read_def repo_GetTodoByID_present)

lemma write_toggle_present:
  assumes "fault s = None" and "store_wf s" and "d \<in> set (docs s)"
  shows "write_phase (Toggle h) (ID d) t s =
    (let d' = apply_set \<lparr>set_title = Title t, set_description = Description t, set_complete = \<not> Complete t,
                         set_updated_at = clock s\<rparr> d
     in (Answered (SendSuccessResponse 200 ''Status task completed changed'' (Some (PTodo (Some d'))) []),
         s\<lparr>docs := map (\<lambda>x. if ID x = ID d then d' else x) (docs s)\<rparr>))"
  using repo_UpdateTodo_present[OF assms, of "t\<lparr>Complete := \<not> Complete t\<rparr>"]
  by (simp add: toggle_write_def toggle_response_def Let_def)

lemma read_update_present:
  "fault s = None \<Longrightarrow> store_wf s \<Longrightarrow> t \<in> set (docs s) \<Longrightarrow> object_id_from_hex h = Inr (ID t) \<Longrightarrow>
   Title u \<noteq> [] \<Longrightarrow> read_phase (Update h u) s = Fetched (Update h u) (ID t) t"
  by (simp add: update_read_def struct_partial_update_fields repo_GetTodoByID_present)

lemma write_update_absent:
  "fault s = None \<Longrightarrow> oid \<notin> set (map ID (docs s)) \<Longrightarrow>
   write_phase (Update h u) oid t s = (Answered (SendSuccessResponse 200 ''Task updated'' (Some (PTodo None)) []), s)"
  by (simp add: update_write_def update_response_def repo_UpdateTodo_absent)

text \<open>
  C28. Interleaving does not break the invariant of the stored tasks: every run
  of concurrent toggles, updates and deletes from a state with unique ids and
  \<open>createdAt \<le> updatedAt \<le> clock\<close> ends in such a state.
\<close>

theorem interleavings_keep_todo_inv:
  assumes "conc_step\<^sup>*\<^sup>* c c'" and "todo_inv (fst c)"
  shows "todo_inv (fst c')"
  using assms by (induction rule: rtranclp_induct) (auto dest: conc_step_effect store_effect_inv)

theorem interleavings_keep_todo_inv_witness:
  "conc_step\<^sup>*\<^sup>* (race_sys [e2e_task], []) (race_sys [], []) \<and> todo_inv (fst (race_sys [e2e_task], []))
   \<and> todo_inv (fst (race_sys [], ([] :: thread list)))"
proof -
  have r: "conc_step\<^sup>*\<^sup>* (race_sys [e2e_task], []) (race_sys [], [])"
    by (rule r_into_rtranclp, rule conc_step.delete_step[OF race_delete])
  have i: "todo_inv (fst (race_sys [e2e_task], ([] :: thread list)))" by (simp add: todo_inv_def store_wf_def)
  show ?thesis using interleavings_keep_todo_inv[OF r i] r i by simp
qed

text \<open>
  C29. The lost update the specification warns of, for every stored task: two
  toggles of it that both read before either writes are both answered 200 with
  the flag flipped once, and the task is stored flipped once, where the same two
  toggles one after another restore the flag.
\<close>

theorem concurrent_toggles_lose_update:
  assumes "fault s = None" and "store_wf s" and "t \<in> set (docs s)" and "object_id_from_hex h = Inr (ID t)"
  defines "t' \<equiv> t\<lparr>Complete := \<not> Complete t, UpdatedAt := clock s\<rparr>"
  shows "conc_step\<^sup>*\<^sup>* (s, [Ready (Toggle h), Ready (Toggle h)])
           (s\<lparr>docs := map (\<lambda>d. if ID d = ID t then t' else d) (docs s)\<rparr>,
            [Answered (SendSuccessResponse 200 ''Status task completed changed'' (Some (PTodo (Some t'))) []),
             Answered (SendSuccessResponse 200 ''Status task completed changed'' (Some (PTodo (Some t'))) [])])"
proof -
  let ?f = "Fetched (Toggle h) (ID t) t" and ?r = "Ready (Toggle h)"
  let ?ans = "Answered (SendSuccessResponse 200 ''Status task completed changed'' (Some (PTodo (Some t'))) [])"
  define s2 where "s2 = s\<lparr>docs := map (\<lambda>d. if ID d = ID t then t' else d) (docs s)\<rparr>"
  have rd: "read_phase (Toggle h) s = ?f" using read_toggle_present[OF assms(1-4)] .
  have 1: "conc_step (s, [?r, ?r]) (s, [?f, ?r])"
    using conc_step.read_step[of 0 "[?r, ?r]" "Toggle h" s] rd by simp
  have 2: "conc_step (s, [?f, ?r]) (s, [?f, ?f])"
    using conc_step.read_step[of 1 "[?f, ?r]" "Toggle h" s] rd by simp
  have "write_phase (Toggle h) (ID t) t s = (?ans, s2)"
    using write_toggle_present[OF assms(1-3), of h t] by (simp add: apply_set_def t'_def s2_def Let_def)
  then have 3: "conc_step (s, [?f, ?f]) (s2, [?ans, ?f])"
    using conc_step.write_step[of 0 "[?f, ?f]"] by simp
  have id: "ID t' = ID t" by (simp add: t'_def)
  have m: "map (ID \<circ> (\<lambda>d. if ID d = ID t then t' else d)) (docs s) = map ID (docs s)"
    by (rule map_ID_replace[OF id])
  have s2: "fault s2 = None" "store_wf s2" "t' \<in> set (docs s2)"
    using assms(1,2,3) by (simp_all add: s2_def store_wf_def replace_by_id_member m del: map_eq_conv)
  have "write_phase (Toggle h) (ID t') t s2 = (?ans, s2)"
    using write_toggle_present[OF s2, of h t] by (simp add: apply_set_def t'_def s2_def comp_def Let_def)
  then have 4: "conc_step (s2, [?ans, ?f]) (s2, [?ans, ?ans])"
    using conc_step.write_step[of 1 "[?ans, ?f]"] id by simp
  from 1 2 3 4 show ?thesis unfolding s2_def by (meson rtranclp.rtrancl_into_rtrancl rtranclp.rtrancl_refl)
qed

theorem concurrent_toggles_lose_update_witness:
  "fault (race_sys [e2e_task]) = None \<and> store_wf (race_sys [e2e_task]) \<and> e2e_task \<in> set (docs (race_sys [e2e_task]))
   \<and> object_id_from_hex race_id = Inr (ID e2e_task)
   \<and> conc_step\<^sup>*\<^sup>* (race_sys [e2e_task], [Ready (Toggle race_id), Ready (Toggle race_id)])
                 (race_sys [e2e_done], [Answered toggled_answer, Answered toggled_answer])"
proof -
  have h: "fault (race_sys [e2e_task]) = None" "store_wf (race_sys [e2e_task])"
    "e2e_task \<in> set (docs (race_sys [e2e_task]))" "object_id_from_hex race_id = Inr (ID e2e_task)"
    by (simp_all add: store_wf_def e2e_hex)
  show ?thesis using concurrent_toggles_lose_update[OF h] h by simp
qed

text \<open>
  C30. An update whose task another request deletes between the update's read
  and its write is answered 200 \<open>"Task updated"\<close> with \<open>"data": null\<close>,
  not 404, for every stored task and every update with a title: the
  repository's \<open>(nil, nil)\<close> passes through the service and the handler as a
  success.
\<close>

theorem update_after_delete_answers_null:
  assumes "fault s = None" and "store_wf s" and "t \<in> set (docs s)" and "object_id_from_hex h = Inr (ID t)"
    and "Title u \<noteq> []"
  shows "conc_step\<^sup>*\<^sup>* (s, [Ready (Update h u)])
           (s\<lparr>docs := filter (\<lambda>d. ID d \<noteq> ID t) (docs s)\<rparr>,
            [Answered (SendSuccessResponse 200 ''Task updated'' (Some (PTodo None)) [])])"
proof -
  let ?f = "Fetched (Update h u) (ID t) t"
  define s1 where "s1 = s\<lparr>docs := filter (\<lambda>d. ID d \<noteq> ID t) (docs s)\<rparr>"
  have 1: "conc_step (s, [Ready (Update h u)]) (s, [?f])"
    using conc_step.read_step[of 0 "[Ready (Update h u)]" "Update h u" s] read_update_present[OF assms] by simp
  have "svc_DeleteTodo h s = (Inr (), s1)"
    using svc_DeleteTodo_present[OF assms(1,4)] assms(3) by (simp add: s1_def)
  then have 2: "conc_step (s, [?f]) (s1, [?f])" by (rule conc_step.delete_step)
  have f1: "fault s1 = None" and ab: "ID t \<notin> set (map ID (docs s1))"
    using assms(1) by (auto simp: s1_def)
  have "write_phase (Update h u) (ID t) t s1 = (Answered (SendSuccessResponse 200 ''Task updated'' (Some (PTodo None)) []), s1)"
    by (rule write_update_absent[OF f1 ab])
  then have 3: "conc_step (s1, [?f]) (s1, [Answered (SendSuccessResponse 200 ''Task updated'' (Some (PTodo None)) [])])"
    using conc_step.write_step[of 0 "[?f]"] by simp
  from 1 2 3 show ?thesis unfolding s1_def by (meson rtranclp.rtrancl_into_rtrancl rtranclp.rtrancl_refl)
qed

theorem update_after_delete_answers_null_witness:
  "fault (race_sys [e2e_task]) = None \<and> store_wf (race_sys [e2e_task]) \<and> e2e_task \<in> set (docs (race_sys [e2e_task]))
   \<and> object_id_from_hex race_id = Inr (ID e2e_task) \<and> Title race_update \<noteq> []
   \<and> conc_step\<^sup>*\<^sup>* (race_sys [e2e_task], [Ready (Update race_id race_update)])
                 (race_sys [], [Answered (SendSuccessResponse 200 ''Task updated'' (Some (PTodo None)) [])])"
proof -
  have h: "fault (race_sys [e2e_task]) = None" "store_wf (race_sys [e2e_task])"
    "e2e_task \<in> set (docs (race_sys [e2e_task]))" "object_id_from_hex race_id = Inr (ID e2e_task)"
    "Title race_update \<noteq> []"
    by (simp_all add: store_wf_def e2e_hex)
  show ?thesis using update_after_delete_answers_null[OF h] h by simp
qed

end
