(* ===== verification/Lifecycle.thy ===== *)
theory Lifecycle
  imports App
begin

text \<open>
  The life of the process: \<open>main\<close> in \<open>src/main.go\<close> around the server, and
  \<open>ConnectDB\<close>/\<open>CloseDB\<close> of \<open>src/config/database.go\<close>. The process state
  is what these functions change: the package variable \<open>MongoClient\<close>, whether
  the connection is open, the lines written by \<open>log\<close> and \<open>fmt\<close> (without
  \<open>log\<close>'s date prefix), and the exit status once the process has ended.
  \<open>log.Fatalf\<close> writes its line and ends the process with status 1 at once:
  deferred calls do not run. What the outside world contributes (the outcome of
  \<open>mongo.Connect\<close>, \<open>Ping\<close>, \<open>Listen\<close> and \<open>Disconnect\<close>) is an
  \<open>environment\<close>; a \<open>Listen\<close> that ends by the interrupt signal has served a
  list of requests.
\<close>

record process =
  MongoClient :: bool
  db_open :: bool
  log_lines :: "string list"
  exit_code :: "int option"

datatype listen_outcome = ListenError string | ShutdownBySignal "http_request list"

record environment =
  connect_err :: "string option"
  ping_err :: "string option"
  listen_result :: listen_outcome
  disconnect_err :: "string option"

definition process_start :: process where
  "process_start = \<lparr>MongoClient = False, db_open = False, log_lines = [], exit_code = None\<rparr>"

definition println :: "string \<Rightarrow> process \<Rightarrow> process" where
  "println line p = p\<lparr>log_lines := log_lines p @ [line]\<rparr>"

text \<open>\<open>log.Fatalf\<close>: the message, then \<open>os.Exit(1)\<close>.\<close>

definition log_fatal :: "string \<Rightarrow> process \<Rightarrow> process" where
  "log_fatal msg p = (println msg p)\<lparr>exit_code := Some 1\<rparr>"

definition running :: "process \<Rightarrow> bool" where
  "running p = (exit_code p = None)"

definition ConnectDB :: "environment \<Rightarrow> process \<Rightarrow> process" where
  "ConnectDB env p =
     (case connect_err env of
        Some e \<Rightarrow> log_fatal (''Error the connect in mongoDb: '' @ e) p
      | None \<Rightarrow>
          (let p1 = p\<lparr>db_open := True\<rparr>
           in case ping_err env of
                Some e \<Rightarrow> log_fatal (''Error the to ping in mongoDB: '' @ e) p1
              | None \<Rightarrow> println ''MongoDB connected!'' (p1\<lparr>MongoClient := True\<rparr>)))"

definition CloseDB :: "environment \<Rightarrow> process \<Rightarrow> process" where
  "CloseDB env p =
     (if MongoClient p then
        (case disconnect_err env of
           Some e \<Rightarrow> log_fatal (''Error the to close the MongoDB: '' @ e) p
         | None \<Rightarrow> println ''Conection with MongoDB closed'' (p\<lparr>db_open := False\<rparr>))
      else p)"

text \<open>
  \<open>main\<close>: connect, build the app, announce the port, serve. When \<open>Listen\<close>
  fails, \<open>log.Fatalf\<close> ends the process and the deferred \<open>CloseDB\<close> does not
  run. When the signal arrives, the goroutine writes its line and shuts the app
  down, \<open>Listen\<close> returns \<open>nil\<close>, \<open>main\<close> writes its last line and returns,
  and only then the deferred \<open>CloseDB\<close> runs. The app serves from the
  database as the process finds it, \<open>sdb\<close>, and the limiter's storage of a
  new app, which is empty. The result pairs the final process state with the
  answers given while serving.
\<close>

definition run_main :: "environment \<Rightarrow> sys \<Rightarrow> process \<times> http_response list" where
  "run_main env sdb =
     (let p1 = ConnectDB env process_start
      in if \<not> running p1 then (p1, [])
         else
           (let p2 = println ''Server is starting on port 3000'' p1
            in case listen_result env of
                 ListenError e \<Rightarrow> (log_fatal (''Server failed to start: '' @ e) p2, [])
               | ShutdownBySignal reqs \<Rightarrow>
                   (let resps = fst (serve_all reqs \<lparr>db = sdb, limits = Map.empty\<rparr>);
                        p3 = println ''Server gracefully stopped.'' (println ''Shutting down server...'' p2);
                        p4 = CloseDB env p3
                    in (if running p4 then p4\<lparr>exit_code := Some 0\<rparr> else p4, resps))))"

text \<open>An empty collection, for the concrete runs below.\<close>

abbreviation empty_db :: sys where
  "empty_db \<equiv> \<lparr>docs = [], fault = None, clock = 0, process_unique = [], object_id_counter = 0\<rparr>"

subsection \<open>Properties of the process\<close>

lemmas lifecycle_defs = run_main_def ConnectDB_def CloseDB_def log_fatal_def println_def running_def
  process_start_def Let_def

text \<open>
  C24. When \<open>Listen\<close> fails after the database was connected, the process exits
  with status 1 and leaves the MongoDB connection open: \<open>log.Fatalf\<close> ends the
  process before the deferred \<open>CloseDB\<close> runs, and no request is answered.
\<close>

theorem listen_failure_skips_close:
  assumes "connect_err env = None" and "ping_err env = None" and "listen_result env = ListenError e"
  shows "run_main env sdb =
    (\<lparr>MongoClient = True, db_open = True,
      log_lines = [''MongoDB connected!'', ''Server is starting on port 3000'', ''Server failed to start: '' @ e],
      exit_code = Some 1\<rparr>, [])"
  using assms by (simp add: lifecycle_defs)

theorem listen_failure_skips_close_witness:
  "connect_err \<lparr>connect_err = None, ping_err = None,
                listen_result = ListenError ''listen tcp :3000: bind: address already in use'',
                disconnect_err = None\<rparr> = None
   \<and> run_main \<lparr>connect_err = None, ping_err = None,
                 listen_result = ListenError ''listen tcp :3000: bind: address already in use'',
                 disconnect_err = None\<rparr> empty_db =
    (\<lparr>MongoClient = True, db_open = True,
      log_lines = [''MongoDB connected!'', ''Server is starting on port 3000'',
                   ''Server failed to start: listen tcp :3000: bind: address already in use''],
      exit_code = Some 1\<rparr>, [])"
  using listen_failure_skips_close[where env="\<lparr>connect_err = None, ping_err = None,
      listen_result = ListenError ''listen tcp :3000: bind: address already in use'', disconnect_err = None\<rparr>"
      and e="''listen tcp :3000: bind: address already in use''" and sdb=empty_db]
  by simp

text \<open>
  C25. A graceful run: connected, serving until the interrupt signal, then the
  goroutine's line, \<open>main\<close>'s last line and the deferred \<open>CloseDB\<close>, in this
  order; the connection ends closed, the exit status is 0, and the answers are
  those of serving the requests one after another.
\<close>

theorem graceful_shutdown:
  assumes "connect_err env = None" and "ping_err env = None" and "disconnect_err env = None"
    and "listen_result env = ShutdownBySignal reqs"
  shows "run_main env sdb =
    (\<lparr>MongoClient = True, db_open = False,
      log_lines = [''MongoDB connected!'', ''Server is starting on port 3000'', ''Shutting down server...'',
                   ''Server gracefully stopped.'', ''Conection with MongoDB closed''],
      exit_code = Some 0\<rparr>, fst (serve_all reqs \<lparr>db = sdb, limits = Map.empty\<rparr>))"
  using assms by (simp add: lifecycle_defs)

theorem graceful_shutdown_witness:
  "connect_err \<lparr>connect_err = None, ping_err = None, listen_result = ShutdownBySignal [],
                disconnect_err = None\<rparr> = None
   \<and> run_main \<lparr>connect_err = None, ping_err = None, listen_result = ShutdownBySignal [],
                 disconnect_err = None\<rparr> empty_db =
    (\<lparr>MongoClient = True, db_open = False,
      log_lines = [''MongoDB connected!'', ''Server is starting on port 3000'', ''Shutting down server...'',
                   ''Server gracefully stopped.'', ''Conection with MongoDB closed''],
      exit_code = Some 0\<rparr>, [])"
  using graceful_shutdown[where env="\<lparr>connect_err = None, ping_err = None, listen_result = ShutdownBySignal [],
      disconnect_err = None\<rparr>" and reqs="[]" and sdb=empty_db]
  by simp

text \<open>
  C26. The process exits with status 0 exactly when connecting, pinging and
  disconnecting all succeed and \<open>Listen\<close> ends by the signal; every other run
  ends in \<open>log.Fatalf\<close> with status 1.
\<close>

theorem clean_exit_iff:
  "exit_code (fst (run_main env sdb)) = Some 0 \<longleftrightarrow>
     connect_err env = None \<and> ping_err env = None \<and> disconnect_err env = None
     \<and> (\<exists>reqs. listen_result env = ShutdownBySignal reqs)"
  by (auto simp: lifecycle_defs split: option.splits listen_outcome.splits)

theorem clean_exit_iff_witness:
  "(exit_code (fst (run_main \<lparr>connect_err = None, ping_err = Some ''server selection error'',
                               listen_result = ShutdownBySignal [], disconnect_err = None\<rparr>  empty_db)) = Some 0)
   = False"
  using clean_exit_iff[where env="\<lparr>connect_err = None, ping_err = Some ''server selection error'',
      listen_result = ShutdownBySignal [], disconnect_err = None\<rparr>" and sdb=empty_db]
  by simp

end
