(* ===== verification/Spec2Isabelle.thy ===== *)
theory Spec2Isabelle
  imports Concurrency Lifecycle
begin

text \<open>
  \<^bold>\<open>A verification model of todolist-fiber-mongo.\<close>

  The program is a small HTTP service (Go, Fiber v2, MongoDB) that creates,
  lists, reads, updates, deletes and toggles "todo" tasks. \<open>src/main.go\<close>
  connects to the database (\<open>src/config/database.go\<close>), builds a Fiber app
  with CORS, logging, recover and a per-IP rate limiter, and routes six
  endpoints to the handlers; each request flows handler, service, repository,
  store and back. Every part is a theory of this development, a shallow
  embedding: Go structs are records, Go errors the left side of a sum
  (\<open>go_error + 'a\<close>, panics their own constructor), machine integers
  \<open>64 word\<close>, state passed explicitly.

  \<^item> \<open>Prelude\<close>: \<open>byte\<close>, \<open>int64\<close>, BSON times, Go errors, Go's \<open>int64\<close>
    division, \<open>int64\<close> arithmetic inside and past the range, the collections
    \<open>layer_simps\<close>, \<open>eval_simps\<close> and \<open>effect_rules\<close>.
  \<^item> \<open>Model\<close> (\<open>src/models/todo.go\<close>, \<open>src/dtos/\<close>): the record
    \<open>todo\<close>, the request bodies, the validator's \<open>StructPartial\<close>.
  \<^item> \<open>Json\<close>: \<open>encoding/json\<close> decoding of the bodies from their tags, with
    the key folding of Go 1.21 and later and the first type error kept.
  \<^item> \<open>ObjectId\<close>, \<open>Regex\<close>, \<open>Store\<close>: the driver's ids (\<open>ObjectIDFromHex\<close>
    checks the length first, as current drivers do), MongoDB's caseless regex
    on the fragment of literals, \<open>.\<close>, \<open>*\<close>, \<open>^\<close>, \<open>$\<close>, UTF-8
    validity, and the collection with the six commands the repository issues
    (MongoDB's documented semantics; the server is external). A title filter
    with a NUL byte fails in the driver, one that is not UTF-8 on the server.
  \<^item> \<open>Repository\<close>, \<open>Service\<close>, \<open>Handler\<close>, \<open>Response\<close>: the methods of
    \<open>src/repositories/\<close>, \<open>src/services/\<close>, \<open>src/handlers/\<close> and
    \<open>src/utils/\<close>, one definition each, line by line. \<open>sys\<close> is the
    collection together with what the OS and the driver contribute: the clock,
    the five process bytes and the id counter. One request reads the clock once:
    the two \<open>time.Now()\<close> calls of \<open>CreateTodo\<close> and the one in
    \<open>NewObjectID\<close> see the same instant (in the program they are
    nanoseconds apart).
  \<^item> \<open>App\<close> (\<open>src/main.go\<close>): routing as Fiber does it (caseless,
    trailing slashes ignored, 404/405 texts), the CORS middleware of Fiber 2.52
    (a preflight is an \<open>OPTIONS\<close> with \<open>Origin\<close> and
    \<open>Access-Control-Request-Method\<close>), recover, the fixed-window limiter (100
    per 25 s per IP), \<open>serve\<close>, and the server as the inductive step relation
    \<open>app_step\<close> with its \<open>reachable\<close> states. \<open>handlers.TodoHandler\<close> is
    an empty interface, so \<open>main.go\<close> does not compile as written; the route
    table dispatches to the methods of \<open>*todoHandler\<close>, which is what the
    program means (see the findings).
  \<^item> \<open>Server\<close>: every request is one \<open>store_effect\<close> (proved layer by layer),
    the invariants \<open>todo_inv\<close> and \<open>limits_inv\<close>, the limiter's budget,
    \<open>route_all\<close> (the routes of requests the limiter admits), and the routing
    of \<open>main.go\<close>'s table for every id segment.
  \<^item> \<open>Lifecycle\<close> (\<open>main\<close>, \<open>ConnectDB\<close>, \<open>CloseDB\<close>): the process
    state, \<open>log.Fatalf\<close> ending the process before deferred calls, and an
    environment for the outcomes of connect, ping, listen and disconnect; the
    app serves from the database as found, with an empty limiter.
  \<^item> \<open>Concurrency\<close>: update and toggle cut at their store read, threads in
    flight and the interleaving relation \<open>conc_step\<close> with other clients'
    deletes; each store command is atomic.

  What is proved. Handlers (C1 to C11): update's merge, create, toggle twice,
  the error paths of list, update, delete and malformed ids, that create's
  validation never fires, that the printed id finds its task and letter case of
  ids is irrelevant, and that a literal ASCII title filter is caseless substring
  search. Pagination (C12 to C15): for titles MongoDB accepts, the service
  refines the listing contract \<open>list_page_spec\<close> while the offset fits in an
  \<open>int64\<close>; \<open>totalPages\<close> is the ceiling while \<open>total + pageSize\<close> fits,
  and at most 0 whenever \<open>total + pageSize - 1\<close> overflows; an offset that is a
  multiple of \<open>2^64\<close> wraps to the first page. The server (C16 to C23): ids
  unique and \<open>createdAt \<le> updatedAt \<le> clock\<close> in every reachable state;
  \<open>createdAt\<close> never changes; the specification's end-to-end scenario through
  the whole chain on every reachable state; at most 100 admitted requests per
  client while the clock stands still, and admission again after 25 s; the
  route table; the plain-text 500 of the list panic; an update body with a
  mistyped title answered 200. The process (C24 to C26): a failed \<open>Listen\<close>
  leaves the connection open, the graceful order of shutdown, and exit status 0
  exactly on success. C27: a NUL or non-UTF-8 title makes listing panic with
  the store up. Concurrency (C28 to C30): interleavings keep the invariant, two
  concurrent toggles of any task lose an update, and an update racing a delete
  is answered 200 with \<open>data: null\<close>. C31: CORS preflights bypass the
  limiter and change nothing. Findings are listed in the manifest.

  Bounds and fuel: no function needs fuel; every loop is structural recursion.
  Timestamps are milliseconds (\<open>int\<close>), the limiter's whole seconds of them;
  \<open>int64\<close> arithmetic is \<open>64 word\<close>, with no-overflow hypotheses where a
  theorem states the intended value and overflow hypotheses where it states the
  wrapped one. The clock only advances (\<open>app_step.tick\<close>) and starts after the
  epoch; the invariant C16 depends on that. The end-to-end scenario assumes the
  next generated id is not stored yet, which the 24-bit counter guarantees
  until it wraps.

  Not modelled: the logger's output format and CORS response headers (no
  state); form and XML bodies; HTTP parsing and fasthttp's path normalisation
  (requests enter normalised); JSON text syntax (bodies enter as \<open>json\<close>
  values or a parser message); MongoDB's wire protocol, its tie order in sorts
  beyond stable order, and PCRE syntax beyond the fragment (the matcher reads
  other metacharacters as literals, so the theorems on the filter assume the
  fragment); Unicode case folding in the matcher (the theorems that depend on
  it assume ASCII titles); id generation across processes and counter
  wrap-around; interleavings finer than one store command.
\<close>

subsection \<open>Properties of the whole server\<close>

text \<open>
  C16. In every reachable state of the server, the identifiers of the stored
  tasks are unique and every task has \<open>createdAt \<le> updatedAt \<le> clock\<close>:
  the specification's invariants \<open>id\<close> unique and \<open>updatedAt \<ge> createdAt\<close>,
  for a clock that does not run backwards.
\<close>

theorem reachable_todo_inv: "reachable a \<Longrightarrow> todo_inv (db a)"
proof (induction rule: reachable.induct)
  case (init a)
  then show ?case by (simp add: todo_inv_def store_wf_def)
next
  case (step a a')
  then show ?case using app_step_inv by blast
qed

theorem reachable_todo_inv_witness:
  "reachable (e2e_state [e2e_task] 1) \<and> todo_inv (db (e2e_state [e2e_task] 1))"
proof -
  have r0: "reachable e2e_start" by (rule reachable.init) simp_all
  have r1: "reachable (e2e_state [e2e_task] 1)"
    by (rule reachable.step[OF r0 app_step.request[OF e2e_post]])
  show ?thesis using reachable_todo_inv[OF r1] r1 by simp
qed

text \<open>
  C17. No step of the server changes the \<open>createdAt\<close> of a task: a task
  stored after the step with the identifier of a task stored before it has the
  same \<open>createdAt\<close>.
\<close>

theorem app_step_keeps_created_at:
  assumes "app_step a a'" and "todo_inv (db a)" and "t \<in> set (docs (db a))" and "t' \<in> set (docs (db a'))"
    and "ID t' = ID t"
  shows "CreatedAt t' = CreatedAt t"
  using assms
proof (induction rule: app_step.induct)
  case (request req a resp a')
  then show ?case using serve_effect store_effect_created todo_inv_def by blast
qed (auto simp: todo_inv_def store_wf_def distinct_map dest: inj_onD)

theorem app_step_keeps_created_at_witness:
  "app_step (e2e_state [e2e_task] 1) (e2e_state [e2e_done] 2)
   \<and> todo_inv (db (e2e_state [e2e_task] 1)) \<and> e2e_task \<in> set (docs (db (e2e_state [e2e_task] 1)))
   \<and> e2e_done \<in> set (docs (db (e2e_state [e2e_done] 2)))
   \<and> ID (e2e_done) = ID e2e_task
   \<and> CreatedAt (e2e_done) = CreatedAt e2e_task"
proof -
  have st: "app_step (e2e_state [e2e_task] 1) (e2e_state [e2e_done] 2)"
    by (rule app_step.request[OF e2e_toggle])
  have inv: "todo_inv (db (e2e_state [e2e_task] 1))" by (simp add: todo_inv_def store_wf_def)
  show ?thesis
    using app_step_keeps_created_at[OF st inv, of e2e_task "e2e_done"] st inv by simp
qed

text \<open>
  C18. The end-to-end scenario of the specification, through the whole chain of
  middleware, routes and layers, on every reachable server with the store up, for
  a client with five requests left in its limiter window, when the next generated
  id is not stored yet, and for every title and description:
  \<open>POST /api/v1/todos\<close> answers 201 with the new task (\<open>complete = false\<close>,
  both timestamps the clock); \<open>PATCH /api/v1/todos/{id}/toggle\<close> 200 with
  \<open>complete = true\<close>; \<open>GET /api/v1/todos/{id}\<close> 200 with that task;
  \<open>DELETE\<close> 204; and \<open>GET\<close> then 404; the collection ends as it began.
\<close>

theorem spec_end_to_end_scenario:
  fixes ip title descr :: string
  assumes "reachable a" and "fault (db a) = None" and "fst (NewObjectID (db a)) \<notin> set (map ID (docs (db a)))"
    and "5 \<le> limiter_budget (limiter_ts a) (limits a ip)"
  defines "x \<equiv> object_id_hex (fst (NewObjectID (db a)))"
    and "t \<equiv> \<lparr>ID = fst (NewObjectID (db a)), Title = title, Description = descr, Complete = False,
               CreatedAt = clock (db a), UpdatedAt = clock (db a)\<rparr>"
  shows "fst (serve_all
           [client_req ip POST ''/api/v1/todos''
              (BodyJson (JObject [(''title'', JString title), (''description'', JString descr)])),
            client_req ip PATCH (todo_path x @ ''/toggle'') (BodyJson JNull),
            client_req ip GET (todo_path x) (BodyJson JNull),
            client_req ip DELETE (todo_path x) (BodyJson JNull),
            client_req ip GET (todo_path x) (BodyJson JNull)] a) =
          [SendSuccessResponse 201 ''Todo created with success!'' (Some (PTodo (Some t))) [],
           SendSuccessResponse 200 ''Status task completed changed'' (Some (PTodo (Some (t\<lparr>Complete := True\<rparr>)))) [],
           SendSuccessResponse 200 ''Task founded'' (Some (PTodo (Some (t\<lparr>Complete := True\<rparr>)))) [],
           SendSuccessResponse 204 ''Task deleted!'' None [],
           SendErrorResponse 404 ''Task not found'']
        \<and> docs (db (snd (serve_all
           [client_req ip POST ''/api/v1/todos''
              (BodyJson (JObject [(''title'', JString title), (''description'', JString descr)])),
            client_req ip PATCH (todo_path x @ ''/toggle'') (BodyJson JNull),
            client_req ip GET (todo_path x) (BodyJson JNull),
            client_req ip DELETE (todo_path x) (BodyJson JNull),
            client_req ip GET (todo_path x) (BodyJson JNull)] a))) = docs (db a)"
  (is "fst (serve_all ?rs a) = ?out \<and> docs (db (snd (serve_all ?rs a))) = _")
proof -
  let ?s0 = "db a" and ?oid = "fst (NewObjectID (db a))"
  have wf: "store_wf ?s0" and len: "length ?oid = 12"
    using reachable_wf[OF assms(1)] NewObjectID_length by auto
  have ex: "\<forall>e. limits a ip = Some e \<longrightarrow> 0 < exp e"
    using reachable_limits_inv[OF assms(1)] by (simp add: limits_inv_def)
  have old: "\<forall>d \<in> set (docs ?s0). ID d \<noteq> ?oid" using assms(3) by (force simp: image_iff)
  define s1 where "s1 = (snd (NewObjectID ?s0))\<lparr>docs := docs ?s0 @ [t]\<rparr>"
  have r1: "route_request (?rs ! 0) ?s0 =
      (Inr (SendSuccessResponse 201 ''Todo created with success!'' (Some (PTodo (Some t))) []), s1)"
    by (rule route_create_fresh[OF assms(2,3), of _ title descr, folded t_def, folded s1_def]) simp_all
  have s1: "fault s1 = None" "store_wf s1" "t \<in> set (docs s1)" "length (ID t) = 12" "clock s1 = clock ?s0"
    using assms(2,3) wf len by (simp_all add: s1_def t_def store_wf_def)
  define t2 where "t2 = t\<lparr>Complete := True\<rparr>"
  define s2 where "s2 = s1\<lparr>docs := docs ?s0 @ [t2]\<rparr>"
  have r2': "route_request (?rs ! 1) s1 =
      (Inr (SendSuccessResponse 200 ''Status task completed changed''
              (Some (PTodo (Some (t\<lparr>Complete := \<not> Complete t, UpdatedAt := clock s1\<rparr>)))) []),
       s1\<lparr>docs := map (\<lambda>d. if ID d = ID t then t\<lparr>Complete := \<not> Complete t, UpdatedAt := clock s1\<rparr> else d)
                       (docs s1)\<rparr>)"
    by (rule route_toggle_present[OF s1(1-4)]) (simp_all add: x_def t_def)
  have t2eq: "t\<lparr>Complete := \<not> Complete t, UpdatedAt := clock s1\<rparr> = t2" by (simp add: t2_def t_def s1(5))
  have mp: "map (\<lambda>d. if ID d = ID t then t2 else d) (docs s1) = docs ?s0 @ [t2]"
    using old by (simp add: s1_def t_def map_idI)
  have r2: "route_request (?rs ! 1) s1 =
      (Inr (SendSuccessResponse 200 ''Status task completed changed'' (Some (PTodo (Some t2))) []), s2)"
    using r2' by (simp only: t2eq mp s2_def)
  have s2: "fault s2 = None" "store_wf s2" "t2 \<in> set (docs s2)" "length (ID t2) = 12"
    using s1 wf assms(3) by (simp_all add: s2_def t2_def t_def store_wf_def s1_def)
  have r3: "route_request (?rs ! 2) s2 =
      (Inr (SendSuccessResponse 200 ''Task founded'' (Some (PTodo (Some t2))) []), s2)"
    by (rule route_get_present[OF s2]) (simp_all add: t2_def t_def x_def)
  define s4 where "s4 = s2\<lparr>docs := docs ?s0\<rparr>"
  have "filter (\<lambda>d. ID d \<noteq> ?oid) (docs s2) = docs ?s0"
    using old by (simp add: s2_def t2_def t_def)
  then have r4: "route_request (?rs ! 3) s2 = (Inr (SendSuccessResponse 204 ''Task deleted!'' None []), s4)"
    using route_delete_present[OF s2(1) _ len, of "?rs ! 3"] by (simp add: s2_def t2_def t_def x_def s4_def)
  have r5: "route_request (?rs ! 4) s4 = (Inr (SendErrorResponse 404 ''Task not found''), s4)"
    using route_get_absent[OF _ _ len, of s4 "?rs ! 4"] s2(1) assms(3) by (simp add: s4_def s2_def x_def)
  have "route_all ?rs ?s0 = (map Inr ?out, s4)"
    using r1 r2 r3 r4 r5 by (simp add: t2_def)
  moreover have "fst (serve_all ?rs a) = map recover_mw (fst (route_all ?rs ?s0))
                 \<and> db (snd (serve_all ?rs a)) = snd (route_all ?rs ?s0)"
    using assms(4) ex by (intro serve_all_admitted) (simp_all add: is_preflight_def)
  ultimately show ?thesis by (simp add: recover_mw_def s4_def s2_def s1_def)
qed

theorem spec_end_to_end_scenario_witness:
  "reachable e2e_start \<and> fault (db e2e_start) = None
   \<and> fst (NewObjectID (db e2e_start)) \<notin> set (map ID (docs (db e2e_start)))
   \<and> 5 \<le> limiter_budget (limiter_ts e2e_start) (limits e2e_start ''10.0.0.1'')
   \<and> fst (serve_all
           [e2e_req POST ''/api/v1/todos'' (BodyJson (JObject [(''title'', JString ''Buy milk''), (''description'', JString [])])),
            e2e_req PATCH (todo_path (object_id_hex (fst (NewObjectID (db e2e_start)))) @ ''/toggle'') (BodyJson JNull),
            e2e_req GET (todo_path (object_id_hex (fst (NewObjectID (db e2e_start))))) (BodyJson JNull),
            e2e_req DELETE (todo_path (object_id_hex (fst (NewObjectID (db e2e_start))))) (BodyJson JNull),
            e2e_req GET (todo_path (object_id_hex (fst (NewObjectID (db e2e_start))))) (BodyJson JNull)] e2e_start) =
          [SendSuccessResponse 201 ''Todo created with success!''
             (Some (PTodo (Some \<lparr>ID = fst (NewObjectID (db e2e_start)), Title = ''Buy milk'', Description = [],
                                 Complete = False, CreatedAt = 1700000060000, UpdatedAt = 1700000060000\<rparr>))) [],
           SendSuccessResponse 200 ''Status task completed changed''
             (Some (PTodo (Some \<lparr>ID = fst (NewObjectID (db e2e_start)), Title = ''Buy milk'', Description = [],
                                 Complete = True, CreatedAt = 1700000060000, UpdatedAt = 1700000060000\<rparr>))) [],
           SendSuccessResponse 200 ''Task founded''
             (Some (PTodo (Some \<lparr>ID = fst (NewObjectID (db e2e_start)), Title = ''Buy milk'', Description = [],
                                 Complete = True, CreatedAt = 1700000060000, UpdatedAt = 1700000060000\<rparr>))) [],
           SendSuccessResponse 204 ''Task deleted!'' None [],
           SendErrorResponse 404 ''Task not found'']"
proof -
  have r: "reachable e2e_start" by (rule reachable.init) simp_all
  have b: "5 \<le> limiter_budget (limiter_ts e2e_start) (limits e2e_start ''10.0.0.1'')"
    by (simp add: limiter_budget_def limiter_max_def)
  show ?thesis
    using spec_end_to_end_scenario[where a=e2e_start and ip="''10.0.0.1''" and title="''Buy milk''" and descr="[]"] r b
    by simp
qed

end
